theory Spec2Isabelle
  imports Complex_Main "HOL-Library.Word"
begin

unbundle bit_operations_syntax

section \<open>Machine integers, log, events and packets\<close>

text \<open>
  The event translators of libcaer read fixed-width units from a USB buffer and update a
  device state. The C integer types are words of their width: \<open>+\<close>, \<open>-\<close> and \<open>*\<close> wrap,
  \<open>uint\<close>/\<open>unat\<close> read a word as unsigned and \<open>sint\<close> as two's complement. The struct
  declarations (davis.h, davis_common.h, mipi_cx3.h) are not part of the sources; field
  widths follow the casts and format strings at the places of use.
\<close>

type_synonym uint8_t = "8 word"
type_synonym uint16_t = "16 word"
type_synonym int16_t = "16 word"
type_synonym uint32_t = "32 word"
type_synonym int32_t = "32 word"

definition INT32_MAX :: int where
  "INT32_MAX = 2147483647"

definition TS_WRAP_ADD :: int where
  "TS_WRAP_ADD = 0x8000"

datatype caer_log_level =
  CAER_LOG_CRITICAL | CAER_LOG_ALERT | CAER_LOG_ERROR | CAER_LOG_INFO

text \<open>
  A call of the device logger is recorded as its level and its message; calls at DEBUG
  level are not recorded.
\<close>

type_synonym logEntry = "caer_log_level \<times> string"

datatype special_event_type =
  TIMESTAMP_WRAP | TIMESTAMP_RESET
  | EXTERNAL_INPUT_RISING_EDGE | EXTERNAL_INPUT_FALLING_EDGE | EXTERNAL_INPUT_PULSE
  | DVS_ROW_ONLY
  | EXTERNAL_GENERATOR_RISING_EDGE | EXTERNAL_GENERATOR_FALLING_EDGE
  | APS_FRAME_START | APS_FRAME_END | APS_EXPOSURE_START | APS_EXPOSURE_END
  | EVENT_READOUT_START

record caer_special_event =
  se_timestamp :: int32_t
  se_type :: special_event_type
  se_data :: uint32_t

record caer_polarity_event =
  pe_timestamp :: int32_t
  pe_polarity :: bool
  pe_x :: uint16_t
  pe_y :: uint16_t

record caer_frame_event =
  fe_roiIdentifier :: nat
  fe_tsStartOfFrame :: int32_t
  fe_tsStartOfExposure :: int32_t
  fe_tsEndOfExposure :: int32_t
  fe_tsEndOfFrame :: int32_t
  fe_positionX :: uint16_t
  fe_positionY :: uint16_t
  fe_lengthX :: uint16_t
  fe_lengthY :: uint16_t
  fe_channelNumber :: nat
  fe_pixels :: "uint16_t list"

text \<open>
  The IMU values are C floats; they are modelled as reals, so the rounding of the
  single-precision division is not part of the model.
\<close>

record caer_imu6_event =
  ie_timestamp :: int32_t
  ie_accelX :: real
  ie_accelY :: real
  ie_accelZ :: real
  ie_temp :: real
  ie_gyroX :: real
  ie_gyroY :: real
  ie_gyroZ :: real

definition zero_imu6_event :: caer_imu6_event where
  "zero_imu6_event = \<lparr> ie_timestamp = 0, ie_accelX = 0, ie_accelY = 0, ie_accelZ = 0,
     ie_temp = 0, ie_gyroX = 0, ie_gyroY = 0, ie_gyroZ = 0 \<rparr>"

text \<open>
  An event packet is its header and its array of event slots. The length of the array is
  the packet's event capacity; a slot is \<open>None\<close> until an event has been written to it
  (the allocation zeroes the memory). \<open>pk_ident\<close> is the identity of the allocation (the
  pointer value in C): two packets are the same instance iff they have the same
  \<open>pk_ident\<close>. The counters that the \<open>...Validate\<close> functions of the event headers keep in
  the packet header are not part of the sources and are left out.
\<close>

record 'e eventPacket =
  pk_ident :: nat
  pk_eventSource :: int16_t
  pk_eventTSOverflow :: int32_t
  pk_events :: "'e option list"

definition caerEventPacketHeaderGetEventCapacity :: "'e eventPacket \<Rightarrow> nat" where
  "caerEventPacketHeaderGetEventCapacity p = length (pk_events p)"

text \<open>
  The heap as the translators see it: the next fresh packet identity, and whether an
  allocation request succeeds. A failing \<open>malloc\<close>/\<open>realloc\<close> is \<open>heap_available = False\<close>.
\<close>

record heap =
  heap_nextIdent :: nat
  heap_available :: bool

text \<open>
  Modelled from the spec: the packet allocators and \<open>caerEventPacketGrow\<close> of the events
  library are not in the sources. The spec describes an event packet as an owned,
  growable (capacity-doubling) contiguous sequence of events tagged with its source device
  and time-epoch offset; growing keeps the events written so far and the identity of
  the packet, and fails when no memory is available.
\<close>

definition caerEventPacketAllocate ::
  "nat \<Rightarrow> int16_t \<Rightarrow> int32_t \<Rightarrow> heap \<Rightarrow> 'e eventPacket option \<times> heap" where
  "caerEventPacketAllocate eventCapacity eventSource tsOverflow h =
     (if heap_available h
      then (Some \<lparr> pk_ident = heap_nextIdent h, pk_eventSource = eventSource,
                   pk_eventTSOverflow = tsOverflow,
                   pk_events = replicate eventCapacity None \<rparr>,
            h\<lparr> heap_nextIdent := Suc (heap_nextIdent h) \<rparr>)
      else (None, h))"

definition caerEventPacketGrow :: "'e eventPacket \<Rightarrow> nat \<Rightarrow> heap \<Rightarrow> 'e eventPacket option" where
  "caerEventPacketGrow p newCapacity h =
     (if heap_available h
      then Some (p\<lparr> pk_events := pk_events p @ replicate (newCapacity - length (pk_events p)) None \<rparr>)
      else None)"

text \<open>
  \<open>ensureSpaceForEvents\<close> (davis.c:31, the same function in the MIPI file): true when
  \<open>position + numEvents\<close> fits the capacity; otherwise the packet is grown once to twice
  its capacity, and the result is false (with a CRITICAL log entry) when growing fails.
  The result is the flag, the packet and the log entries written.
\<close>

definition ensureSpaceForEvents ::
  "heap \<Rightarrow> 'e eventPacket \<Rightarrow> nat \<Rightarrow> nat \<Rightarrow> bool \<times> 'e eventPacket \<times> logEntry list" where
  "ensureSpaceForEvents h packet position numEvents =
     (if position + numEvents \<le> caerEventPacketHeaderGetEventCapacity packet
      then (True, packet, [])
      else (case caerEventPacketGrow packet (caerEventPacketHeaderGetEventCapacity packet * 2) h of
              None \<Rightarrow> (False, packet, [(CAER_LOG_CRITICAL, ''Failed to grow event packet.'')])
            | Some grownPacket \<Rightarrow> (True, grownPacket, [])))"

text \<open>Writing the event at index \<open>position\<close> of a packet, as through \<open>...PacketGetEvent\<close>.\<close>

definition packetSetEvent :: "'e eventPacket \<Rightarrow> nat \<Rightarrow> 'e \<Rightarrow> 'e eventPacket" where
  "packetSetEvent packet position e = packet\<lparr> pk_events := (pk_events packet)[position := Some e] \<rparr>"


section \<open>The DAVIS device state (davis.c)\<close>

text \<open>
  Constants and chip tests of davis.h that the translator uses and the sources do not
  define. \<open>cfg_isDAVIS640H\<close> and \<open>cfg_isDAVIS240\<close> are the values of \<open>IS_DAVIS640H\<close> and
  \<open>IS_DAVIS240\<close> at the device's chip identifier.
\<close>

record davisConfig =
  cfg_deviceID :: int16_t
  cfg_isDAVIS640H :: bool
  cfg_isDAVIS240 :: bool
  cfg_APS_ADC_DEPTH :: nat
  cfg_APS_ADC_CHANNELS :: nat
  cfg_IMU_TYPE_TEMP :: uint8_t
  cfg_IMU_TYPE_GYRO :: uint8_t
  cfg_IMU_TYPE_ACCEL :: uint8_t
  cfg_POLARITY_DEFAULT_SIZE :: nat
  cfg_SPECIAL_DEFAULT_SIZE :: nat
  cfg_FRAME_DEFAULT_SIZE :: nat
  cfg_IMU_DEFAULT_SIZE :: nat

text \<open>Modelled from the spec: \<open>IMU_TOTAL_COUNT\<close>, the 14 fields of an IMU burst.\<close>

definition IMU_TOTAL_COUNT :: uint8_t where
  "IMU_TOTAL_COUNT = 14"

text \<open>The two readout phases; they index the arrays \<open>countX\<close> and \<open>countY\<close>.\<close>

datatype apsReadoutType = APS_READOUT_RESET | APS_READOUT_SIGNAL

record timestampsStateNewLogic =
  ts_wrapOverflow :: int32_t
  ts_wrapAdd :: int32_t
  ts_last :: int32_t
  ts_current :: int32_t

record dvsState =
  dvs_sizeX :: int16_t
  dvs_sizeY :: int16_t
  dvs_invertXY :: bool
  dvs_lastY :: uint16_t

record apsROI =
  roi_tmpData :: uint16_t
  roi_update :: uint8_t
  roi_positionX :: uint16_t
  roi_positionY :: uint16_t
  roi_sizeX :: uint16_t
  roi_sizeY :: uint16_t

record apsState =
  aps_ignoreEvents :: bool
  aps_globalShutter :: bool
  aps_flipX :: bool
  aps_flipY :: bool
  aps_invertXY :: bool
  aps_currentReadoutType :: apsReadoutType
  aps_countX :: "apsReadoutType \<Rightarrow> uint16_t"
  aps_countY :: "apsReadoutType \<Rightarrow> uint16_t"
  aps_expectedCountX :: uint16_t
  aps_expectedCountY :: uint16_t
  aps_roi :: apsROI
  aps_cDavisOffsetDirection :: uint8_t
  aps_cDavisOffset :: int16_t
  aps_tsStartFrame :: int32_t
  aps_tsStartExposure :: int32_t
  aps_tsEndExposure :: int32_t
  aps_pixels :: "uint16_t list"
  aps_autoExposureTmpData :: uint8_t
  aps_currentFrameExposure :: uint32_t

record imuState =
  imu_ignoreEvents :: bool
  imu_flipX :: bool
  imu_flipY :: bool
  imu_flipZ :: bool
  imu_type :: uint8_t
  imu_count :: uint8_t
  imu_tmpData :: uint8_t
  imu_accelScale :: real
  imu_gyroScale :: real
  imu_currentEvent :: caer_imu6_event

text \<open>
  The in-progress packets of the translator and their write positions. A position is a
  C \<open>int32_t\<close> that starts at zero, is incremented per event and is reset to zero at a
  commit; it is modelled as a natural number.
\<close>

record currentPackets =
  cp_polarity :: "caer_polarity_event eventPacket option"
  cp_polarityPosition :: nat
  cp_special :: "caer_special_event eventPacket option"
  cp_specialPosition :: nat
  cp_frame :: "caer_frame_event eventPacket option"
  cp_framePosition :: nat
  cp_imu6 :: "caer_imu6_event eventPacket option"
  cp_imu6Position :: nat

record caerEventPacketContainer =
  pc_polarity :: "caer_polarity_event eventPacket option"
  pc_special :: "caer_special_event eventPacket option"
  pc_frame :: "caer_frame_event eventPacket option"
  pc_imu6 :: "caer_imu6_event eventPacket option"

definition emptyPacketContainer :: caerEventPacketContainer where
  "emptyPacketContainer = \<lparr> pc_polarity = None, pc_special = None, pc_frame = None, pc_imu6 = None \<rparr>"

record containerGeneration =
  cg_currentPacketContainer :: "caerEventPacketContainer option"
  cg_maxPacketContainerPacketSize :: int32_t
  cg_maxPacketContainerInterval :: int32_t
  cg_currentPacketContainerCommitTimestamp :: int

text \<open>
  The data exchange is the bounded ring buffer between the translator and the consumer:
  the containers inserted and not yet taken, oldest first, and the capacity.
\<close>

record dataExchange =
  dx_capacity :: nat
  dx_buffer :: "caerEventPacketContainer list"

record davisState =
  dataTransfersRun :: bool
  timestamps :: timestampsStateNewLogic
  dvs :: dvsState
  aps :: apsState
  imu :: imuState
  currentPackets :: currentPackets
  container :: containerGeneration
  dataExchange :: dataExchange
  memory :: heap
  logged :: "logEntry list"

definition davisLog :: "caer_log_level \<Rightarrow> string \<Rightarrow> davisState \<Rightarrow> davisState" where
  "davisLog level msg s = s\<lparr> logged := logged s @ [(level, msg)] \<rparr>"


section \<open>Helpers that the sources call and do not define\<close>

text \<open>
  Modelled from the spec: the timestamp engine of the current translator
  (\<open>handleTimestampUpdateNewLogic\<close>, \<open>handleTimestampResetNewLogic\<close>,
  \<open>handleTimestampWrapNewLogic\<close>) is not in the sources. The spec's words:
  applyMainTimestamp sets last to current and computes current from the 15-bit field plus
  the wrap base, a violation of strict monotonicity being logged at ALERT level;
  applyReset zeroes every timestamp field; applyWrap multiplies the wrap unit by the wrap
  count and adds it to the wrap base in 64 bits, and past \<open>INT32_MAX\<close> it resets the wrap
  base to the remainder, resets current and last to the new base, increments wrapOverflow
  and signals a forced commit, and otherwise it updates the wrap base and signals none.
\<close>

definition checkStrictMonotonicTimestamp :: "int32_t \<Rightarrow> int32_t \<Rightarrow> logEntry list" where
  "checkStrictMonotonicTimestamp currentTimestamp lastTimestamp =
     (if sint currentTimestamp \<le> sint lastTimestamp
      then [(CAER_LOG_ALERT, ''Timestamps: non strictly-monotonic timestamp detected.'')]
      else [])"

definition handleTimestampUpdateNewLogic :: "uint16_t \<Rightarrow> davisState \<Rightarrow> davisState" where
  "handleTimestampUpdateNewLogic event s =
     (let ts = timestamps s;
          ts' = ts\<lparr> ts_last := ts_current ts,
                    ts_current := ts_wrapAdd ts + ucast (event AND 0x7FFF) \<rparr>
      in s\<lparr> timestamps := ts',
            logged := logged s @ checkStrictMonotonicTimestamp (ts_current ts') (ts_last ts') \<rparr>)"

definition handleTimestampResetNewLogic :: "davisState \<Rightarrow> davisState" where
  "handleTimestampResetNewLogic s =
     s\<lparr> timestamps := \<lparr> ts_wrapOverflow = 0, ts_wrapAdd = 0, ts_last = 0, ts_current = 0 \<rparr> \<rparr>"

definition handleTimestampWrapNewLogic :: "uint16_t \<Rightarrow> int \<Rightarrow> davisState \<Rightarrow> bool \<times> davisState" where
  "handleTimestampWrapNewLogic wrapData wrapAdd s =
     (let ts = timestamps s;
          wrapJump = wrapAdd * uint wrapData;
          wrapSum = sint (ts_wrapAdd ts) + wrapJump
      in if wrapSum > INT32_MAX
         then (let wrapRemainder = wrapSum - INT32_MAX - 1
               in (True, s\<lparr> timestamps := ts\<lparr> ts_wrapAdd := word_of_int wrapRemainder,
                                                ts_last := word_of_int wrapRemainder,
                                                ts_current := word_of_int wrapRemainder,
                                                ts_wrapOverflow := ts_wrapOverflow ts + 1 \<rparr> \<rparr>))
         else (let ts' = ts\<lparr> ts_wrapAdd := word_of_int wrapSum,
                             ts_last := ts_current ts,
                             ts_current := word_of_int wrapSum \<rparr>
               in (False, s\<lparr> timestamps := ts',
                     logged := logged s @ checkStrictMonotonicTimestamp (ts_current ts') (ts_last ts') \<rparr>)))"

text \<open>
  Modelled from the spec: the container generation (\<open>containerGeneration...\<close>) is not in
  the sources. The commit timestamp is \<open>-1\<close> while none is recorded (the MIPI translator
  tests it against \<open>-1\<close>, and \<open>...CommitTimestampReset\<close> is called at data start). The
  spec's words for the time trigger: the span between the container's first recorded
  commit-timestamp and the current timestamp exceeds the configured maximum interval.
\<close>

definition containerGenerationAllocate :: "heap \<Rightarrow> containerGeneration \<Rightarrow> bool \<times> containerGeneration" where
  "containerGenerationAllocate h c =
     (case cg_currentPacketContainer c of
        Some pc \<Rightarrow> (True, c)
      | None \<Rightarrow> (if heap_available h
                 then (True, c\<lparr> cg_currentPacketContainer := Some emptyPacketContainer \<rparr>)
                 else (False, c)))"

definition containerGenerationCommitTimestampReset :: "containerGeneration \<Rightarrow> containerGeneration" where
  "containerGenerationCommitTimestampReset c = c\<lparr> cg_currentPacketContainerCommitTimestamp := - 1 \<rparr>"

definition containerGenerationCommitTimestampInit :: "int32_t \<Rightarrow> containerGeneration \<Rightarrow> containerGeneration" where
  "containerGenerationCommitTimestampInit currentTimestamp c =
     (if cg_currentPacketContainerCommitTimestamp c = - 1
      then c\<lparr> cg_currentPacketContainerCommitTimestamp := sint currentTimestamp \<rparr>
      else c)"

definition containerGenerationGetMaxPacketSize :: "containerGeneration \<Rightarrow> int32_t" where
  "containerGenerationGetMaxPacketSize c = cg_maxPacketContainerPacketSize c"

definition generateFullTimestamp :: "int32_t \<Rightarrow> int32_t \<Rightarrow> int" where
  "generateFullTimestamp tsOverflow timestamp = sint tsOverflow * 2 ^ 31 + sint timestamp"

definition containerGenerationIsCommitTimestampElapsed ::
  "containerGeneration \<Rightarrow> int32_t \<Rightarrow> int32_t \<Rightarrow> bool" where
  "containerGenerationIsCommitTimestampElapsed c tsWrapOverflow tsCurrent =
     (cg_currentPacketContainerCommitTimestamp c \<noteq> - 1
      \<and> generateFullTimestamp tsWrapOverflow tsCurrent - cg_currentPacketContainerCommitTimestamp c
          > sint (cg_maxPacketContainerInterval c))"

datatype packetSlot =
  SLOT_POLARITY "caer_polarity_event eventPacket option"
  | SLOT_SPECIAL "caer_special_event eventPacket option"
  | SLOT_FRAME "caer_frame_event eventPacket option"
  | SLOT_IMU6 "caer_imu6_event eventPacket option"

fun setEventPacket :: "packetSlot \<Rightarrow> caerEventPacketContainer \<Rightarrow> caerEventPacketContainer" where
  "setEventPacket (SLOT_POLARITY p) pc = pc\<lparr> pc_polarity := p \<rparr>"
| "setEventPacket (SLOT_SPECIAL p) pc = pc\<lparr> pc_special := p \<rparr>"
| "setEventPacket (SLOT_FRAME p) pc = pc\<lparr> pc_frame := p \<rparr>"
| "setEventPacket (SLOT_IMU6 p) pc = pc\<lparr> pc_imu6 := p \<rparr>"

definition containerGenerationSetPacket :: "packetSlot \<Rightarrow> containerGeneration \<Rightarrow> containerGeneration" where
  "containerGenerationSetPacket slot c =
     c\<lparr> cg_currentPacketContainer := map_option (setEventPacket slot) (cg_currentPacketContainer c) \<rparr>"

text \<open>
  Modelled from the spec: the data exchange and \<open>containerGenerationExecute\<close> are not in
  the sources. The spec's words: the sealed container is handed to the data exchange, a
  bounded ring buffer; an ordinary container is inserted without blocking and, when the
  buffer is full, discarded with an INFO log entry; a container carrying a reset or wrap
  marker is inserted blocking, the producer retrying until there is space. The translator
  runs alone in this model, so a blocking insertion into a full buffer does not return:
  its result is \<open>None\<close>. The timestamp reset marker is committed alone, in a container of
  its own (the translator defers it to the commit, davis.c:2486).
\<close>

definition dataExchangePut :: "caerEventPacketContainer \<Rightarrow> dataExchange \<Rightarrow> dataExchange option" where
  "dataExchangePut pc dx =
     (if length (dx_buffer dx) < dx_capacity dx
      then Some (dx\<lparr> dx_buffer := dx_buffer dx @ [pc] \<rparr>)
      else None)"

definition carriesWrapMarker :: "caerEventPacketContainer \<Rightarrow> bool" where
  "carriesWrapMarker pc =
     (case pc_special pc of
        None \<Rightarrow> False
      | Some p \<Rightarrow> list_ex (\<lambda>e. case e of None \<Rightarrow> False | Some ev \<Rightarrow> se_type ev = TIMESTAMP_WRAP)
                    (pk_events p))"

definition timestampResetContainer :: "int16_t \<Rightarrow> int32_t \<Rightarrow> nat \<Rightarrow> caerEventPacketContainer" where
  "timestampResetContainer deviceID tsWrapOverflow ident =
     emptyPacketContainer\<lparr> pc_special :=
       Some \<lparr> pk_ident = ident, pk_eventSource = deviceID, pk_eventTSOverflow = tsWrapOverflow,
              pk_events = [Some \<lparr> se_timestamp = word_of_int INT32_MAX, se_type = TIMESTAMP_RESET,
                                  se_data = 0 \<rparr>] \<rparr> \<rparr>"

definition containerGenerationExecute ::
  "bool \<Rightarrow> bool \<Rightarrow> int32_t \<Rightarrow> int32_t \<Rightarrow> int16_t
   \<Rightarrow> containerGeneration \<times> dataExchange \<times> heap
   \<Rightarrow> (containerGeneration \<times> dataExchange \<times> heap \<times> logEntry list) option" where
  "containerGenerationExecute emptyContainerCommit tsReset tsWrapOverflow tsCurrent deviceID =
     (\<lambda>(c, dx0, h).
      let c1 = (if containerGenerationIsCommitTimestampElapsed c tsWrapOverflow tsCurrent
                then c\<lparr> cg_currentPacketContainerCommitTimestamp :=
                          generateFullTimestamp tsWrapOverflow tsCurrent \<rparr>
                else c);
          c2 = c1\<lparr> cg_currentPacketContainer := None \<rparr>;
          handed =
            (case cg_currentPacketContainer c of
               None \<Rightarrow> Some (dx0, [])
             | Some pc \<Rightarrow>
                 (case dataExchangePut pc dx0 of
                    Some dx \<Rightarrow> Some (dx, [])
                  | None \<Rightarrow>
                      (if carriesWrapMarker pc then None
                       else Some (dx0,
                              [(CAER_LOG_INFO, ''Dropped EventPacket Container because ring-buffer full!'')]))))
      in case handed of
           None \<Rightarrow> None
         | Some (dx, msgs) \<Rightarrow>
             (if tsReset
              then (case dataExchangePut (timestampResetContainer deviceID tsWrapOverflow (heap_nextIdent h)) dx of
                      None \<Rightarrow> None
                    | Some dx' \<Rightarrow> Some (c2, dx', h\<lparr> heap_nextIdent := Suc (heap_nextIdent h) \<rparr>, msgs))
              else Some (c2, dx, h, msgs)))"


section \<open>The DAVIS event translator (davis.c:2394)\<close>

text \<open>
  The source repeats one block wherever it sends a special event: ensure space for one
  event in the special packet, write timestamp and type at the write position, advance the
  position. A null packet cannot occur there, since the loop body allocates the packets
  first; the model leaves the state as it is in that case.
\<close>

definition emitSpecialEvent :: "special_event_type \<Rightarrow> int32_t \<Rightarrow> davisState \<Rightarrow> davisState" where
  "emitSpecialEvent ty ts s =
     (case cp_special (currentPackets s) of
        None \<Rightarrow> s
      | Some packet \<Rightarrow>
          (case ensureSpaceForEvents (memory s) packet (cp_specialPosition (currentPackets s)) 1 of
             (ok, packet', msgs) \<Rightarrow>
               (if ok
                then s\<lparr> currentPackets := (currentPackets s)
                          \<lparr> cp_special := Some (packetSetEvent packet' (cp_specialPosition (currentPackets s))
                                                 \<lparr> se_timestamp = ts, se_type = ty, se_data = 0 \<rparr>),
                            cp_specialPosition := cp_specialPosition (currentPackets s) + 1 \<rparr> \<rparr>
                else s\<lparr> logged := logged s @ msgs \<rparr>)))"

definition apsInitFrame :: "davisState \<Rightarrow> davisState" where
  "apsInitFrame s =
     (let a = aps s;
          a' = a\<lparr> aps_ignoreEvents := False,
                  aps_autoExposureTmpData := 0,
                  aps_currentFrameExposure := 0,
                  aps_roi := (aps_roi a)\<lparr> roi_tmpData := 0, roi_update := 0 \<rparr>,
                  aps_currentReadoutType := APS_READOUT_RESET,
                  aps_countX := (\<lambda>i. 0),
                  aps_countY := (\<lambda>i. 0),
                  aps_tsStartFrame := ts_current (timestamps s) \<rparr>
      in emitSpecialEvent APS_FRAME_START (ts_current (timestamps s)) (s\<lparr> aps := a' \<rparr>))"

definition apsROIUpdateSizes :: "apsState \<Rightarrow> apsState" where
  "apsROIUpdateSizes a =
     (let startColumn = roi_positionX (aps_roi a);
          startRow = roi_positionY (aps_roi a);
          endColumn = roi_sizeX (aps_roi a);
          endRow = roi_sizeY (aps_roi a);
          r = (aps_roi a)\<lparr> roi_sizeX := endColumn + 1 - startColumn,
                           roi_sizeY := endRow + 1 - startRow \<rparr>
      in if aps_invertXY a
         then a\<lparr> aps_roi := r, aps_expectedCountX := roi_sizeY r, aps_expectedCountY := roi_sizeX r \<rparr>
         else a\<lparr> aps_roi := r, aps_expectedCountX := roi_sizeX r, aps_expectedCountY := roi_sizeY r \<rparr>)"

text \<open>
  \<open>apsUpdateFrame\<close> (davis.c:222). The index \<open>yPos * roi.sizeX + xPos\<close> is computed in C
  \<open>int\<close>; it is exact here (C is undefined when the product passes \<open>INT_MAX\<close>). An access
  past the end of the pixel array is undefined in C; the model leaves the array as it is.
  \<open>htole16\<close> fixes the byte order in memory; a pixel is its 16-bit value here.
\<close>

definition apsPixelPosition :: "davisConfig \<Rightarrow> apsState \<Rightarrow> nat" where
  "apsPixelPosition cfg a =
     (let xPos0 = (if aps_flipX a
                   then aps_expectedCountX a - 1 - aps_countX a (aps_currentReadoutType a)
                   else aps_countX a (aps_currentReadoutType a));
          yPos0 = (if aps_flipY a
                   then aps_expectedCountY a - 1 - aps_countY a (aps_currentReadoutType a)
                   else aps_countY a (aps_currentReadoutType a));
          yPos1 = (if cfg_isDAVIS640H cfg then yPos0 + aps_cDavisOffset a else yPos0);
          xPos = (if aps_invertXY a then yPos1 else xPos0);
          yPos = (if aps_invertXY a then xPos0 else yPos1)
      in unat yPos * unat (roi_sizeX (aps_roi a)) + unat xPos)"

definition apsCDSPixelValue :: "davisConfig \<Rightarrow> uint16_t \<Rightarrow> uint16_t \<Rightarrow> uint16_t" where
  "apsCDSPixelValue cfg resetValue signalValue =
     (let pixelValue0 =
            (if resetValue < 384 \<or> signalValue = 0
             then 1023
             else (let d = uint resetValue - uint signalValue;
                       d1 = (if d < 0 then 0 else d)
                   in if d1 > 1023 then 1023 else d1));
          pixelValue = pixelValue0 * 2 ^ (16 - cfg_APS_ADC_DEPTH cfg)
      in word_of_int pixelValue)"

definition apsUpdateFrame :: "davisConfig \<Rightarrow> uint16_t \<Rightarrow> apsState \<Rightarrow> apsState" where
  "apsUpdateFrame cfg data a =
     (let pixelPosition = apsPixelPosition cfg a;
          isCDavisGS = (cfg_isDAVIS640H cfg \<and> aps_globalShutter a);
          a1 = (if \<not> pixelPosition < length (aps_pixels a) then a
                else if (aps_currentReadoutType a = APS_READOUT_RESET \<and> \<not> isCDavisGS)
                   \<or> (aps_currentReadoutType a = APS_READOUT_SIGNAL \<and> isCDavisGS)
                then a\<lparr> aps_pixels := (aps_pixels a)[pixelPosition := data] \<rparr>
                else (let resetValue = (if isCDavisGS then data else aps_pixels a ! pixelPosition);
                          signalValue = (if isCDavisGS then aps_pixels a ! pixelPosition else data)
                      in a\<lparr> aps_pixels :=
                              (aps_pixels a)[pixelPosition := apsCDSPixelValue cfg resetValue signalValue] \<rparr>))
      in if cfg_isDAVIS640H cfg
         then (if aps_cDavisOffsetDirection a1 = 0
               then (if aps_cDavisOffset a1 + 1 = 321
                     then a1\<lparr> aps_cDavisOffsetDirection := 1, aps_cDavisOffset := 318 \<rparr>
                     else a1\<lparr> aps_cDavisOffset := aps_cDavisOffset a1 + 1 \<rparr>)
               else a1\<lparr> aps_cDavisOffset := aps_cDavisOffset a1 - 3 \<rparr>)
         else a1)"

text \<open>
  \<open>apsEndFrame\<close> (davis.c:335): the frame is valid when the column counter of each
  readout type equals the expected column count; each mismatch is logged at ERROR level.
  The APS_FRAME_END special event is sent in both cases.
\<close>

definition apsEndFrameCheck :: "apsState \<Rightarrow> apsReadoutType \<Rightarrow> logEntry list" where
  "apsEndFrameCheck a i =
     (if aps_countX a i \<noteq> aps_expectedCountX a
      then [(CAER_LOG_ERROR, ''APS Frame End: wrong column count detected.'')]
      else [])"

definition apsEndFrame :: "davisState \<Rightarrow> bool \<times> davisState" where
  "apsEndFrame s =
     (let msgs = apsEndFrameCheck (aps s) APS_READOUT_RESET @ apsEndFrameCheck (aps s) APS_READOUT_SIGNAL;
          validFrame = (aps_countX (aps s) APS_READOUT_RESET = aps_expectedCountX (aps s)
                        \<and> aps_countX (aps s) APS_READOUT_SIGNAL = aps_expectedCountX (aps s))
      in (validFrame,
          emitSpecialEvent APS_FRAME_END (ts_current (timestamps s)) (s\<lparr> logged := logged s @ msgs \<rparr>)))"

text \<open>
  The frame event built at a valid frame end (davis.c:2642): timestamps, ROI position and
  size, and the pixels copied from the frame buffer. The automatic exposure control that
  follows in the source calls \<open>autoExposureCalculate\<close> (not in the sources) and queues an
  SPI request; it writes no field of this state and is left out.
\<close>

definition apsFrameEvent :: "davisConfig \<Rightarrow> davisState \<Rightarrow> caer_frame_event" where
  "apsFrameEvent cfg s =
     \<lparr> fe_roiIdentifier = 0,
       fe_tsStartOfFrame = aps_tsStartFrame (aps s),
       fe_tsStartOfExposure = aps_tsStartExposure (aps s),
       fe_tsEndOfExposure = aps_tsEndExposure (aps s),
       fe_tsEndOfFrame = ts_current (timestamps s),
       fe_positionX = roi_positionX (aps_roi (aps s)),
       fe_positionY = roi_positionY (aps_roi (aps s)),
       fe_lengthX = roi_sizeX (aps_roi (aps s)),
       fe_lengthY = roi_sizeY (aps_roi (aps s)),
       fe_channelNumber = cfg_APS_ADC_CHANNELS cfg,
       fe_pixels = take (unat (roi_sizeX (aps_roi (aps s))) * unat (roi_sizeY (aps_roi (aps s)))
                          * cfg_APS_ADC_CHANNELS cfg) (aps_pixels (aps s)) \<rparr>"

definition apsFrameEnd :: "davisConfig \<Rightarrow> davisState \<Rightarrow> davisState" where
  "apsFrameEnd cfg s =
     (if aps_ignoreEvents (aps s) then s
      else (case apsEndFrame s of
              (validFrame, s1) \<Rightarrow>
                (if validFrame
                 then (case cp_frame (currentPackets s1) of
                         None \<Rightarrow> s1
                       | Some packet \<Rightarrow>
                           (case ensureSpaceForEvents (memory s1) packet (cp_framePosition (currentPackets s1)) 1 of
                              (ok, packet', msgs) \<Rightarrow>
                                (if ok
                                 then s1\<lparr> currentPackets := (currentPackets s1)
                                            \<lparr> cp_frame := Some (packetSetEvent packet'
                                                 (cp_framePosition (currentPackets s1)) (apsFrameEvent cfg s1)),
                                              cp_framePosition := cp_framePosition (currentPackets s1) + 1 \<rparr> \<rparr>
                                 else s1\<lparr> logged := logged s1 @ msgs \<rparr>)))
                 else s1)))"


text \<open>
  The IMU sample bytes (misc8 code 0, davis.c:2959). Odd steps combine the stored high
  byte with the low byte into a signed 16-bit sample.
\<close>

definition imuSample :: "uint8_t \<Rightarrow> uint8_t \<Rightarrow> bool \<Rightarrow> int16_t" where
  "imuSample tmpData misc8Data flip =
     (let v = (push_bit 8 (ucast tmpData) OR ucast misc8Data :: int16_t)
      in if flip then - v else v)"

definition imuDataEvent :: "davisConfig \<Rightarrow> uint8_t \<Rightarrow> davisState \<Rightarrow> davisState" where
  "imuDataEvent cfg misc8Data s =
     (if imu_ignoreEvents (imu s) then s
      else (let m = imu s;
                ev = imu_currentEvent m;
                n = imu_count m;
                s1 =
                  (if n = 0 \<or> n = 2 \<or> n = 4 \<or> n = 6 \<or> n = 8 \<or> n = 10 \<or> n = 12
                   then s\<lparr> imu := m\<lparr> imu_tmpData := misc8Data \<rparr> \<rparr>
                   else if n = 1
                   then s\<lparr> imu := m\<lparr> imu_currentEvent := ev\<lparr> ie_accelX :=
                          real_of_int (sint (imuSample (imu_tmpData m) misc8Data (imu_flipX m))) / imu_accelScale m \<rparr> \<rparr> \<rparr>
                   else if n = 3
                   then s\<lparr> imu := m\<lparr> imu_currentEvent := ev\<lparr> ie_accelY :=
                          real_of_int (sint (imuSample (imu_tmpData m) misc8Data (imu_flipY m))) / imu_accelScale m \<rparr> \<rparr> \<rparr>
                   else if n = 5
                   then s\<lparr> imu := m\<lparr> imu_currentEvent := ev\<lparr> ie_accelZ :=
                          real_of_int (sint (imuSample (imu_tmpData m) misc8Data (imu_flipZ m))) / imu_accelScale m \<rparr>,
                        imu_count :=
                          (if imu_type m AND cfg_IMU_TYPE_TEMP cfg = 0
                           then (if imu_type m AND cfg_IMU_TYPE_GYRO cfg \<noteq> 0 then n + 2 else n + 8)
                           else n) \<rparr> \<rparr>
                   else if n = 7
                   then s\<lparr> imu := m\<lparr> imu_currentEvent := ev\<lparr> ie_temp :=
                          real_of_int (sint (imuSample (imu_tmpData m) misc8Data False)) / 340 + 36.53 \<rparr>,
                        imu_count := (if imu_type m AND cfg_IMU_TYPE_GYRO cfg = 0 then n + 6 else n) \<rparr> \<rparr>
                   else if n = 9
                   then s\<lparr> imu := m\<lparr> imu_currentEvent := ev\<lparr> ie_gyroX :=
                          real_of_int (sint (imuSample (imu_tmpData m) misc8Data (imu_flipX m))) / imu_gyroScale m \<rparr> \<rparr> \<rparr>
                   else if n = 11
                   then s\<lparr> imu := m\<lparr> imu_currentEvent := ev\<lparr> ie_gyroY :=
                          real_of_int (sint (imuSample (imu_tmpData m) misc8Data (imu_flipY m))) / imu_gyroScale m \<rparr> \<rparr> \<rparr>
                   else if n = 13
                   then s\<lparr> imu := m\<lparr> imu_currentEvent := ev\<lparr> ie_gyroZ :=
                          real_of_int (sint (imuSample (imu_tmpData m) misc8Data (imu_flipZ m))) / imu_gyroScale m \<rparr> \<rparr> \<rparr>
                   else davisLog CAER_LOG_ERROR ''Got invalid IMU update sequence.'' s)
            in s1\<lparr> imu := (imu s1)\<lparr> imu_count := imu_count (imu s1) + 1 \<rparr> \<rparr>))"

definition calculateIMUAccelScale :: "uint8_t \<Rightarrow> real" where
  "calculateIMUAccelScale imuAccelScale = 65536 / real (4 * 2 ^ unat imuAccelScale)"

definition calculateIMUGyroScale :: "uint8_t \<Rightarrow> real" where
  "calculateIMUGyroScale imuGyroScale = 65536 / real (500 * 2 ^ unat imuGyroScale)"

definition imuScaleConfig :: "davisConfig \<Rightarrow> uint16_t \<Rightarrow> davisState \<Rightarrow> davisState" where
  "imuScaleConfig cfg data s =
     (if imu_ignoreEvents (imu s) then s
      else (let ty = (ucast (drop_bit 5 data AND 0x07) :: uint8_t);
                m = (imu s)\<lparr> imu_accelScale := calculateIMUAccelScale (ucast (drop_bit 2 data AND 0x03)),
                              imu_gyroScale := calculateIMUGyroScale (ucast (data AND 0x03)),
                              imu_type := ty \<rparr>
            in if ty AND cfg_IMU_TYPE_ACCEL cfg \<noteq> 0
               then s\<lparr> imu := m\<lparr> imu_count := 0 \<rparr> \<rparr>
               else if ty AND cfg_IMU_TYPE_TEMP cfg \<noteq> 0
               then s\<lparr> imu := m\<lparr> imu_count := 6 \<rparr> \<rparr>
               else if ty AND cfg_IMU_TYPE_GYRO cfg \<noteq> 0
               then s\<lparr> imu := m\<lparr> imu_count := 8 \<rparr> \<rparr>
               else davisLog CAER_LOG_ERROR ''IMU Scale Config: no IMU sensors enabled.''
                      (s\<lparr> imu := m\<lparr> imu_count := 14 \<rparr> \<rparr>)))"

text \<open>The IMU End marker (special event 7, davis.c:2558).\<close>

definition imuEnd :: "davisState \<Rightarrow> davisState" where
  "imuEnd s =
     (if imu_ignoreEvents (imu s) then s
      else if imu_count (imu s) = IMU_TOTAL_COUNT
      then (let s1 = s\<lparr> imu := (imu s)\<lparr> imu_currentEvent :=
                          (imu_currentEvent (imu s))\<lparr> ie_timestamp := ts_current (timestamps s) \<rparr> \<rparr> \<rparr>
            in case cp_imu6 (currentPackets s1) of
                 None \<Rightarrow> s1
               | Some packet \<Rightarrow>
                   (case ensureSpaceForEvents (memory s1) packet (cp_imu6Position (currentPackets s1)) 1 of
                      (ok, packet', msgs) \<Rightarrow>
                        (if ok
                         then s1\<lparr> currentPackets := (currentPackets s1)
                                    \<lparr> cp_imu6 := Some (packetSetEvent packet'
                                         (cp_imu6Position (currentPackets s1)) (imu_currentEvent (imu s1))),
                                      cp_imu6Position := cp_imu6Position (currentPackets s1) + 1 \<rparr> \<rparr>
                         else s1\<lparr> logged := logged s1 @ msgs \<rparr>)))
      else davisLog CAER_LOG_INFO ''IMU End: failed to validate IMU sample count, discarding samples.'' s)"

text \<open>
  The special events (code 0, davis.c:2473). The result is the state and the flag
  \<open>tsReset\<close>. The asynchronous SPI request of the timestamp reset (master/slave status)
  is a USB control transfer and is left out.
\<close>

definition davisSpecialEvent :: "davisConfig \<Rightarrow> uint16_t \<Rightarrow> davisState \<Rightarrow> bool \<times> davisState" where
  "davisSpecialEvent cfg data s =
     (if data = 0 then (False, davisLog CAER_LOG_ERROR ''Caught special reserved event!'' s)
      else if data = 1
      then (let s1 = handleTimestampResetNewLogic s;
                c1 = containerGenerationCommitTimestampInit (ts_current (timestamps s1))
                       (containerGenerationCommitTimestampReset (container s1))
            in (True, s1\<lparr> container := c1 \<rparr>))
      else if data = 2 then (False, emitSpecialEvent EXTERNAL_INPUT_FALLING_EDGE (ts_current (timestamps s)) s)
      else if data = 3 then (False, emitSpecialEvent EXTERNAL_INPUT_RISING_EDGE (ts_current (timestamps s)) s)
      else if data = 4 then (False, emitSpecialEvent EXTERNAL_INPUT_PULSE (ts_current (timestamps s)) s)
      else if data = 5
      then (False, s\<lparr> imu := (imu s)\<lparr> imu_ignoreEvents := False, imu_count := 0, imu_type := 0,
                                       imu_currentEvent := zero_imu6_event \<rparr> \<rparr>)
      else if data = 7 then (False, imuEnd s)
      else if data = 8
      then (False, apsInitFrame (s\<lparr> aps := (aps s)\<lparr> aps_globalShutter := True \<rparr> \<rparr>))
      else if data = 9
      then (False, apsInitFrame (s\<lparr> aps := (aps s)\<lparr> aps_globalShutter := False \<rparr> \<rparr>))
      else if data = 10 then (False, apsFrameEnd cfg s)
      else if data = 11
      then (if aps_ignoreEvents (aps s) then (False, s)
            else (False, s\<lparr> aps := (aps s)\<lparr> aps_currentReadoutType := APS_READOUT_RESET,
                                            aps_countY := (aps_countY (aps s))(APS_READOUT_RESET := 0),
                                            aps_cDavisOffsetDirection := 0,
                                            aps_cDavisOffset := 1 \<rparr> \<rparr>))
      else if data = 12
      then (if aps_ignoreEvents (aps s) then (False, s)
            else (False, s\<lparr> aps := (aps s)\<lparr> aps_currentReadoutType := APS_READOUT_SIGNAL,
                                            aps_countY := (aps_countY (aps s))(APS_READOUT_SIGNAL := 0),
                                            aps_cDavisOffsetDirection := 0,
                                            aps_cDavisOffset := 1 \<rparr> \<rparr>))
      else if data = 13
      then (if aps_ignoreEvents (aps s) then (False, s)
            else (let a = aps s;
                      t = aps_currentReadoutType a;
                      s1 = (if aps_countY a t \<noteq> aps_expectedCountY a
                            then davisLog CAER_LOG_ERROR ''APS Column End: wrong row count detected.'' s
                            else s)
                  in (False, s1\<lparr> aps := a\<lparr> aps_countX := (aps_countX a)(t := aps_countX a t + 1) \<rparr> \<rparr>)))
      else if data = 14
      then (if aps_ignoreEvents (aps s) then (False, s)
            else (False, emitSpecialEvent APS_EXPOSURE_START (ts_current (timestamps s))
                           (s\<lparr> aps := (aps s)\<lparr> aps_tsStartExposure := ts_current (timestamps s) \<rparr> \<rparr>)))
      else if data = 15
      then (if aps_ignoreEvents (aps s) then (False, s)
            else (False, emitSpecialEvent APS_EXPOSURE_END (ts_current (timestamps s))
                           (s\<lparr> aps := (aps s)\<lparr> aps_tsEndExposure := ts_current (timestamps s) \<rparr> \<rparr>)))
      else if data = 16
      then (False, emitSpecialEvent EXTERNAL_GENERATOR_FALLING_EDGE (ts_current (timestamps s)) s)
      else if data = 17
      then (False, emitSpecialEvent EXTERNAL_GENERATOR_RISING_EDGE (ts_current (timestamps s)) s)
      else (False, davisLog CAER_LOG_ERROR ''Caught special event that can't be handled.'' s))"


text \<open>
  The DVS addresses (codes 1, 2 and 3, davis.c:2879). The 12-bit address is compared with
  the signed 16-bit sensor size after the integer promotions of C.
\<close>

definition davisYAddress :: "uint16_t \<Rightarrow> davisState \<Rightarrow> davisState" where
  "davisYAddress data s =
     (if uint data \<ge> sint (dvs_sizeY (dvs s))
      then davisLog CAER_LOG_ALERT ''DVS: Y address out of range.'' s
      else s\<lparr> dvs := (dvs s)\<lparr> dvs_lastY := data \<rparr> \<rparr>)"

definition davisPolarityEvent :: "uint8_t \<Rightarrow> uint16_t \<Rightarrow> davisState \<Rightarrow> caer_polarity_event" where
  "davisPolarityEvent code data s =
     (if dvs_invertXY (dvs s)
      then \<lparr> pe_timestamp = ts_current (timestamps s), pe_polarity = (code AND 0x01 \<noteq> 0),
             pe_x = dvs_lastY (dvs s), pe_y = data \<rparr>
      else \<lparr> pe_timestamp = ts_current (timestamps s), pe_polarity = (code AND 0x01 \<noteq> 0),
             pe_x = data, pe_y = dvs_lastY (dvs s) \<rparr>)"

definition davisXAddress :: "uint8_t \<Rightarrow> uint16_t \<Rightarrow> davisState \<Rightarrow> davisState" where
  "davisXAddress code data s =
     (if uint data \<ge> sint (dvs_sizeX (dvs s))
      then davisLog CAER_LOG_ALERT ''DVS: X address out of range.'' s
      else (case cp_polarity (currentPackets s) of
              None \<Rightarrow> s
            | Some packet \<Rightarrow>
                (case ensureSpaceForEvents (memory s) packet (cp_polarityPosition (currentPackets s)) 1 of
                   (ok, packet', msgs) \<Rightarrow>
                     (if ok
                      then s\<lparr> currentPackets := (currentPackets s)
                                \<lparr> cp_polarity := Some (packetSetEvent packet'
                                     (cp_polarityPosition (currentPackets s)) (davisPolarityEvent code data s)),
                                  cp_polarityPosition := cp_polarityPosition (currentPackets s) + 1 \<rparr> \<rparr>
                      else s\<lparr> logged := logged s @ msgs \<rparr>))))"

text \<open>The APS ADC sample (code 4, davis.c:2927).\<close>

definition davisAPSSample :: "davisConfig \<Rightarrow> uint16_t \<Rightarrow> davisState \<Rightarrow> davisState" where
  "davisAPSSample cfg data s =
     (let a = aps s; t = aps_currentReadoutType a
      in if aps_ignoreEvents a then s
         else if aps_countX a t \<ge> aps_expectedCountX a \<or> aps_countY a t \<ge> aps_expectedCountY a then s
         else (let data' = (if cfg_isDAVIS240 cfg then push_bit 1 data else data);
                   a1 = apsUpdateFrame cfg data' a
               in s\<lparr> aps := a1\<lparr> aps_countY := (aps_countY a1)(t := aps_countY a1 t + 1) \<rparr> \<rparr>))"

text \<open>The 8-bit miscellaneous data (code 5, davis.c:2953): IMU bytes, ROI sizes, IMU scale.\<close>

definition apsROIPart2 :: "uint8_t \<Rightarrow> apsState \<Rightarrow> apsState" where
  "apsROIPart2 misc8Data a =
     (let r = aps_roi a;
          v = roi_tmpData r OR ucast misc8Data;
          k = roi_update r AND 0x03;
          a1 = (if k = 0 then a\<lparr> aps_roi := r\<lparr> roi_positionX := v \<rparr> \<rparr>
                else if k = 1 then a\<lparr> aps_roi := r\<lparr> roi_positionY := v \<rparr> \<rparr>
                else if k = 2 then a\<lparr> aps_roi := r\<lparr> roi_sizeX := v \<rparr> \<rparr>
                else apsROIUpdateSizes (a\<lparr> aps_roi := r\<lparr> roi_sizeY := v \<rparr> \<rparr>))
      in a1\<lparr> aps_roi := (aps_roi a1)\<lparr> roi_update := roi_update (aps_roi a1) + 1 \<rparr> \<rparr>)"

definition davisMisc8 :: "davisConfig \<Rightarrow> uint16_t \<Rightarrow> davisState \<Rightarrow> davisState" where
  "davisMisc8 cfg data s =
     (let misc8Code = (ucast (drop_bit 8 (data AND 0x0F00)) :: uint8_t);
          misc8Data = (ucast (data AND 0x00FF) :: uint8_t)
      in if misc8Code = 0 then imuDataEvent cfg misc8Data s
         else if misc8Code = 1
         then s\<lparr> aps := (aps s)\<lparr> aps_roi := (aps_roi (aps s))\<lparr> roi_tmpData := push_bit 8 (ucast misc8Data) \<rparr> \<rparr> \<rparr>
         else if misc8Code = 2 then s\<lparr> aps := apsROIPart2 misc8Data (aps s) \<rparr>
         else if misc8Code = 3 then imuScaleConfig cfg data s
         else davisLog CAER_LOG_ERROR ''Caught Misc8 event that can't be handled.'' s)"

text \<open>
  The 10-bit miscellaneous data (code 6, davis.c:3159), the exposure of the current frame
  in parts of 10 bits. A shift by 32 or more is undefined in C and gives 0 here.
\<close>

definition davisMisc10 :: "uint16_t \<Rightarrow> davisState \<Rightarrow> davisState" where
  "davisMisc10 data s =
     (let misc10Code = (ucast (drop_bit 10 (data AND 0x0C00)) :: uint8_t);
          misc10Data = data AND 0x03FF
      in if misc10Code = 0
         then s\<lparr> aps := (aps s)
                   \<lparr> aps_currentFrameExposure := aps_currentFrameExposure (aps s)
                        OR push_bit (10 * unat (aps_autoExposureTmpData (aps s))) (ucast misc10Data),
                     aps_autoExposureTmpData := aps_autoExposureTmpData (aps s) + 1 \<rparr> \<rparr>
         else davisLog CAER_LOG_ERROR ''Caught Misc10 event that can't be handled.'' s)"

text \<open>The timestamp wrap (code 7, davis.c:3179). The result is \<open>tsBigWrap\<close> and the state.\<close>

definition davisTimestampWrap :: "uint16_t \<Rightarrow> davisState \<Rightarrow> bool \<times> davisState" where
  "davisTimestampWrap data s =
     (case handleTimestampWrapNewLogic data TS_WRAP_ADD s of
        (tsBigWrap, s1) \<Rightarrow>
          (if tsBigWrap
           then (True, emitSpecialEvent TIMESTAMP_WRAP (word_of_int INT32_MAX) s1)
           else (False, s1\<lparr> container :=
                   containerGenerationCommitTimestampInit (ts_current (timestamps s1)) (container s1) \<rparr>)))"

text \<open>
  Decoding one unit (davis.c:2456 to 3205). The result is the state and the two flags
  \<open>tsReset\<close> and \<open>tsBigWrap\<close>.
\<close>

definition davisDecodeEvent :: "davisConfig \<Rightarrow> uint16_t \<Rightarrow> davisState \<Rightarrow> davisState \<times> bool \<times> bool" where
  "davisDecodeEvent cfg event s =
     (if event AND 0x8000 \<noteq> 0
      then (let s1 = handleTimestampUpdateNewLogic event s
            in (s1\<lparr> container := containerGenerationCommitTimestampInit (ts_current (timestamps s1)) (container s1) \<rparr>,
                False, False))
      else (let code = (ucast (drop_bit 12 (event AND 0x7000)) :: uint8_t);
                data = event AND 0x0FFF
            in if code = 0 then (case davisSpecialEvent cfg data s of (tsReset, s1) \<Rightarrow> (s1, tsReset, False))
               else if code = 1 then (davisYAddress data s, False, False)
               else if code = 2 \<or> code = 3 then (davisXAddress code data s, False, False)
               else if code = 4 then (davisAPSSample cfg data s, False, False)
               else if code = 5 then (davisMisc8 cfg data s, False, False)
               else if code = 6 then (davisMisc10 data s, False, False)
               else if code = 7 then (case davisTimestampWrap data s of (tsBigWrap, s1) \<Rightarrow> (s1, False, tsBigWrap))
               else (davisLog CAER_LOG_ERROR ''Caught event that can't be handled.'' s, False, False)))"


text \<open>
  The head of the loop body (davis.c:2413): the container and each null packet are
  allocated; when an allocation fails, a CRITICAL entry is logged and the translator
  returns. The result is whether the loop body goes on.
\<close>

definition allocateIfNull ::
  "nat \<Rightarrow> int16_t \<Rightarrow> int32_t \<Rightarrow> heap \<Rightarrow> 'e eventPacket option \<Rightarrow> 'e eventPacket option \<times> heap" where
  "allocateIfNull eventCapacity eventSource tsOverflow h p =
     (case p of
        Some q \<Rightarrow> (Some q, h)
      | None \<Rightarrow> caerEventPacketAllocate eventCapacity eventSource tsOverflow h)"

definition davisAllocatePackets :: "davisConfig \<Rightarrow> davisState \<Rightarrow> bool \<times> davisState" where
  "davisAllocatePackets cfg s =
     (case containerGenerationAllocate (memory s) (container s) of
        (False, c) \<Rightarrow> (False, davisLog CAER_LOG_CRITICAL ''Failed to allocate event packet container.'' s)
      | (True, c) \<Rightarrow>
     (let s0 = s\<lparr> container := c \<rparr>;
          ovf = ts_wrapOverflow (timestamps s)
      in case allocateIfNull (cfg_SPECIAL_DEFAULT_SIZE cfg) (cfg_deviceID cfg) ovf (memory s0)
                (cp_special (currentPackets s0)) of
        (None, h) \<Rightarrow> (False, davisLog CAER_LOG_CRITICAL ''Failed to allocate special event packet.'' s0)
      | (Some p1, h1) \<Rightarrow>
     (let s1 = s0\<lparr> currentPackets := (currentPackets s0)\<lparr> cp_special := Some p1 \<rparr>, memory := h1 \<rparr>
      in case allocateIfNull (cfg_POLARITY_DEFAULT_SIZE cfg) (cfg_deviceID cfg) ovf (memory s1)
                (cp_polarity (currentPackets s1)) of
        (None, h) \<Rightarrow> (False, davisLog CAER_LOG_CRITICAL ''Failed to allocate polarity event packet.'' s1)
      | (Some p2, h2) \<Rightarrow>
     (let s2 = s1\<lparr> currentPackets := (currentPackets s1)\<lparr> cp_polarity := Some p2 \<rparr>, memory := h2 \<rparr>
      in case allocateIfNull (cfg_FRAME_DEFAULT_SIZE cfg) (cfg_deviceID cfg) ovf (memory s2)
                (cp_frame (currentPackets s2)) of
        (None, h) \<Rightarrow> (False, davisLog CAER_LOG_CRITICAL ''Failed to allocate frame event packet.'' s2)
      | (Some p3, h3) \<Rightarrow>
     (let s3 = s2\<lparr> currentPackets := (currentPackets s2)\<lparr> cp_frame := Some p3 \<rparr>, memory := h3 \<rparr>
      in case allocateIfNull (cfg_IMU_DEFAULT_SIZE cfg) (cfg_deviceID cfg) ovf (memory s3)
                (cp_imu6 (currentPackets s3)) of
        (None, h) \<Rightarrow> (False, davisLog CAER_LOG_CRITICAL ''Failed to allocate IMU6 event packet.'' s3)
      | (Some p4, h4) \<Rightarrow>
          (True, s3\<lparr> currentPackets := (currentPackets s3)\<lparr> cp_imu6 := Some p4 \<rparr>, memory := h4 \<rparr>))))))"

text \<open>
  The commit at the end of the loop body (davis.c:3207). \<open>davisCommitTriggered\<close> is the
  disjunction of the four triggers; \<open>davisAttachPackets\<close> is the four blocks that attach
  a packet with a positive write position to the container and null the translator's
  reference; its second result is \<open>emptyContainerCommit\<close>. The hot-pixel auto-training
  that the source runs on the polarity packet before it is detached calls the noise filter
  (not in the sources) and queues SPI requests; it is left out.
\<close>

definition davisCommitTriggered :: "bool \<Rightarrow> bool \<Rightarrow> davisState \<Rightarrow> bool" where
  "davisCommitTriggered tsReset tsBigWrap s =
     (let currentPacketContainerCommitSize = sint (containerGenerationGetMaxPacketSize (container s));
          cp = currentPackets s;
          containerSizeCommit =
            (currentPacketContainerCommitSize > 0
             \<and> (int (cp_polarityPosition cp) \<ge> currentPacketContainerCommitSize
                \<or> int (cp_specialPosition cp) \<ge> currentPacketContainerCommitSize
                \<or> int (cp_framePosition cp) \<ge> currentPacketContainerCommitSize
                \<or> int (cp_imu6Position cp) \<ge> currentPacketContainerCommitSize));
          containerTimeCommit =
            containerGenerationIsCommitTimestampElapsed (container s)
              (ts_wrapOverflow (timestamps s)) (ts_current (timestamps s))
      in tsReset \<or> tsBigWrap \<or> containerSizeCommit \<or> containerTimeCommit)"

definition attachPolarity :: "davisState \<times> bool \<Rightarrow> davisState \<times> bool" where
  "attachPolarity = (\<lambda>(s, emptyContainerCommit).
     if cp_polarityPosition (currentPackets s) > 0
     then (s\<lparr> container := containerGenerationSetPacket (SLOT_POLARITY (cp_polarity (currentPackets s))) (container s),
              currentPackets := (currentPackets s)\<lparr> cp_polarity := None, cp_polarityPosition := 0 \<rparr> \<rparr>, False)
     else (s, emptyContainerCommit))"

definition attachSpecial :: "davisState \<times> bool \<Rightarrow> davisState \<times> bool" where
  "attachSpecial = (\<lambda>(s, emptyContainerCommit).
     if cp_specialPosition (currentPackets s) > 0
     then (s\<lparr> container := containerGenerationSetPacket (SLOT_SPECIAL (cp_special (currentPackets s))) (container s),
              currentPackets := (currentPackets s)\<lparr> cp_special := None, cp_specialPosition := 0 \<rparr> \<rparr>, False)
     else (s, emptyContainerCommit))"

definition attachFrame :: "davisState \<times> bool \<Rightarrow> davisState \<times> bool" where
  "attachFrame = (\<lambda>(s, emptyContainerCommit).
     if cp_framePosition (currentPackets s) > 0
     then (s\<lparr> container := containerGenerationSetPacket (SLOT_FRAME (cp_frame (currentPackets s))) (container s),
              currentPackets := (currentPackets s)\<lparr> cp_frame := None, cp_framePosition := 0 \<rparr> \<rparr>, False)
     else (s, emptyContainerCommit))"

definition attachIMU6 :: "davisState \<times> bool \<Rightarrow> davisState \<times> bool" where
  "attachIMU6 = (\<lambda>(s, emptyContainerCommit).
     if cp_imu6Position (currentPackets s) > 0
     then (s\<lparr> container := containerGenerationSetPacket (SLOT_IMU6 (cp_imu6 (currentPackets s))) (container s),
              currentPackets := (currentPackets s)\<lparr> cp_imu6 := None, cp_imu6Position := 0 \<rparr> \<rparr>, False)
     else (s, emptyContainerCommit))"

definition davisAttachPackets :: "davisState \<Rightarrow> davisState \<times> bool" where
  "davisAttachPackets s = attachIMU6 (attachFrame (attachSpecial (attachPolarity (s, True))))"

definition davisCommit :: "davisConfig \<Rightarrow> bool \<Rightarrow> bool \<Rightarrow> davisState \<Rightarrow> davisState option" where
  "davisCommit cfg tsReset tsBigWrap s =
     (if davisCommitTriggered tsReset tsBigWrap s
      then (case davisAttachPackets s of
              (s1, emptyContainerCommit) \<Rightarrow>
                (let s2 = (if tsReset \<or> tsBigWrap
                           then s1\<lparr> aps := (aps s1)\<lparr> aps_ignoreEvents := True \<rparr>,
                                    imu := (imu s1)\<lparr> imu_ignoreEvents := True \<rparr> \<rparr>
                           else s1)
                 in case containerGenerationExecute emptyContainerCommit tsReset
                           (ts_wrapOverflow (timestamps s2)) (ts_current (timestamps s2)) (cfg_deviceID cfg)
                           (container s2, dataExchange s2, memory s2) of
                      None \<Rightarrow> None
                    | Some (c, dx, h, msgs) \<Rightarrow>
                        Some (s2\<lparr> container := c, dataExchange := dx, memory := h,
                                  logged := logged s2 @ msgs \<rparr>)))
      else Some s)"

text \<open>
  One pass of the loop body, and the loop. \<open>Continue\<close> goes on with the next unit,
  \<open>Return\<close> is the \<open>return\<close> after a failed allocation, \<open>Blocked\<close> is the loop body that
  does not come back from a blocking insertion.
\<close>

datatype 'a unitResult = Continue 'a | Return 'a | Blocked

definition davisTranslateUnit :: "davisConfig \<Rightarrow> uint16_t \<Rightarrow> davisState \<Rightarrow> davisState unitResult" where
  "davisTranslateUnit cfg event s =
     (case davisAllocatePackets cfg s of
        (False, s1) \<Rightarrow> Return s1
      | (True, s1) \<Rightarrow>
          (case davisDecodeEvent cfg event s1 of
             (s2, tsReset, tsBigWrap) \<Rightarrow>
               (case davisCommit cfg tsReset tsBigWrap s2 of
                  None \<Rightarrow> Blocked
                | Some s3 \<Rightarrow> Continue s3)))"

fun davisTranslateUnits :: "davisConfig \<Rightarrow> uint16_t list \<Rightarrow> davisState \<Rightarrow> davisState option" where
  "davisTranslateUnits cfg [] s = Some s"
| "davisTranslateUnits cfg (event # events) s =
     (case davisTranslateUnit cfg event s of
        Continue s' \<Rightarrow> davisTranslateUnits cfg events s'
      | Return s' \<Rightarrow> Some s'
      | Blocked \<Rightarrow> None)"

text \<open>
  The buffer is read as little-endian 16-bit units; a trailing odd byte is cut off.
\<close>

fun le16Units :: "uint8_t list \<Rightarrow> uint16_t list" where
  "le16Units (b0 # b1 # rest) = (ucast b0 OR push_bit 8 (ucast b1)) # le16Units rest"
| "le16Units rest = []"

definition davisEventTranslator :: "davisConfig \<Rightarrow> uint8_t list \<Rightarrow> davisState \<Rightarrow> davisState option" where
  "davisEventTranslator cfg buffer s =
     (if \<not> dataTransfersRun s then Some s
      else (let s1 = (if odd (length buffer)
                      then davisLog CAER_LOG_ALERT ''bytes received via USB, which is not a multiple of two.'' s
                      else s)
            in davisTranslateUnits cfg (le16Units buffer) s1))"


section \<open>The MIPI CX3 event translator (mipi_cx3.c, mipiCx3EventTranslator)\<close>

record mipiCx3Config =
  mcfg_deviceID :: int16_t
  mcfg_POLARITY_DEFAULT_SIZE :: nat
  mcfg_SPECIAL_DEFAULT_SIZE :: nat

record mipiCx3Timestamps =
  mts_lastSub :: uint16_t
  mts_lastReference :: uint32_t
  mts_currentReference :: uint32_t
  mts_last :: int32_t
  mts_current :: int32_t

record mipiCx3State =
  m_dataTransfersRun :: bool
  m_timestamps :: mipiCx3Timestamps
  m_lastX :: uint16_t
  m_polarity :: "caer_polarity_event eventPacket option"
  m_polarityPosition :: nat
  m_special :: "caer_special_event eventPacket option"
  m_specialPosition :: nat
  m_container :: containerGeneration
  m_dataExchange :: dataExchange
  m_memory :: heap
  m_logged :: "logEntry list"

definition mipiCx3Log :: "caer_log_level \<Rightarrow> string \<Rightarrow> mipiCx3State \<Rightarrow> mipiCx3State" where
  "mipiCx3Log level msg s = s\<lparr> m_logged := m_logged s @ [(level, msg)] \<rparr>"

text \<open>
  Modelled from the spec: \<open>checkMonotonicTimestamp\<close> is not in the sources; a timestamp
  that goes back is logged at ALERT level and processing continues.
\<close>

definition checkMonotonicTimestamp :: "int32_t \<Rightarrow> int32_t \<Rightarrow> logEntry list" where
  "checkMonotonicTimestamp currentTimestamp lastTimestamp =
     (if sint currentTimestamp < sint lastTimestamp
      then [(CAER_LOG_ALERT, ''Timestamps: non monotonic timestamp detected.'')]
      else [])"

definition mipiCx3AllocatePackets :: "mipiCx3Config \<Rightarrow> mipiCx3State \<Rightarrow> bool \<times> mipiCx3State" where
  "mipiCx3AllocatePackets cfg s =
     (case containerGenerationAllocate (m_memory s) (m_container s) of
        (False, c) \<Rightarrow> (False, mipiCx3Log CAER_LOG_CRITICAL ''Failed to allocate event packet container.'' s)
      | (True, c) \<Rightarrow>
     (let s0 = s\<lparr> m_container := c \<rparr>
      in case allocateIfNull (mcfg_SPECIAL_DEFAULT_SIZE cfg) (mcfg_deviceID cfg) 0 (m_memory s0) (m_special s0) of
        (None, h) \<Rightarrow> (False, mipiCx3Log CAER_LOG_CRITICAL ''Failed to allocate special event packet.'' s0)
      | (Some p1, h1) \<Rightarrow>
     (let s1 = s0\<lparr> m_special := Some p1, m_memory := h1 \<rparr>
      in case allocateIfNull (mcfg_POLARITY_DEFAULT_SIZE cfg) (mcfg_deviceID cfg) 0 (m_memory s1) (m_polarity s1) of
        (None, h) \<Rightarrow> (False, mipiCx3Log CAER_LOG_CRITICAL ''Failed to allocate polarity event packet.'' s1)
      | (Some p2, h2) \<Rightarrow> (True, s1\<lparr> m_polarity := Some p2, m_memory := h2 \<rparr>))))"

text \<open>
  The group loop (i from 0 to 15, mask \<open>0x8000 >> i\<close>): each set bit of the low half of
  the unit is one polarity event at the write position.
\<close>

fun mipiCx3GroupLoop ::
  "nat list \<Rightarrow> uint32_t \<Rightarrow> uint16_t \<Rightarrow> uint16_t \<Rightarrow> int32_t
   \<Rightarrow> caer_polarity_event eventPacket \<times> nat \<Rightarrow> caer_polarity_event eventPacket \<times> nat" where
  "mipiCx3GroupLoop [] event groupAddr lastX ts acc = acc"
| "mipiCx3GroupLoop (i # rest) event groupAddr lastX ts (packet, position) =
     (if event AND drop_bit i 0x8000 = 0
      then mipiCx3GroupLoop rest event groupAddr lastX ts (packet, position)
      else mipiCx3GroupLoop rest event groupAddr lastX ts
             (packetSetEvent packet position
                \<lparr> pe_timestamp = ts, pe_polarity = (i \<ge> 8), pe_x = lastX,
                  pe_y = groupAddr + (7 - (word_of_nat i AND 0x07)) \<rparr>,
              position + 1))"

definition mipiCx3Group :: "uint32_t \<Rightarrow> mipiCx3State \<Rightarrow> mipiCx3State" where
  "mipiCx3Group event s =
     (if event AND 0x76000000 \<noteq> 0
      then mipiCx3Log CAER_LOG_CRITICAL ''MGROUP not handled.'' s
      else (let groupAddr = (ucast (drop_bit 18 event AND 0x003F) :: uint16_t) * 8
            in case m_polarity s of
                 None \<Rightarrow> s
               | Some packet \<Rightarrow>
                   (case ensureSpaceForEvents (m_memory s) packet (m_polarityPosition s) 16 of
                      (ok, packet', msgs) \<Rightarrow>
                        (if ok
                         then (case mipiCx3GroupLoop [0, 1, 2, 3, 4, 5, 6, 7, 8, 9, 10, 11, 12, 13, 14, 15]
                                      event groupAddr (m_lastX s) (mts_current (m_timestamps s))
                                      (packet', m_polarityPosition s) of
                                 (packet'', position) \<Rightarrow>
                                   s\<lparr> m_polarity := Some packet'', m_polarityPosition := position \<rparr>)
                         else s\<lparr> m_logged := m_logged s @ msgs \<rparr>))))"

text \<open>The column unit (bit 26) with its sub-timestamp, and the timestamp reference unit (bit 27).\<close>

definition mipiCx3ColumnTimestamp :: "uint16_t \<Rightarrow> mipiCx3Timestamps \<Rightarrow> mipiCx3Timestamps" where
  "mipiCx3ColumnTimestamp timestampSub t =
     (let t1 = (if timestampSub \<noteq> mts_lastSub t
                then (let t0 = (if mts_currentReference t = mts_lastReference t \<and> timestampSub < mts_lastSub t
                                then t\<lparr> mts_lastReference := mts_lastReference t + 1000 \<rparr>
                                else t)
                      in t0\<lparr> mts_currentReference := mts_lastReference t0 \<rparr>)
                else t)
      in t1\<lparr> mts_lastSub := timestampSub,
             mts_last := mts_current t1,
             mts_current := mts_currentReference t1 + ucast timestampSub \<rparr>)"

definition mipiCx3EmitSpecial :: "special_event_type \<Rightarrow> int32_t \<Rightarrow> mipiCx3State \<Rightarrow> mipiCx3State" where
  "mipiCx3EmitSpecial ty ts s =
     (case m_special s of
        None \<Rightarrow> s
      | Some packet \<Rightarrow>
          (case ensureSpaceForEvents (m_memory s) packet (m_specialPosition s) 1 of
             (ok, packet', msgs) \<Rightarrow>
               (if ok
                then s\<lparr> m_special := Some (packetSetEvent packet' (m_specialPosition s)
                                            \<lparr> se_timestamp = ts, se_type = ty, se_data = 0 \<rparr>),
                        m_specialPosition := m_specialPosition s + 1 \<rparr>
                else s\<lparr> m_logged := m_logged s @ msgs \<rparr>)))"

definition mipiCx3Column :: "uint32_t \<Rightarrow> mipiCx3State \<Rightarrow> mipiCx3State" where
  "mipiCx3Column event s =
     (let columnAddr = (ucast (event AND 0x03FF) :: uint16_t);
          timestampSub = (ucast (drop_bit 11 event AND 0x03FF) :: uint16_t);
          startOfFrame = (drop_bit 21 event AND 0x01 \<noteq> 0);
          t = mipiCx3ColumnTimestamp timestampSub (m_timestamps s);
          s1 = s\<lparr> m_lastX := columnAddr, m_timestamps := t,
                  m_logged := m_logged s @ checkMonotonicTimestamp (mts_current t) (mts_last t),
                  m_container := containerGenerationCommitTimestampInit (mts_current t) (m_container s) \<rparr>
      in if startOfFrame then mipiCx3EmitSpecial EVENT_READOUT_START (mts_current t) s1 else s1)"

definition mipiCx3TimestampReference :: "uint32_t \<Rightarrow> mipiCx3State \<Rightarrow> mipiCx3State" where
  "mipiCx3TimestampReference event s =
     s\<lparr> m_timestamps := (m_timestamps s)\<lparr> mts_lastReference := (event AND 0x003FFFFF) * 1000 \<rparr> \<rparr>"

definition mipiCx3CommitTriggered :: "mipiCx3State \<Rightarrow> bool" where
  "mipiCx3CommitTriggered s =
     (let currentPacketContainerCommitSize = sint (containerGenerationGetMaxPacketSize (m_container s));
          containerSizeCommit =
            (currentPacketContainerCommitSize > 0
             \<and> (int (m_polarityPosition s) \<ge> currentPacketContainerCommitSize
                \<or> int (m_specialPosition s) \<ge> currentPacketContainerCommitSize));
          containerTimeCommit =
            containerGenerationIsCommitTimestampElapsed (m_container s) 0 (mts_current (m_timestamps s))
      in containerSizeCommit \<or> containerTimeCommit)"

definition mipiCx3AttachPolarity :: "mipiCx3State \<times> bool \<Rightarrow> mipiCx3State \<times> bool" where
  "mipiCx3AttachPolarity = (\<lambda>(s, emptyContainerCommit).
     if m_polarityPosition s > 0
     then (s\<lparr> m_container := containerGenerationSetPacket (SLOT_POLARITY (m_polarity s)) (m_container s),
              m_polarity := None, m_polarityPosition := 0 \<rparr>, False)
     else (s, emptyContainerCommit))"

definition mipiCx3AttachSpecial :: "mipiCx3State \<times> bool \<Rightarrow> mipiCx3State \<times> bool" where
  "mipiCx3AttachSpecial = (\<lambda>(s, emptyContainerCommit).
     if m_specialPosition s > 0
     then (s\<lparr> m_container := containerGenerationSetPacket (SLOT_SPECIAL (m_special s)) (m_container s),
              m_special := None, m_specialPosition := 0 \<rparr>, False)
     else (s, emptyContainerCommit))"

definition mipiCx3AttachPackets :: "mipiCx3State \<Rightarrow> mipiCx3State \<times> bool" where
  "mipiCx3AttachPackets s = mipiCx3AttachSpecial (mipiCx3AttachPolarity (s, True))"

definition mipiCx3Commit :: "mipiCx3Config \<Rightarrow> mipiCx3State \<Rightarrow> mipiCx3State option" where
  "mipiCx3Commit cfg s =
     (if mipiCx3CommitTriggered s
      then (case mipiCx3AttachPackets s of
              (s1, emptyContainerCommit) \<Rightarrow>
                (case containerGenerationExecute emptyContainerCommit False 0 (mts_current (m_timestamps s1))
                        (mcfg_deviceID cfg) (m_container s1, m_dataExchange s1, m_memory s1) of
                   None \<Rightarrow> None
                 | Some (c, dx, h, msgs) \<Rightarrow>
                     Some (s1\<lparr> m_container := c, m_dataExchange := dx, m_memory := h,
                               m_logged := m_logged s1 @ msgs \<rparr>)))
      else Some s)"

text \<open>
  One pass of the loop body. A group unit that arrives while the commit timestamp is
  still \<open>-1\<close> takes the \<open>continue\<close>: nothing is decoded and no commit trigger is evaluated.
\<close>

definition mipiCx3TranslateUnit :: "mipiCx3Config \<Rightarrow> uint32_t \<Rightarrow> mipiCx3State \<Rightarrow> mipiCx3State unitResult" where
  "mipiCx3TranslateUnit cfg event s =
     (case mipiCx3AllocatePackets cfg s of
        (False, s1) \<Rightarrow> Return s1
      | (True, s1) \<Rightarrow>
          (if event AND 0x80000000 \<noteq> 0 \<and> cg_currentPacketContainerCommitTimestamp (m_container s1) = - 1
           then Continue s1
           else (let s2 = (if event AND 0x80000000 \<noteq> 0 then mipiCx3Group event s1
                           else (let s3 = (if event AND 0x04000000 \<noteq> 0 then mipiCx3Column event s1 else s1)
                                 in if event AND 0x08000000 \<noteq> 0 then mipiCx3TimestampReference event s3 else s3))
                 in case mipiCx3Commit cfg s2 of
                      None \<Rightarrow> Blocked
                    | Some s4 \<Rightarrow> Continue s4)))"

fun mipiCx3TranslateUnits :: "mipiCx3Config \<Rightarrow> uint32_t list \<Rightarrow> mipiCx3State \<Rightarrow> mipiCx3State option" where
  "mipiCx3TranslateUnits cfg [] s = Some s"
| "mipiCx3TranslateUnits cfg (event # events) s =
     (case mipiCx3TranslateUnit cfg event s of
        Continue s' \<Rightarrow> mipiCx3TranslateUnits cfg events s'
      | Return s' \<Rightarrow> Some s'
      | Blocked \<Rightarrow> None)"

text \<open>The buffer is read as big-endian 32-bit units; trailing bytes of a partial unit are cut off.\<close>

fun be32Units :: "uint8_t list \<Rightarrow> uint32_t list" where
  "be32Units (b0 # b1 # b2 # b3 # rest) =
     (push_bit 24 (ucast b0) OR push_bit 16 (ucast b1) OR push_bit 8 (ucast b2) OR ucast b3) # be32Units rest"
| "be32Units rest = []"

definition mipiCx3EventTranslator :: "mipiCx3Config \<Rightarrow> uint8_t list \<Rightarrow> mipiCx3State \<Rightarrow> mipiCx3State option" where
  "mipiCx3EventTranslator cfg buffer s =
     (if \<not> m_dataTransfersRun s then Some s
      else (let s1 = (if length buffer mod 4 \<noteq> 0
                      then mipiCx3Log CAER_LOG_ALERT ''bytes received via USB, which is not a multiple of four.'' s
                      else s)
            in mipiCx3TranslateUnits cfg (be32Units buffer) s1))"

text \<open>
  The stream state after \<open>mipiCx3DataStart\<close>: the handle is zeroed at open, the commit
  timestamp is reset, container and packets are allocated, the transfers run.
\<close>

definition mipiCx3InitialState ::
  "mipiCx3Config \<Rightarrow> int32_t \<Rightarrow> int32_t \<Rightarrow> nat \<Rightarrow> mipiCx3State" where
  "mipiCx3InitialState cfg maxPacketSize maxInterval ringCapacity =
     \<lparr> m_dataTransfersRun = True,
       m_timestamps = \<lparr> mts_lastSub = 0, mts_lastReference = 0, mts_currentReference = 0,
                        mts_last = 0, mts_current = 0 \<rparr>,
       m_lastX = 0,
       m_polarity = Some \<lparr> pk_ident = 0, pk_eventSource = mcfg_deviceID cfg, pk_eventTSOverflow = 0,
                           pk_events = replicate (mcfg_POLARITY_DEFAULT_SIZE cfg) None \<rparr>,
       m_polarityPosition = 0,
       m_special = Some \<lparr> pk_ident = 1, pk_eventSource = mcfg_deviceID cfg, pk_eventTSOverflow = 0,
                          pk_events = replicate (mcfg_SPECIAL_DEFAULT_SIZE cfg) None \<rparr>,
       m_specialPosition = 0,
       m_container = \<lparr> cg_currentPacketContainer = Some emptyPacketContainer,
                       cg_maxPacketContainerPacketSize = maxPacketSize,
                       cg_maxPacketContainerInterval = maxInterval,
                       cg_currentPacketContainerCommitTimestamp = - 1 \<rparr>,
       m_dataExchange = \<lparr> dx_capacity = ringCapacity, dx_buffer = [] \<rparr>,
       m_memory = \<lparr> heap_nextIdent = 2, heap_available = True \<rparr>,
       m_logged = [] \<rparr>"


section \<open>The legacy DAVIS translator at a timestamp wrap (davis.c:5961, davis_common)\<close>

text \<open>
  The second half of davis.c is the davis_common translator, which decodes the same
  16-bit units with the timestamp logic written inline. Of its loop body the model has
  the head that allocates the packets, the branch of a timestamp wrap unit (code 7,
  davis.c:6615) and the commit (davis.c:6669). This translator takes the device handle
  and the buffer only; it reads no running flag.
\<close>

record legacyLimits =
  maxPacketContainerSize :: int32_t
  maxPacketContainerInterval :: int32_t
  maxPolarityPacketSize :: int32_t
  maxPolarityPacketInterval :: int32_t
  maxSpecialPacketSize :: int32_t
  maxSpecialPacketInterval :: int32_t
  maxFramePacketSize :: int32_t
  maxFramePacketInterval :: int32_t
  maxIMU6PacketSize :: int32_t
  maxIMU6PacketInterval :: int32_t

record legacyPackets =
  currentPolarityPacket :: "caer_polarity_event eventPacket option"
  currentPolarityPacketPosition :: nat
  currentSpecialPacket :: "caer_special_event eventPacket option"
  currentSpecialPacketPosition :: nat
  currentFramePacket :: "caer_frame_event eventPacket option"
  currentFramePacketPosition :: nat
  currentIMU6Packet :: "caer_imu6_event eventPacket option"
  currentIMU6PacketPosition :: nat

record legacyDavisState =
  dataAcquisitionThreadRun :: bool
  deviceID :: int16_t
  wrapOverflow :: int32_t
  wrapAdd :: int32_t
  lastTimestamp :: int32_t
  currentTimestamp :: int32_t
  dvsTimestamp :: int32_t
  apsIgnoreEvents :: bool
  imuIgnoreEvents :: bool
  limits :: legacyLimits
  packets :: legacyPackets
  currentPacketContainer :: "caerEventPacketContainer option"
  dataExchangeBuffer :: dataExchange
  dataNotifyIncreaseCalls :: nat
  legacyMemory :: heap
  legacyLogged :: "logEntry list"

definition caerLog :: "caer_log_level \<Rightarrow> string \<Rightarrow> legacyDavisState \<Rightarrow> legacyDavisState" where
  "caerLog level msg s = s\<lparr> legacyLogged := legacyLogged s @ [(level, msg)] \<rparr>"

definition legacyAllocatePackets :: "legacyDavisState \<Rightarrow> bool \<times> legacyDavisState" where
  "legacyAllocatePackets s =
     (case (case currentPacketContainer s of
              Some pc \<Rightarrow> Some pc
            | None \<Rightarrow> if heap_available (legacyMemory s) then Some emptyPacketContainer else None) of
        None \<Rightarrow> (False, caerLog CAER_LOG_CRITICAL ''Failed to allocate event packet container.'' s)
      | Some pc \<Rightarrow>
     (let s0 = s\<lparr> currentPacketContainer := Some pc \<rparr>
      in case allocateIfNull (nat (sint (maxPolarityPacketSize (limits s)))) (deviceID s) (wrapOverflow s)
                (legacyMemory s0) (currentPolarityPacket (packets s0)) of
        (None, h) \<Rightarrow> (False, caerLog CAER_LOG_CRITICAL ''Failed to allocate polarity event packet.'' s0)
      | (Some p1, h1) \<Rightarrow>
     (let s1 = s0\<lparr> packets := (packets s0)\<lparr> currentPolarityPacket := Some p1 \<rparr>, legacyMemory := h1 \<rparr>
      in case allocateIfNull (nat (sint (maxSpecialPacketSize (limits s)))) (deviceID s) (wrapOverflow s)
                (legacyMemory s1) (currentSpecialPacket (packets s1)) of
        (None, h) \<Rightarrow> (False, caerLog CAER_LOG_CRITICAL ''Failed to allocate special event packet.'' s1)
      | (Some p2, h2) \<Rightarrow>
     (let s2 = s1\<lparr> packets := (packets s1)\<lparr> currentSpecialPacket := Some p2 \<rparr>, legacyMemory := h2 \<rparr>
      in case allocateIfNull (nat (sint (maxFramePacketSize (limits s)))) (deviceID s) (wrapOverflow s)
                (legacyMemory s2) (currentFramePacket (packets s2)) of
        (None, h) \<Rightarrow> (False, caerLog CAER_LOG_CRITICAL ''Failed to allocate frame event packet.'' s2)
      | (Some p3, h3) \<Rightarrow>
     (let s3 = s2\<lparr> packets := (packets s2)\<lparr> currentFramePacket := Some p3 \<rparr>, legacyMemory := h3 \<rparr>
      in case allocateIfNull (nat (sint (maxIMU6PacketSize (limits s)))) (deviceID s) (wrapOverflow s)
                (legacyMemory s3) (currentIMU6Packet (packets s3)) of
        (None, h) \<Rightarrow> (False, caerLog CAER_LOG_CRITICAL ''Failed to allocate IMU6 event packet.'' s3)
      | (Some p4, h4) \<Rightarrow>
          (True, s3\<lparr> packets := (packets s3)\<lparr> currentIMU6Packet := Some p4 \<rparr>, legacyMemory := h4 \<rparr>))))))"

text \<open>
  The timestamp wrap (davis.c:6615). The sum is computed in 64 bits and cannot overflow
  there. The special event is written at the write position of the special packet without
  a capacity check; the result is \<open>forceCommit\<close> and the state.
\<close>

definition legacyTimestampWrap :: "uint16_t \<Rightarrow> legacyDavisState \<Rightarrow> bool \<times> legacyDavisState" where
  "legacyTimestampWrap data s =
     (let wrapJump = TS_WRAP_ADD * uint data;
          wrapSum = sint (wrapAdd s) + wrapJump
      in if wrapSum > INT32_MAX
         then (let wrapRemainder = wrapSum - INT32_MAX - 1;
                   pk = packets s
               in (True,
                   s\<lparr> wrapAdd := word_of_int wrapRemainder,
                      lastTimestamp := 0,
                      currentTimestamp := word_of_int wrapRemainder,
                      dvsTimestamp := 0,
                      wrapOverflow := wrapOverflow s + 1,
                      packets := pk
                        \<lparr> currentSpecialPacket :=
                            map_option (\<lambda>p. packetSetEvent p (currentSpecialPacketPosition pk)
                                               \<lparr> se_timestamp = word_of_int INT32_MAX,
                                                 se_type = TIMESTAMP_WRAP, se_data = 0 \<rparr>)
                              (currentSpecialPacket pk),
                          currentSpecialPacketPosition := currentSpecialPacketPosition pk + 1 \<rparr> \<rparr>))
         else (let s1 = s\<lparr> wrapAdd := word_of_int wrapSum,
                           lastTimestamp := currentTimestamp s,
                           currentTimestamp := word_of_int wrapSum \<rparr>
               in (False, s1\<lparr> legacyLogged := legacyLogged s1
                                @ checkStrictMonotonicTimestamp (currentTimestamp s1) (lastTimestamp s1) \<rparr>)))"

text \<open>
  The commit thresholds (davis.c:6669). An interval is the difference of the timestamps of
  the last and the first event of a packet, in 32 bits; a slot never written reads as
  timestamp zero.
\<close>

definition packetInterval :: "('e \<Rightarrow> int32_t) \<Rightarrow> 'e eventPacket option \<Rightarrow> nat \<Rightarrow> int32_t" where
  "packetInterval getTimestamp packet packetSize =
     (let ts = (\<lambda>n. case packet of
                      None \<Rightarrow> 0
                    | Some p \<Rightarrow> (if n < length (pk_events p)
                                 then (case pk_events p ! n of None \<Rightarrow> 0 | Some e \<Rightarrow> getTimestamp e)
                                 else 0))
      in if packetSize > 1 then ts (packetSize - 1) - ts 0 else 0)"

definition packetCapacity :: "'e eventPacket option \<Rightarrow> nat" where
  "packetCapacity packet = (case packet of None \<Rightarrow> 0 | Some p \<Rightarrow> caerEventPacketHeaderGetEventCapacity p)"

definition legacyCommitTriggered :: "bool \<Rightarrow> legacyDavisState \<Rightarrow> bool" where
  "legacyCommitTriggered forceCommit s =
     (let pk = packets s; lim = limits s;
          polaritySize = currentPolarityPacketPosition pk;
          polarityInterval = packetInterval pe_timestamp (currentPolarityPacket pk) polaritySize;
          specialSize = currentSpecialPacketPosition pk;
          specialInterval = packetInterval se_timestamp (currentSpecialPacket pk) specialSize;
          frameSize = currentFramePacketPosition pk;
          frameInterval = packetInterval fe_tsStartOfExposure (currentFramePacket pk) frameSize;
          imu6Size = currentIMU6PacketPosition pk;
          imu6Interval = packetInterval ie_timestamp (currentIMU6Packet pk) imu6Size;
          containerCommit =
            (int (polaritySize + specialSize + frameSize + imu6Size) \<ge> sint (maxPacketContainerSize lim)
             \<or> sint polarityInterval \<ge> sint (maxPacketContainerInterval lim)
             \<or> sint specialInterval \<ge> sint (maxPacketContainerInterval lim)
             \<or> sint frameInterval \<ge> sint (maxPacketContainerInterval lim)
             \<or> sint imu6Interval \<ge> sint (maxPacketContainerInterval lim));
          polarityPacketCommit =
            (polaritySize \<ge> packetCapacity (currentPolarityPacket pk)
             \<or> sint polarityInterval \<ge> sint (maxPolarityPacketInterval lim));
          specialPacketCommit =
            (specialSize \<ge> packetCapacity (currentSpecialPacket pk)
             \<or> sint specialInterval \<ge> sint (maxSpecialPacketInterval lim));
          framePacketCommit =
            (frameSize \<ge> packetCapacity (currentFramePacket pk)
             \<or> sint frameInterval \<ge> sint (maxFramePacketInterval lim));
          imu6PacketCommit =
            (imu6Size \<ge> packetCapacity (currentIMU6Packet pk)
             \<or> sint imu6Interval \<ge> sint (maxIMU6PacketInterval lim))
      in forceCommit \<or> containerCommit \<or> polarityPacketCommit \<or> specialPacketCommit
         \<or> framePacketCommit \<or> imu6PacketCommit)"

text \<open>
  The four blocks that attach a packet with a positive size to the container and null the
  translator's reference (davis.c:6736).
\<close>

definition legacyAttachPackets :: "legacyDavisState \<Rightarrow> legacyDavisState" where
  "legacyAttachPackets s =
     (let pk = packets s;
          s1 = (if currentPolarityPacketPosition pk > 0
                then s\<lparr> currentPacketContainer :=
                          map_option (setEventPacket (SLOT_POLARITY (currentPolarityPacket pk)))
                            (currentPacketContainer s),
                        packets := (packets s)\<lparr> currentPolarityPacket := None,
                                                 currentPolarityPacketPosition := 0 \<rparr> \<rparr>
                else s);
          s2 = (if currentSpecialPacketPosition pk > 0
                then s1\<lparr> currentPacketContainer :=
                           map_option (setEventPacket (SLOT_SPECIAL (currentSpecialPacket pk)))
                             (currentPacketContainer s1),
                         packets := (packets s1)\<lparr> currentSpecialPacket := None,
                                                   currentSpecialPacketPosition := 0 \<rparr> \<rparr>
                else s1);
          s3 = (if currentFramePacketPosition pk > 0
                then s2\<lparr> currentPacketContainer :=
                           map_option (setEventPacket (SLOT_FRAME (currentFramePacket pk)))
                             (currentPacketContainer s2),
                         packets := (packets s2)\<lparr> currentFramePacket := None,
                                                   currentFramePacketPosition := 0 \<rparr> \<rparr>
                else s2)
      in if currentIMU6PacketPosition pk > 0
         then s3\<lparr> currentPacketContainer :=
                    map_option (setEventPacket (SLOT_IMU6 (currentIMU6Packet pk)))
                      (currentPacketContainer s3),
                  packets := (packets s3)\<lparr> currentIMU6Packet := None,
                                            currentIMU6PacketPosition := 0 \<rparr> \<rparr>
         else s3)"

text \<open>
  Modelled from the spec: \<open>ringBufferPut\<close> is not in the sources; it is the insertion
  into the bounded ring buffer, \<open>dataExchangePut\<close> above. The loop at \<open>retry_important\<close>
  repeats a failed insertion of a forced commit until it succeeds. Nothing else changes
  the buffer while the translator runs, so in this model the loop leaves at its first
  pass or never: a forced commit into a full buffer is \<open>None\<close>. An unforced commit into
  a full buffer drops the container's packets and keeps the container.
\<close>

definition legacyCommit :: "bool \<Rightarrow> legacyDavisState \<Rightarrow> legacyDavisState option" where
  "legacyCommit forceCommit s =
     (if legacyCommitTriggered forceCommit s
      then (let s1 = legacyAttachPackets s;
                s2 = (if forceCommit then s1\<lparr> apsIgnoreEvents := True, imuIgnoreEvents := True \<rparr> else s1)
            in case currentPacketContainer s2 of
                 None \<Rightarrow> Some s2
               | Some pc \<Rightarrow>
                   (case dataExchangePut pc (dataExchangeBuffer s2) of
                      None \<Rightarrow>
                        (if forceCommit then None
                         else Some ((caerLog CAER_LOG_INFO
                                       ''Dropped EventPacket Container because ring-buffer full!'' s2)
                                    \<lparr> currentPacketContainer := Some emptyPacketContainer \<rparr>))
                    | Some dx \<Rightarrow>
                        Some (s2\<lparr> dataExchangeBuffer := dx,
                                  dataNotifyIncreaseCalls := dataNotifyIncreaseCalls s2 + 1,
                                  currentPacketContainer := None \<rparr>)))
      else Some s)"

text \<open>
  The loop body at a unit \<open>event\<close> with code 7, that is \<open>event AND 0xF000 = 0x7000\<close>, and
  the loop over a buffer of such units.
\<close>

definition legacyTranslateWrapUnit :: "uint16_t \<Rightarrow> legacyDavisState \<Rightarrow> legacyDavisState unitResult" where
  "legacyTranslateWrapUnit event s =
     (case legacyAllocatePackets s of
        (False, s1) \<Rightarrow> Return s1
      | (True, s1) \<Rightarrow>
          (case legacyTimestampWrap (event AND 0x0FFF) s1 of
             (forceCommit, s2) \<Rightarrow>
               (case legacyCommit forceCommit s2 of
                  None \<Rightarrow> Blocked
                | Some s3 \<Rightarrow> Continue s3)))"

fun legacyTranslateWrapUnits :: "uint16_t list \<Rightarrow> legacyDavisState \<Rightarrow> legacyDavisState option" where
  "legacyTranslateWrapUnits [] s = Some s"
| "legacyTranslateWrapUnits (event # events) s =
     (case legacyTranslateWrapUnit event s of
        Continue s' \<Rightarrow> legacyTranslateWrapUnits events s'
      | Return s' \<Rightarrow> Some s'
      | Blocked \<Rightarrow> None)"


section \<open>The packets the translator holds\<close>

text \<open>
  Observations on the state, used to say which packet instance the translator holds: the
  identity of the packet behind each of the four references of the translator
  (\<open>currentPackets.polarity\<close> and so on, null being \<open>None\<close>), the write position that
  goes with it, and the next identity the allocator will give out. Every identity below
  that one has been given to a packet already.
\<close>

definition managerRefIdents :: "davisState \<Rightarrow> nat option list" where
  "managerRefIdents s =
     [map_option pk_ident (cp_polarity (currentPackets s)),
      map_option pk_ident (cp_special (currentPackets s)),
      map_option pk_ident (cp_frame (currentPackets s)),
      map_option pk_ident (cp_imu6 (currentPackets s))]"

datatype packetKind = POLARITY_EVENT | SPECIAL_EVENT | FRAME_EVENT | IMU6_EVENT

fun managerRefIdent :: "packetKind \<Rightarrow> davisState \<Rightarrow> nat option" where
  "managerRefIdent POLARITY_EVENT s = map_option pk_ident (cp_polarity (currentPackets s))"
| "managerRefIdent SPECIAL_EVENT s = map_option pk_ident (cp_special (currentPackets s))"
| "managerRefIdent FRAME_EVENT s = map_option pk_ident (cp_frame (currentPackets s))"
| "managerRefIdent IMU6_EVENT s = map_option pk_ident (cp_imu6 (currentPackets s))"

fun managerPosition :: "packetKind \<Rightarrow> davisState \<Rightarrow> nat" where
  "managerPosition POLARITY_EVENT s = cp_polarityPosition (currentPackets s)"
| "managerPosition SPECIAL_EVENT s = cp_specialPosition (currentPackets s)"
| "managerPosition FRAME_EVENT s = cp_framePosition (currentPackets s)"
| "managerPosition IMU6_EVENT s = cp_imu6Position (currentPackets s)"

definition identState :: "davisState \<Rightarrow> nat option list \<times> nat" where
  "identState s = (managerRefIdents s, heap_nextIdent (memory s))"


text \<open>The same observations on the state of the MIPI translator, which has two packet types.\<close>

fun mipiCx3RefIdent :: "packetKind \<Rightarrow> mipiCx3State \<Rightarrow> nat option" where
  "mipiCx3RefIdent POLARITY_EVENT s = map_option pk_ident (m_polarity s)"
| "mipiCx3RefIdent SPECIAL_EVENT s = map_option pk_ident (m_special s)"
| "mipiCx3RefIdent FRAME_EVENT s = None"
| "mipiCx3RefIdent IMU6_EVENT s = None"

fun mipiCx3Position :: "packetKind \<Rightarrow> mipiCx3State \<Rightarrow> nat" where
  "mipiCx3Position POLARITY_EVENT s = m_polarityPosition s"
| "mipiCx3Position SPECIAL_EVENT s = m_specialPosition s"
| "mipiCx3Position FRAME_EVENT s = 0"
| "mipiCx3Position IMU6_EVENT s = 0"

definition mipiCx3IdentState :: "mipiCx3State \<Rightarrow> nat option \<times> nat option \<times> nat" where
  "mipiCx3IdentState s =
     (map_option pk_ident (m_polarity s), map_option pk_ident (m_special s), heap_nextIdent (m_memory s))"


section \<open>Measures for the IMU burst and the idle commit\<close>





section \<open>Concrete configurations and states\<close>

text \<open>
  A small device for the witnesses: a sensor of 240 by 180 pixels with a frame region of
  one pixel, packets of capacity one or two, and a ring buffer of four containers.
\<close>

definition exampleConfig :: davisConfig where
  "exampleConfig = \<lparr> cfg_deviceID = 1, cfg_isDAVIS640H = False, cfg_isDAVIS240 = False,
     cfg_APS_ADC_DEPTH = 10, cfg_APS_ADC_CHANNELS = 1,
     cfg_IMU_TYPE_TEMP = 1, cfg_IMU_TYPE_GYRO = 2, cfg_IMU_TYPE_ACCEL = 4,
     cfg_POLARITY_DEFAULT_SIZE = 4, cfg_SPECIAL_DEFAULT_SIZE = 4,
     cfg_FRAME_DEFAULT_SIZE = 2, cfg_IMU_DEFAULT_SIZE = 2 \<rparr>"

definition exampleAps :: apsState where
  "exampleAps = \<lparr> aps_ignoreEvents = False, aps_globalShutter = False, aps_flipX = False,
     aps_flipY = False, aps_invertXY = False, aps_currentReadoutType = APS_READOUT_SIGNAL,
     aps_countX = (\<lambda>i. 1), aps_countY = (\<lambda>i. 0), aps_expectedCountX = 1, aps_expectedCountY = 1,
     aps_roi = \<lparr> roi_tmpData = 0, roi_update = 0, roi_positionX = 0, roi_positionY = 0,
                 roi_sizeX = 1, roi_sizeY = 1 \<rparr>,
     aps_cDavisOffsetDirection = 0, aps_cDavisOffset = 0,
     aps_tsStartFrame = 0, aps_tsStartExposure = 0, aps_tsEndExposure = 0,
     aps_pixels = [700], aps_autoExposureTmpData = 0, aps_currentFrameExposure = 0 \<rparr>"

definition exampleImu :: imuState where
  "exampleImu = \<lparr> imu_ignoreEvents = False, imu_flipX = False, imu_flipY = False, imu_flipZ = False,
     imu_type = 0, imu_count = 14, imu_tmpData = 0, imu_accelScale = 16384, imu_gyroScale = 131,
     imu_currentEvent = zero_imu6_event \<rparr>"

definition examplePacket :: "nat \<Rightarrow> nat \<Rightarrow> 'e eventPacket" where
  "examplePacket ident capacity = \<lparr> pk_ident = ident, pk_eventSource = 1, pk_eventTSOverflow = 0,
     pk_events = replicate capacity None \<rparr>"

definition exampleState :: davisState where
  "exampleState = \<lparr> dataTransfersRun = True,
     timestamps = \<lparr> ts_wrapOverflow = 0, ts_wrapAdd = 0, ts_last = 0, ts_current = 5 \<rparr>,
     dvs = \<lparr> dvs_sizeX = 240, dvs_sizeY = 180, dvs_invertXY = False, dvs_lastY = 0 \<rparr>,
     aps = exampleAps,
     imu = exampleImu,
     currentPackets = \<lparr> cp_polarity = Some (examplePacket 0 2), cp_polarityPosition = 0,
                        cp_special = Some (examplePacket 1 2), cp_specialPosition = 0,
                        cp_frame = Some (examplePacket 2 1), cp_framePosition = 0,
                        cp_imu6 = Some (examplePacket 3 1), cp_imu6Position = 0 \<rparr>,
     container = \<lparr> cg_currentPacketContainer = Some emptyPacketContainer,
                   cg_maxPacketContainerPacketSize = 8, cg_maxPacketContainerInterval = 10000,
                   cg_currentPacketContainerCommitTimestamp = - 1 \<rparr>,
     dataExchange = \<lparr> dx_capacity = 4, dx_buffer = [] \<rparr>,
     memory = \<lparr> heap_nextIdent = 4, heap_available = True \<rparr>,
     logged = [] \<rparr>"

definition exampleMipiConfig :: mipiCx3Config where
  "exampleMipiConfig = \<lparr> mcfg_deviceID = 1, mcfg_POLARITY_DEFAULT_SIZE = 32, mcfg_SPECIAL_DEFAULT_SIZE = 2 \<rparr>"

definition exampleMipiState :: mipiCx3State where
  "exampleMipiState = mipiCx3InitialState exampleMipiConfig 4096 10000 4"


definition exampleMipiState1 :: mipiCx3State where
  "exampleMipiState1 = exampleMipiState
     \<lparr> m_timestamps := \<lparr> mts_lastSub = 5, mts_lastReference = 0, mts_currentReference = 0,
                          mts_last = 0, mts_current = 5 \<rparr>,
       m_container := (m_container exampleMipiState)\<lparr> cg_currentPacketContainerCommitTimestamp := 5 \<rparr> \<rparr>"

definition exampleMipiState2 :: mipiCx3State where
  "exampleMipiState2 = exampleMipiState1
     \<lparr> m_timestamps := \<lparr> mts_lastSub = 2, mts_lastReference = 1000, mts_currentReference = 1000,
                          mts_last = 5, mts_current = 1002 \<rparr> \<rparr>"

definition exampleStateNoSizeLimit :: davisState where
  "exampleStateNoSizeLimit =
     exampleState\<lparr> container := (container exampleState)\<lparr> cg_maxPacketContainerPacketSize := 0 \<rparr> \<rparr>"


text \<open>A legacy stream state, and the same state one wrap unit below the 31-bit limit.\<close>

definition exampleLimits :: legacyLimits where
  "exampleLimits = \<lparr> maxPacketContainerSize = 8192, maxPacketContainerInterval = 10000,
     maxPolarityPacketSize = 4, maxPolarityPacketInterval = 10000,
     maxSpecialPacketSize = 2, maxSpecialPacketInterval = 10000,
     maxFramePacketSize = 1, maxFramePacketInterval = 10000,
     maxIMU6PacketSize = 1, maxIMU6PacketInterval = 10000 \<rparr>"

definition exampleLegacyState :: legacyDavisState where
  "exampleLegacyState = \<lparr> dataAcquisitionThreadRun = True, deviceID = 1,
     wrapOverflow = 0, wrapAdd = 0, lastTimestamp = 0, currentTimestamp = 5, dvsTimestamp = 0,
     apsIgnoreEvents = False, imuIgnoreEvents = False,
     limits = exampleLimits,
     packets = \<lparr> currentPolarityPacket = Some (examplePacket 0 4), currentPolarityPacketPosition = 0,
                  currentSpecialPacket = Some (examplePacket 1 2), currentSpecialPacketPosition = 0,
                  currentFramePacket = Some (examplePacket 2 1), currentFramePacketPosition = 0,
                  currentIMU6Packet = Some (examplePacket 3 1), currentIMU6PacketPosition = 0 \<rparr>,
     currentPacketContainer = Some emptyPacketContainer,
     dataExchangeBuffer = \<lparr> dx_capacity = 4, dx_buffer = [] \<rparr>,
     dataNotifyIncreaseCalls = 0,
     legacyMemory = \<lparr> heap_nextIdent = 4, heap_available = True \<rparr>,
     legacyLogged = [] \<rparr>"

definition exampleLegacyStateNearWrap :: legacyDavisState where
  "exampleLegacyStateNearWrap =
     exampleLegacyState\<lparr> wrapAdd := 0x7FFF8000, lastTimestamp := 0x7FFF8000, currentTimestamp := 0x7FFF8005 \<rparr>"

definition exampleLegacyStateStopping :: legacyDavisState where
  "exampleLegacyStateStopping = exampleLegacyStateNearWrap\<lparr> dataAcquisitionThreadRun := False \<rparr>"

definition exampleStateStopped :: davisState where
  "exampleStateStopped = exampleState\<lparr> dataTransfersRun := False \<rparr>"

definition exampleMipiStateStopped :: mipiCx3State where
  "exampleMipiStateStopped = exampleMipiState1\<lparr> m_dataTransfersRun := False \<rparr>"


text \<open>
  A state with one polarity event written and a container size limit of one event, so that
  the size trigger of the commit fires; and a MIPI state of the same kind.
\<close>

definition exampleStateOneEvent :: davisState where
  "exampleStateOneEvent = exampleState
     \<lparr> currentPackets := (currentPackets exampleState)
         \<lparr> cp_polarity := Some (packetSetEvent (examplePacket 0 2) 0
                                 \<lparr> pe_timestamp = 5, pe_polarity = True, pe_x = 2, pe_y = 1 \<rparr>),
           cp_polarityPosition := 1 \<rparr>,
       container := (container exampleState)\<lparr> cg_maxPacketContainerPacketSize := 1 \<rparr> \<rparr>"

definition exampleMipiStateOneEvent :: mipiCx3State where
  "exampleMipiStateOneEvent = exampleMipiState1
     \<lparr> m_polarity := Some (packetSetEvent (examplePacket 0 32) 0
                            \<lparr> pe_timestamp = 5, pe_polarity = True, pe_x = 2, pe_y = 1 \<rparr>),
       m_polarityPosition := 1,
       m_container := (m_container exampleMipiState1)\<lparr> cg_maxPacketContainerPacketSize := 1 \<rparr> \<rparr>"

text \<open>A legacy state just below the 31-bit limit with one polarity event pending.\<close>

definition exampleLegacyStatePending :: legacyDavisState where
  "exampleLegacyStatePending = exampleLegacyStateNearWrap
     \<lparr> packets := (packets exampleLegacyStateNearWrap)
         \<lparr> currentPolarityPacket := Some (packetSetEvent (examplePacket 0 4) 0
                                          \<lparr> pe_timestamp = 0x7FFF8005, pe_polarity = True, pe_x = 2, pe_y = 1 \<rparr>),
           currentPolarityPacketPosition := 1 \<rparr> \<rparr>"


section \<open>Properties\<close>

subsection \<open>Helper facts\<close>

lemma uint_word_of_int_16:
  "0 \<le> x \<Longrightarrow> x < 65536 \<Longrightarrow> uint (word_of_int x :: 16 word) = x"
  by (simp add: uint_word_of_int take_bit_int_eq_self)

lemma ensureSpaceForEvents_result:
  assumes "ensureSpaceForEvents h p n k = (ok, q, msgs)"
  shows "pk_ident q = pk_ident p" and "ok \<Longrightarrow> msgs = []" and "\<not> ok \<Longrightarrow> q = p"
    and "length (pk_events p) \<le> length (pk_events q)"
  using assms
  by (auto simp: ensureSpaceForEvents_def caerEventPacketGrow_def split: if_splits)

lemma ensureSpaceForEvents_room:
  assumes "ensureSpaceForEvents h p n 1 = (True, q, msgs)"
    and "n \<le> length (pk_events p)" and "0 < length (pk_events p)"
  shows "n < length (pk_events q)"
proof (cases "n + 1 \<le> length (pk_events p)")
  case True
  then show ?thesis
    using assms(1) by (simp add: ensureSpaceForEvents_def caerEventPacketHeaderGetEventCapacity_def)
next
  case False
  then have "length (pk_events q) = length (pk_events p) * 2"
    using assms(1)
    by (auto simp: ensureSpaceForEvents_def caerEventPacketGrow_def caerEventPacketHeaderGetEventCapacity_def
        split: if_splits)
  then show ?thesis using assms(2,3) by linarith
qed

lemma emitSpecialEvent_frame [simp]:
  "aps (emitSpecialEvent ty ts s) = aps s"
  "imu (emitSpecialEvent ty ts s) = imu s"
  "dvs (emitSpecialEvent ty ts s) = dvs s"
  "timestamps (emitSpecialEvent ty ts s) = timestamps s"
  "memory (emitSpecialEvent ty ts s) = memory s"
  "container (emitSpecialEvent ty ts s) = container s"
  "dataExchange (emitSpecialEvent ty ts s) = dataExchange s"
  "dataTransfersRun (emitSpecialEvent ty ts s) = dataTransfersRun s"
  "cp_frame (currentPackets (emitSpecialEvent ty ts s)) = cp_frame (currentPackets s)"
  "cp_framePosition (currentPackets (emitSpecialEvent ty ts s)) = cp_framePosition (currentPackets s)"
  "cp_polarity (currentPackets (emitSpecialEvent ty ts s)) = cp_polarity (currentPackets s)"
  "cp_polarityPosition (currentPackets (emitSpecialEvent ty ts s)) = cp_polarityPosition (currentPackets s)"
  "cp_imu6 (currentPackets (emitSpecialEvent ty ts s)) = cp_imu6 (currentPackets s)"
  "cp_imu6Position (currentPackets (emitSpecialEvent ty ts s)) = cp_imu6Position (currentPackets s)"
  by (cases "cp_special (currentPackets s)";
      simp add: emitSpecialEvent_def split: prod.splits)+

lemma emitSpecialEvent_logged:
  "set (logged s) \<subseteq> set (logged (emitSpecialEvent ty ts s))"
  by (cases "cp_special (currentPackets s)") (auto simp: emitSpecialEvent_def split: prod.splits)

lemma apsFrameEvent_emitSpecialEvent [simp]:
  "apsFrameEvent cfg (emitSpecialEvent ty ts s) = apsFrameEvent cfg s"
  by (simp add: apsFrameEvent_def)

lemma apsFrameEvent_logged [simp]:
  "apsFrameEvent cfg (s\<lparr> logged := l \<rparr>) = apsFrameEvent cfg s"
  by (simp add: apsFrameEvent_def)

subsection \<open>Allocation at the head of the loop, and a commit that is not due\<close>

lemma allocateIfNull_Some [simp]:
  "allocateIfNull n src ovf h (Some p) = (Some p, h)"
  by (simp add: allocateIfNull_def)

lemma davisAllocatePackets_allocated:
  assumes "cg_currentPacketContainer (container s) \<noteq> None"
    and "cp_polarity (currentPackets s) \<noteq> None" and "cp_special (currentPackets s) \<noteq> None"
    and "cp_frame (currentPackets s) \<noteq> None" and "cp_imu6 (currentPackets s) \<noteq> None"
  shows "davisAllocatePackets cfg s = (True, s)"
  using assms
  by (auto simp: davisAllocatePackets_def containerGenerationAllocate_def)

lemma davisCommit_not_triggered:
  assumes "cg_maxPacketContainerPacketSize (container s) = 0"
    and "cg_currentPacketContainerCommitTimestamp (container s) = - 1"
  shows "davisCommit cfg False False s = Some s"
  using assms
  by (simp add: davisCommit_def davisCommitTriggered_def containerGenerationGetMaxPacketSize_def
        containerGenerationIsCommitTimestampElapsed_def)

lemmas davis_eval =
  davisTranslateUnit_def davisAllocatePackets_allocated davisDecodeEvent_def davisSpecialEvent_def
  davisCommit_def davisCommitTriggered_def containerGenerationGetMaxPacketSize_def
  containerGenerationIsCommitTimestampElapsed_def davisMisc8_def imuDataEvent_def imuEnd_def
  imuSample_def ensureSpaceForEvents_def caerEventPacketHeaderGetEventCapacity_def packetSetEvent_def
  IMU_TOTAL_COUNT_def davisLog_def zero_imu6_event_def
  exampleState_def exampleImu_def exampleConfig_def examplePacket_def exampleAps_def


lemmas commit_eval =
  davisAttachPackets_def attachPolarity_def attachSpecial_def attachFrame_def attachIMU6_def
  containerGenerationExecute_def containerGenerationSetPacket_def dataExchangePut_def
  carriesWrapMarker_def timestampResetContainer_def emptyPacketContainer_def generateFullTimestamp_def
  containerGenerationCommitTimestampInit_def containerGenerationCommitTimestampReset_def
  containerGenerationAllocate_def handleTimestampResetNewLogic_def handleTimestampUpdateNewLogic_def
  checkStrictMonotonicTimestamp_def INT32_MAX_def

subsection \<open>The frame end\<close>

lemma decode_frame_end:
  "davisDecodeEvent cfg 0x000A s = (apsFrameEnd cfg s, False, False)"
  by (simp add: davisDecodeEvent_def davisSpecialEvent_def)

lemma apsFrameEnd_valid:
  assumes "\<not> aps_ignoreEvents (aps s)"
    and "cp_frame (currentPackets s) = Some packet"
    and "ensureSpaceForEvents (memory s) packet (cp_framePosition (currentPackets s)) 1 = (True, packet', msgs)"
    and "aps_countX (aps s) APS_READOUT_RESET = aps_expectedCountX (aps s)"
    and "aps_countX (aps s) APS_READOUT_SIGNAL = aps_expectedCountX (aps s)"
  shows "cp_framePosition (currentPackets (apsFrameEnd cfg s)) = cp_framePosition (currentPackets s) + 1"
    and "cp_frame (currentPackets (apsFrameEnd cfg s)) =
           Some (packetSetEvent packet' (cp_framePosition (currentPackets s)) (apsFrameEvent cfg s))"
  using assms by (simp_all add: apsFrameEnd_def apsEndFrame_def Let_def)

lemma apsFrameEnd_invalid:
  assumes "\<not> aps_ignoreEvents (aps s)"
    and "\<not> (aps_countX (aps s) APS_READOUT_RESET = aps_expectedCountX (aps s)
            \<and> aps_countX (aps s) APS_READOUT_SIGNAL = aps_expectedCountX (aps s))"
  shows "cp_framePosition (currentPackets (apsFrameEnd cfg s)) = cp_framePosition (currentPackets s)"
    and "cp_frame (currentPackets (apsFrameEnd cfg s)) = cp_frame (currentPackets s)"
    and "aps_pixels (aps (apsFrameEnd cfg s)) = aps_pixels (aps s)"
    and "(CAER_LOG_ERROR, ''APS Frame End: wrong column count detected.'') \<in> set (logged (apsFrameEnd cfg s))"
proof -
  let ?s0 = "s\<lparr> logged := logged s @ apsEndFrameCheck (aps s) APS_READOUT_RESET
                                     @ apsEndFrameCheck (aps s) APS_READOUT_SIGNAL \<rparr>"
  have eq: "apsFrameEnd cfg s = emitSpecialEvent APS_FRAME_END (ts_current (timestamps s)) ?s0"
    using assms by (auto simp add: apsFrameEnd_def apsEndFrame_def Let_def)
  show "cp_framePosition (currentPackets (apsFrameEnd cfg s)) = cp_framePosition (currentPackets s)"
    and "cp_frame (currentPackets (apsFrameEnd cfg s)) = cp_frame (currentPackets s)"
    and "aps_pixels (aps (apsFrameEnd cfg s)) = aps_pixels (aps s)"
    by (simp_all add: eq)
  have "(CAER_LOG_ERROR, ''APS Frame End: wrong column count detected.'') \<in> set (logged ?s0)"
    using assms(2) by (auto simp: apsEndFrameCheck_def)
  then show "(CAER_LOG_ERROR, ''APS Frame End: wrong column count detected.'') \<in> set (logged (apsFrameEnd cfg s))"
    unfolding eq using emitSpecialEvent_logged by blast
qed

lemma decode_column_end:
  "\<not> aps_ignoreEvents (aps s) \<Longrightarrow>
     aps_countX (aps (fst (davisDecodeEvent cfg 0x000D s))) (aps_currentReadoutType (aps s))
       = aps_countX (aps s) (aps_currentReadoutType (aps s)) + 1"
  by (simp add: davisDecodeEvent_def davisSpecialEvent_def Let_def davisLog_def)

lemma decode_frame_start_pixels:
  "aps_pixels (aps (fst (davisDecodeEvent cfg 0x0008 s))) = aps_pixels (aps s)"
  "aps_pixels (aps (fst (davisDecodeEvent cfg 0x0009 s))) = aps_pixels (aps s)"
  by (simp_all add: davisDecodeEvent_def davisSpecialEvent_def apsInitFrame_def Let_def)

lemma apsFrameEnd_pixels:
  "aps_pixels (aps (apsFrameEnd cfg s)) = aps_pixels (aps s)"
  by (cases "cp_frame (currentPackets (snd (apsEndFrame s)))")
     (auto simp: apsFrameEnd_def apsEndFrame_def Let_def split: prod.splits)

lemmas aps_eval =
  apsInitFrame_def emitSpecialEvent_def davisAPSSample_def apsUpdateFrame_def apsPixelPosition_def
  apsCDSPixelValue_def apsFrameEnd_def apsEndFrame_def apsEndFrameCheck_def apsFrameEvent_def


text \<open>
  Claim C1, as stated, fails in two clauses. The column counter of a readout phase counts
  the Column End markers, not the samples: a column that held too few rows, or none, is
  logged (davis.c:2785) and counted all the same, so a frame with missing samples passes the
  check of \<open>apsEndFrame\<close>. And on a column-count mismatch the pixel buffer is not
  discarded: neither the Frame End nor the next Frame Start clears it. In the run below the
  first frame (reset sample 1000, signal sample 200) has one Column End too many in the
  signal phase: it is not emitted, and its pixel 51200 stays in the buffer. The second frame
  brings no sample at all and is emitted, carrying that pixel.
\<close>

theorem frame_without_samples_is_emitted:
  "map_option (cp_framePosition \<circ> currentPackets)
     (davisTranslateUnits exampleConfig
        [0x0009, 0x000B, 0x43E8, 0x000D, 0x000C, 0x40C8, 0x000D, 0x000D, 0x000A] exampleState) = Some 0
   \<and> map_option (aps_pixels \<circ> aps)
     (davisTranslateUnits exampleConfig
        [0x0009, 0x000B, 0x43E8, 0x000D, 0x000C, 0x40C8, 0x000D, 0x000D, 0x000A] exampleState) = Some [51200]
   \<and> map_option (cp_framePosition \<circ> currentPackets)
     (davisTranslateUnits exampleConfig
        [0x0009, 0x000B, 0x43E8, 0x000D, 0x000C, 0x40C8, 0x000D, 0x000D, 0x000A,
         0x0009, 0x000B, 0x000D, 0x000C, 0x000D, 0x000A] exampleState) = Some 1
   \<and> map_option (map (map_option fe_pixels) \<circ> pk_events \<circ> the \<circ> cp_frame \<circ> currentPackets)
     (davisTranslateUnits exampleConfig
        [0x0009, 0x000B, 0x43E8, 0x000D, 0x000C, 0x40C8, 0x000D, 0x000D, 0x000A,
         0x0009, 0x000B, 0x000D, 0x000C, 0x000D, 0x000A] exampleState) = Some [Some [51200]]"
  by (simp add: davis_eval aps_eval caerEventPacketGrow_def Let_def)

text \<open>
  Claim C1, amended. When the APS Frame End marker (special event 10, the unit \<open>0x000A\<close>)
  is decoded with \<open>aps.ignoreEvents\<close> false, a frame packet of positive capacity whose
  write position is within the capacity, and the growth of the packet succeeding, a frame
  event is appended to the frame packet if and only if the column counter of both readout
  phases, RESET and SIGNAL, equals the expected column count. In that case the write
  position advances by one, and the event written at the old position has the ROI
  identifier 0, the start of frame and the two exposure timestamps of the frame, the current
  timestamp as the end of frame, the position and size of the ROI, the channel number, and
  the first \<open>sizeX * sizeY * channels\<close> pixels of the pixel buffer as it stands. On a
  mismatch the frame packet and its write position are left as they are and an ERROR entry
  is logged. In both cases the pixel buffer is left as it is, and the two Frame Start
  markers leave it as it is too; the Column End marker advances the column counter of the
  current phase by one whatever the number of samples of the column.
\<close>

theorem frame_end_emits_iff_columns_match:
  assumes "\<not> aps_ignoreEvents (aps s)"
    and "cp_frame (currentPackets s) = Some packet"
    and "cp_framePosition (currentPackets s) \<le> length (pk_events packet)"
    and "0 < length (pk_events packet)"
    and "ensureSpaceForEvents (memory s) packet (cp_framePosition (currentPackets s)) 1 = (True, packet', msgs)"
    and "davisDecodeEvent cfg 0x000A s = (s', tsReset, tsBigWrap)"
  shows "(if aps_countX (aps s) APS_READOUT_RESET = aps_expectedCountX (aps s)
             \<and> aps_countX (aps s) APS_READOUT_SIGNAL = aps_expectedCountX (aps s)
          then cp_framePosition (currentPackets s') = cp_framePosition (currentPackets s) + 1
               \<and> cp_framePosition (currentPackets s) < length (pk_events packet')
               \<and> (\<exists>p. cp_frame (currentPackets s') = Some p
                      \<and> pk_ident p = pk_ident packet
                      \<and> pk_events p = (pk_events packet')
                           [cp_framePosition (currentPackets s) :=
                              Some \<lparr> fe_roiIdentifier = 0,
                                     fe_tsStartOfFrame = aps_tsStartFrame (aps s),
                                     fe_tsStartOfExposure = aps_tsStartExposure (aps s),
                                     fe_tsEndOfExposure = aps_tsEndExposure (aps s),
                                     fe_tsEndOfFrame = ts_current (timestamps s),
                                     fe_positionX = roi_positionX (aps_roi (aps s)),
                                     fe_positionY = roi_positionY (aps_roi (aps s)),
                                     fe_lengthX = roi_sizeX (aps_roi (aps s)),
                                     fe_lengthY = roi_sizeY (aps_roi (aps s)),
                                     fe_channelNumber = cfg_APS_ADC_CHANNELS cfg,
                                     fe_pixels =
                                       take (unat (roi_sizeX (aps_roi (aps s))) * unat (roi_sizeY (aps_roi (aps s)))
                                             * cfg_APS_ADC_CHANNELS cfg) (aps_pixels (aps s)) \<rparr>])
          else cp_framePosition (currentPackets s') = cp_framePosition (currentPackets s)
               \<and> cp_frame (currentPackets s') = cp_frame (currentPackets s)
               \<and> (CAER_LOG_ERROR, ''APS Frame End: wrong column count detected.'') \<in> set (logged s'))
         \<and> aps_pixels (aps s') = aps_pixels (aps s)
         \<and> aps_countX (aps (fst (davisDecodeEvent cfg 0x000D s))) (aps_currentReadoutType (aps s))
             = aps_countX (aps s) (aps_currentReadoutType (aps s)) + 1
         \<and> aps_pixels (aps (fst (davisDecodeEvent cfg 0x0008 s))) = aps_pixels (aps s)
         \<and> aps_pixels (aps (fst (davisDecodeEvent cfg 0x0009 s))) = aps_pixels (aps s)"
proof -
  have s': "s' = apsFrameEnd cfg s" using assms(6) by (simp add: decode_frame_end)
  have room: "cp_framePosition (currentPackets s) < length (pk_events packet')"
    by (rule ensureSpaceForEvents_room [OF assms(5,3,4)])
  have ident: "pk_ident packet' = pk_ident packet"
    by (rule ensureSpaceForEvents_result(1) [OF assms(5)])
  have main: "if aps_countX (aps s) APS_READOUT_RESET = aps_expectedCountX (aps s)
             \<and> aps_countX (aps s) APS_READOUT_SIGNAL = aps_expectedCountX (aps s)
          then cp_framePosition (currentPackets s') = cp_framePosition (currentPackets s) + 1
               \<and> cp_framePosition (currentPackets s) < length (pk_events packet')
               \<and> (\<exists>p. cp_frame (currentPackets s') = Some p
                      \<and> pk_ident p = pk_ident packet
                      \<and> pk_events p = (pk_events packet')
                           [cp_framePosition (currentPackets s) :=
                              Some \<lparr> fe_roiIdentifier = 0,
                                     fe_tsStartOfFrame = aps_tsStartFrame (aps s),
                                     fe_tsStartOfExposure = aps_tsStartExposure (aps s),
                                     fe_tsEndOfExposure = aps_tsEndExposure (aps s),
                                     fe_tsEndOfFrame = ts_current (timestamps s),
                                     fe_positionX = roi_positionX (aps_roi (aps s)),
                                     fe_positionY = roi_positionY (aps_roi (aps s)),
                                     fe_lengthX = roi_sizeX (aps_roi (aps s)),
                                     fe_lengthY = roi_sizeY (aps_roi (aps s)),
                                     fe_channelNumber = cfg_APS_ADC_CHANNELS cfg,
                                     fe_pixels =
                                       take (unat (roi_sizeX (aps_roi (aps s))) * unat (roi_sizeY (aps_roi (aps s)))
                                             * cfg_APS_ADC_CHANNELS cfg) (aps_pixels (aps s)) \<rparr>])
          else cp_framePosition (currentPackets s') = cp_framePosition (currentPackets s)
               \<and> cp_frame (currentPackets s') = cp_frame (currentPackets s)
               \<and> (CAER_LOG_ERROR, ''APS Frame End: wrong column count detected.'') \<in> set (logged s')"
    using apsFrameEnd_valid [OF assms(1,2,5), of cfg] apsFrameEnd_invalid [OF assms(1), of cfg] room ident
    by (auto simp: s' packetSetEvent_def apsFrameEvent_def)
  have pix: "aps_pixels (aps s') = aps_pixels (aps s)"
    unfolding s' by (rule apsFrameEnd_pixels)
  show ?thesis
    using main pix decode_column_end [OF assms(1), of cfg] decode_frame_start_pixels [of cfg s]
    by (intro conjI) assumption+
qed

theorem frame_end_emits_iff_columns_match_witness:
  "\<not> aps_ignoreEvents (aps exampleState)
   \<and> cp_frame (currentPackets exampleState) = Some (examplePacket 2 1)
   \<and> aps_countX (aps exampleState) APS_READOUT_RESET = aps_expectedCountX (aps exampleState)
   \<and> aps_countX (aps exampleState) APS_READOUT_SIGNAL = aps_expectedCountX (aps exampleState)
   \<and> cp_framePosition (currentPackets (fst (davisDecodeEvent exampleConfig 0x000A exampleState))) = 1
   \<and> map (map_option fe_pixels)
        (pk_events (the (cp_frame (currentPackets (fst (davisDecodeEvent exampleConfig 0x000A exampleState))))))
       = [Some [700]]
   \<and> aps_pixels (aps (fst (davisDecodeEvent exampleConfig 0x000A exampleState))) = [700]"
proof -
  have h1: "\<not> aps_ignoreEvents (aps exampleState)"
    by (simp add: exampleState_def exampleAps_def)
  have h2: "cp_frame (currentPackets exampleState) = Some (examplePacket 2 1)"
    by (simp add: exampleState_def)
  have h3: "cp_framePosition (currentPackets exampleState) \<le> length (pk_events (examplePacket 2 1 :: caer_frame_event eventPacket))"
    by (simp add: exampleState_def)
  have h4: "0 < length (pk_events (examplePacket 2 1 :: caer_frame_event eventPacket))"
    by (simp add: examplePacket_def)
  have h5: "ensureSpaceForEvents (memory exampleState) (examplePacket 2 1 :: caer_frame_event eventPacket)
              (cp_framePosition (currentPackets exampleState)) 1 = (True, examplePacket 2 1, [])"
    by (simp add: exampleState_def examplePacket_def ensureSpaceForEvents_def
          caerEventPacketHeaderGetEventCapacity_def)
  have h6: "davisDecodeEvent exampleConfig 0x000A exampleState =
              (fst (davisDecodeEvent exampleConfig 0x000A exampleState), False, False)"
    by (simp add: decode_frame_end)
  have c: "aps_countX (aps exampleState) APS_READOUT_RESET = aps_expectedCountX (aps exampleState)"
    "aps_countX (aps exampleState) APS_READOUT_SIGNAL = aps_expectedCountX (aps exampleState)"
    by (simp_all add: exampleState_def exampleAps_def)
  note t = frame_end_emits_iff_columns_match [OF h1 h2 h3 h4 h5 h6]
  have pos: "cp_framePosition (currentPackets (fst (davisDecodeEvent exampleConfig 0x000A exampleState))) = 1"
    using t [THEN conjunct1] c by (simp add: exampleState_def)
  have ev: "map (map_option fe_pixels)
        (pk_events (the (cp_frame (currentPackets (fst (davisDecodeEvent exampleConfig 0x000A exampleState))))))
       = [Some [700]]"
    using t [THEN conjunct1] c
    by (auto simp: exampleState_def exampleAps_def examplePacket_def exampleConfig_def)
  have pix: "aps_pixels (aps (fst (davisDecodeEvent exampleConfig 0x000A exampleState))) = [700]"
    using t [THEN conjunct2, THEN conjunct1] by (simp add: exampleState_def exampleAps_def)
  show ?thesis using h1 h2 c pos ev pix by simp
qed

subsection \<open>Correlated double sampling\<close>

lemma apsCDSPixelValue_uint:
  assumes "cfg_APS_ADC_DEPTH cfg = 10"
  shows "uint (apsCDSPixelValue cfg r g) =
           (if r < 384 \<or> g = 0 then 1023 else max 0 (min 1023 (uint r - uint g))) * 2 ^ 6"
proof -
  define v where "v = (if r < 384 \<or> g = 0 then 1023 else max 0 (min 1023 (uint r - uint g)))"
  have b: "0 \<le> v" "v \<le> 1023" by (auto simp: v_def)
  have eq: "apsCDSPixelValue cfg r g = word_of_int (v * 64)"
    using assms by (auto simp: apsCDSPixelValue_def Let_def max_def min_def v_def)
  have "uint (word_of_int (v * 64) :: 16 word) = v * 64"
    using b by (intro uint_word_of_int_16) auto
  with eq show ?thesis by (simp add: v_def)
qed

text \<open>
  Claim C5. For an APS ADC sample in the second readout phase of a pixel (the phase that
  finds the first-phase sample stored at the pixel position; for the DAVIS640H in global
  shutter mode the phases are swapped), with the ADC depth of 10 bits and the pixel
  position inside the frame buffer, the value stored at the pixel position is
  \<open>resetSample - signalSample\<close> clamped to the range from 0 to 1023 and shifted left by
  \<open>16 - 10\<close> bits, except that it is 1023 before the shift when \<open>resetSample < 384\<close> or
  \<open>signalSample = 0\<close>.
\<close>

theorem aps_second_phase_pixel_is_clamped_difference:
  assumes "cfg_APS_ADC_DEPTH cfg = 10"
    and "isCDavisGS = (cfg_isDAVIS640H cfg \<and> aps_globalShutter a)"
    and "\<not> ((aps_currentReadoutType a = APS_READOUT_RESET \<and> \<not> isCDavisGS)
            \<or> (aps_currentReadoutType a = APS_READOUT_SIGNAL \<and> isCDavisGS))"
    and "apsPixelPosition cfg a < length (aps_pixels a)"
    and "resetSample = (if isCDavisGS then data else aps_pixels a ! apsPixelPosition cfg a)"
    and "signalSample = (if isCDavisGS then aps_pixels a ! apsPixelPosition cfg a else data)"
  shows "uint (aps_pixels (apsUpdateFrame cfg data a) ! apsPixelPosition cfg a) =
           (if resetSample < 384 \<or> signalSample = 0 then 1023
            else max 0 (min 1023 (uint resetSample - uint signalSample))) * 2 ^ 6"
proof -
  have "aps_pixels (apsUpdateFrame cfg data a) ! apsPixelPosition cfg a =
          apsCDSPixelValue cfg resetSample signalSample"
    using assms(2-6) by (simp add: apsUpdateFrame_def Let_def)
  then show ?thesis
    by (simp add: apsCDSPixelValue_uint [OF assms(1)])
qed

theorem aps_second_phase_pixel_is_clamped_difference_witness:
  "apsPixelPosition exampleConfig (exampleAps\<lparr> aps_countX := (\<lambda>i. 0) \<rparr>) < length (aps_pixels (exampleAps\<lparr> aps_countX := (\<lambda>i. 0) \<rparr>))
   \<and> uint (aps_pixels (apsUpdateFrame exampleConfig 200 (exampleAps\<lparr> aps_countX := (\<lambda>i. 0) \<rparr>)) ! apsPixelPosition exampleConfig (exampleAps\<lparr> aps_countX := (\<lambda>i. 0) \<rparr>))
       = 500 * 2 ^ 6"
proof -
  have pos: "apsPixelPosition exampleConfig (exampleAps\<lparr> aps_countX := (\<lambda>i. 0) \<rparr>) = 0"
    by (simp add: exampleConfig_def exampleAps_def apsPixelPosition_def)
  have h1: "cfg_APS_ADC_DEPTH exampleConfig = 10"
    by (simp add: exampleConfig_def)
  have h2: "False = (cfg_isDAVIS640H exampleConfig \<and> aps_globalShutter (exampleAps\<lparr> aps_countX := (\<lambda>i. 0) \<rparr>))"
    by (simp add: exampleConfig_def)
  have h3: "\<not> ((aps_currentReadoutType (exampleAps\<lparr> aps_countX := (\<lambda>i. 0) \<rparr>) = APS_READOUT_RESET \<and> \<not> False)
             \<or> (aps_currentReadoutType (exampleAps\<lparr> aps_countX := (\<lambda>i. 0) \<rparr>) = APS_READOUT_SIGNAL \<and> False))"
    by (simp add: exampleAps_def)
  have h4: "apsPixelPosition exampleConfig (exampleAps\<lparr> aps_countX := (\<lambda>i. 0) \<rparr>) < length (aps_pixels (exampleAps\<lparr> aps_countX := (\<lambda>i. 0) \<rparr>))"
    unfolding pos by (simp add: exampleAps_def)
  have h5: "(700 :: uint16_t) = (if False then 200 else aps_pixels (exampleAps\<lparr> aps_countX := (\<lambda>i. 0) \<rparr>) ! apsPixelPosition exampleConfig (exampleAps\<lparr> aps_countX := (\<lambda>i. 0) \<rparr>))"
    unfolding pos by (simp add: exampleAps_def)
  have h6: "(200 :: uint16_t) = (if False then aps_pixels (exampleAps\<lparr> aps_countX := (\<lambda>i. 0) \<rparr>) ! apsPixelPosition exampleConfig (exampleAps\<lparr> aps_countX := (\<lambda>i. 0) \<rparr>) else 200)"
    by simp
  have "uint (aps_pixels (apsUpdateFrame exampleConfig 200 (exampleAps\<lparr> aps_countX := (\<lambda>i. 0) \<rparr>)) ! apsPixelPosition exampleConfig (exampleAps\<lparr> aps_countX := (\<lambda>i. 0) \<rparr>))
          = (if (700 :: uint16_t) < 384 \<or> (200 :: uint16_t) = 0 then 1023
             else max 0 (min 1023 (uint (700 :: uint16_t) - uint (200 :: uint16_t)))) * 2 ^ 6"
    by (rule aps_second_phase_pixel_is_clamped_difference [OF h1 h2 h3 h4 h5 h6])
  then show ?thesis using h4 by simp
qed

subsection \<open>The MIPI translator\<close>

lemma mipiCx3AllocatePackets_timestamps:
  "mipiCx3AllocatePackets cfg s = (ok, s1) \<Longrightarrow> m_timestamps s1 = m_timestamps s"
  by (auto simp: mipiCx3AllocatePackets_def mipiCx3Log_def Let_def
      split: prod.splits bool.splits option.splits)

lemma mipiCx3AllocatePackets_allocated:
  assumes "cg_currentPacketContainer (m_container s) \<noteq> None"
    and "m_polarity s \<noteq> None" and "m_special s \<noteq> None"
  shows "mipiCx3AllocatePackets cfg s = (True, s)"
  using assms
  by (auto simp: mipiCx3AllocatePackets_def containerGenerationAllocate_def)

lemma mipiCx3EmitSpecial_timestamps [simp]:
  "m_timestamps (mipiCx3EmitSpecial ty ts s) = m_timestamps s"
  by (cases "m_special s") (auto simp: mipiCx3EmitSpecial_def split: prod.splits)

lemma mipiCx3Commit_timestamps:
  "mipiCx3Commit cfg s = Some s' \<Longrightarrow> m_timestamps s' = m_timestamps s"
  by (auto simp: mipiCx3Commit_def mipiCx3AttachPackets_def mipiCx3AttachSpecial_def
        mipiCx3AttachPolarity_def
      split: if_splits prod.splits option.splits)

lemma mipiCx3Column_timestamps:
  "m_timestamps (mipiCx3Column event s) =
     mipiCx3ColumnTimestamp (ucast (drop_bit 11 event AND 0x03FF)) (m_timestamps s)"
  by (simp add: mipiCx3Column_def Let_def)

lemma mipiCx3TranslateUnit_column:
  assumes "event AND 0x80000000 = 0" and "event AND 0x04000000 \<noteq> 0"
    and "mipiCx3TranslateUnit cfg event s = Continue s'"
  shows "mts_lastSub (m_timestamps s') = ucast (drop_bit 11 event AND 0x03FF)"
    and "mts_currentReference (m_timestamps s') =
           mts_currentReference (mipiCx3ColumnTimestamp (ucast (drop_bit 11 event AND 0x03FF)) (m_timestamps s))"
    and "mts_current (m_timestamps s') =
           mts_current (mipiCx3ColumnTimestamp (ucast (drop_bit 11 event AND 0x03FF)) (m_timestamps s))"
    and "mts_last (m_timestamps s') = mts_current (m_timestamps s)"
    and "event AND 0x08000000 = 0 \<Longrightarrow>
           mts_lastReference (m_timestamps s') =
             mts_lastReference (mipiCx3ColumnTimestamp (ucast (drop_bit 11 event AND 0x03FF)) (m_timestamps s))"
  using assms
  by (auto simp: mipiCx3TranslateUnit_def Let_def mipiCx3Column_timestamps mipiCx3TimestampReference_def
        mipiCx3ColumnTimestamp_def
      split: prod.splits bool.splits option.splits if_splits
      dest!: mipiCx3Commit_timestamps mipiCx3AllocatePackets_timestamps)

lemmas mipi_eval =
  mipiCx3TranslateUnit_def mipiCx3AllocatePackets_allocated mipiCx3Column_def mipiCx3ColumnTimestamp_def
  mipiCx3Commit_def mipiCx3CommitTriggered_def containerGenerationGetMaxPacketSize_def
  containerGenerationIsCommitTimestampElapsed_def containerGenerationCommitTimestampInit_def
  generateFullTimestamp_def checkMonotonicTimestamp_def
  exampleMipiState_def exampleMipiState1_def exampleMipiState2_def mipiCx3InitialState_def exampleMipiConfig_def

text \<open>
  Claim C8. In the MIPI decoder, take two consecutive column units \<open>u1\<close> and \<open>u2\<close>
  (bit 31 clear, bit 26 set) with 10-bit sub-timestamps \<open>sub1\<close> and \<open>sub2\<close>. When
  \<open>sub2 < sub1\<close> and, after \<open>u1\<close>, the current reference still equals the last received
  reference, then decoding \<open>u2\<close> advances the reference by exactly 1000 and recomputes the
  current timestamp as that reference plus \<open>sub2\<close> (arithmetic of 32-bit words). The
  stored last reference is the advanced one too, unless \<open>u2\<close> itself also carries a
  timestamp reference (bit 27), which then overwrites it.
\<close>

theorem mipi_sub_timestamp_wrap_advances_reference:
  assumes "u1 AND 0x80000000 = 0" and "u1 AND 0x04000000 \<noteq> 0"
    and "u2 AND 0x80000000 = 0" and "u2 AND 0x04000000 \<noteq> 0"
    and "sub1 = (ucast (drop_bit 11 u1 AND 0x03FF) :: uint16_t)"
    and "sub2 = (ucast (drop_bit 11 u2 AND 0x03FF) :: uint16_t)"
    and "mipiCx3TranslateUnit cfg u1 s = Continue s1"
    and "mipiCx3TranslateUnit cfg u2 s1 = Continue s2"
    and "sub2 < sub1"
    and "mts_currentReference (m_timestamps s1) = mts_lastReference (m_timestamps s1)"
  shows "mts_currentReference (m_timestamps s2) = mts_lastReference (m_timestamps s1) + 1000
         \<and> mts_current (m_timestamps s2) = mts_lastReference (m_timestamps s1) + 1000 + ucast sub2
         \<and> (u2 AND 0x08000000 = 0 \<longrightarrow>
              mts_lastReference (m_timestamps s2) = mts_lastReference (m_timestamps s1) + 1000)"
proof -
  have l1: "mts_lastSub (m_timestamps s1) = sub1"
    using mipiCx3TranslateUnit_column(1) [OF assms(1,2,7)] assms(5) by simp
  have ne: "sub2 \<noteq> mts_lastSub (m_timestamps s1)" and lt: "sub2 < mts_lastSub (m_timestamps s1)"
    using assms(9) l1 by auto
  have t: "mipiCx3ColumnTimestamp sub2 (m_timestamps s1) =
             (m_timestamps s1)\<lparr> mts_lastReference := mts_lastReference (m_timestamps s1) + 1000,
                                 mts_currentReference := mts_lastReference (m_timestamps s1) + 1000,
                                 mts_lastSub := sub2,
                                 mts_last := mts_current (m_timestamps s1),
                                 mts_current := mts_lastReference (m_timestamps s1) + 1000 + ucast sub2 \<rparr>"
    using ne lt assms(10) by (simp add: mipiCx3ColumnTimestamp_def Let_def)
  show ?thesis
    using mipiCx3TranslateUnit_column(2,3,5) [OF assms(3,4,8)] assms(6) t by simp
qed

theorem mipi_sub_timestamp_wrap_advances_reference_witness:
  "mipiCx3TranslateUnit exampleMipiConfig 0x04002800 exampleMipiState = Continue exampleMipiState1
   \<and> mipiCx3TranslateUnit exampleMipiConfig 0x04001000 exampleMipiState1 = Continue exampleMipiState2
   \<and> mts_currentReference (m_timestamps exampleMipiState1) = mts_lastReference (m_timestamps exampleMipiState1)
   \<and> mts_currentReference (m_timestamps exampleMipiState2) = 1000
   \<and> mts_current (m_timestamps exampleMipiState2) = 1002"
proof -
  have e1: "mipiCx3TranslateUnit exampleMipiConfig 0x04002800 exampleMipiState = Continue exampleMipiState1"
    by (simp add: mipi_eval Let_def)
  have e2: "mipiCx3TranslateUnit exampleMipiConfig 0x04001000 exampleMipiState1 = Continue exampleMipiState2"
    by (simp add: mipi_eval Let_def)
  have r: "mts_currentReference (m_timestamps exampleMipiState1) = mts_lastReference (m_timestamps exampleMipiState1)"
    by (simp add: exampleMipiState1_def)
  have "mts_currentReference (m_timestamps exampleMipiState2) = mts_lastReference (m_timestamps exampleMipiState1) + 1000
         \<and> mts_current (m_timestamps exampleMipiState2)
             = mts_lastReference (m_timestamps exampleMipiState1) + 1000 + ucast (2 :: uint16_t)
         \<and> ((0x04001000 :: uint32_t) AND 0x08000000 = 0 \<longrightarrow>
              mts_lastReference (m_timestamps exampleMipiState2) = mts_lastReference (m_timestamps exampleMipiState1) + 1000)"
    by (rule mipi_sub_timestamp_wrap_advances_reference
               [where ?u1.0 = "0x04002800" and ?u2.0 = "0x04001000" and ?sub1.0 = 5 and ?sub2.0 = 2,
                OF _ _ _ _ _ _ e1 e2 _ r]) simp_all
  then show ?thesis using e1 e2 r by (simp add: exampleMipiState1_def)
qed

lemma mipiCx3TranslateUnit_group_skipped:
  assumes "cg_currentPacketContainerCommitTimestamp (m_container s) = - 1"
    and "cg_currentPacketContainer (m_container s) \<noteq> None"
    and "m_polarity s \<noteq> None" and "m_special s \<noteq> None"
    and "event AND 0x80000000 \<noteq> 0"
  shows "mipiCx3TranslateUnit cfg event s = Continue s"
  using assms by (simp add: mipiCx3TranslateUnit_def mipiCx3AllocatePackets_allocated)

text \<open>
  Claim C10. In the MIPI decoder, in a stream state in which the container commit
  timestamp is still \<open>-1\<close> and the container and the two packets are allocated (as they
  are from \<open>mipiCx3DataStart\<close> on), every sequence of group-encoded units (bit 31 set)
  is skipped with no state change at all: the loop returns the state it started from, so
  no polarity event is written before a column unit has initialised the commit timestamp.
\<close>

theorem mipi_group_units_skipped_before_first_column:
  assumes "cg_currentPacketContainerCommitTimestamp (m_container s) = - 1"
    and "cg_currentPacketContainer (m_container s) \<noteq> None"
    and "m_polarity s \<noteq> None" and "m_special s \<noteq> None"
    and "\<forall>event \<in> set events. event AND 0x80000000 \<noteq> 0"
  shows "mipiCx3TranslateUnits cfg events s = Some s"
  using assms(5)
proof (induction events)
  case Nil
  then show ?case by simp
next
  case (Cons event events)
  then show ?case
    by (simp add: mipiCx3TranslateUnit_group_skipped [OF assms(1-4)])
qed

theorem mipi_group_units_skipped_before_first_column_witness:
  "cg_currentPacketContainerCommitTimestamp (m_container exampleMipiState) = - 1
   \<and> (0x80040003 :: uint32_t) AND 0x80000000 \<noteq> 0
   \<and> (0x80000100 :: uint32_t) AND 0x80000000 \<noteq> 0
   \<and> mipiCx3TranslateUnits exampleMipiConfig [0x80040003, 0x80000100] exampleMipiState = Some exampleMipiState
   \<and> m_polarityPosition exampleMipiState = 0"
  using mipi_group_units_skipped_before_first_column
          [of exampleMipiState "[0x80040003, 0x80000100]" exampleMipiConfig]
  by (simp add: exampleMipiState_def mipiCx3InitialState_def)

subsection \<open>The IMU end\<close>



subsection \<open>The IMU burst\<close>





















subsection \<open>The address scenario\<close>

text \<open>
  Claim C9, as stated, fails: the unit \<open>0x0001\<close> has code 0 and data 1, which is the
  timestamp reset, and the unit \<open>0x8002\<close> has bit 15 set, which makes it a timestamp.
  Fed to the translator, the two units leave the polarity packet empty at write position
  zero; the reset commits two containers without a polarity packet, and the current
  timestamp becomes 2.
\<close>

theorem units_0001_8002_give_no_polarity_event:
  "map_option (cp_polarityPosition \<circ> currentPackets)
     (davisTranslateUnits exampleConfig [0x0001, 0x8002] exampleState) = Some 0
   \<and> map_option (cp_polarity \<circ> currentPackets)
       (davisTranslateUnits exampleConfig [0x0001, 0x8002] exampleState) = Some (Some (examplePacket 0 2))
   \<and> map_option (map pc_polarity \<circ> dx_buffer \<circ> dataExchange)
       (davisTranslateUnits exampleConfig [0x0001, 0x8002] exampleState) = Some [None, None]
   \<and> map_option (ts_current \<circ> timestamps)
       (davisTranslateUnits exampleConfig [0x0001, 0x8002] exampleState) = Some 2"
  by (simp add: davis_eval commit_eval davisAllocatePackets_def Let_def)

lemma decode_y_address:
  assumes "1 < sint (dvs_sizeY (dvs s))"
  shows "davisDecodeEvent cfg 0x1001 s = (s\<lparr> dvs := (dvs s)\<lparr> dvs_lastY := 1 \<rparr> \<rparr>, False, False)"
  using assms by (simp add: davisDecodeEvent_def davisYAddress_def)

lemma decode_x_address_on:
  assumes "2 < sint (dvs_sizeX (dvs s))" and "\<not> dvs_invertXY (dvs s)"
    and "cp_polarity (currentPackets s) = Some packet"
    and "ensureSpaceForEvents (memory s) packet (cp_polarityPosition (currentPackets s)) 1 = (True, packet', msgs)"
  shows "davisDecodeEvent cfg 0x3002 s =
           (s\<lparr> currentPackets := (currentPackets s)
                  \<lparr> cp_polarity := Some (packetSetEvent packet' (cp_polarityPosition (currentPackets s))
                        \<lparr> pe_timestamp = ts_current (timestamps s), pe_polarity = True,
                          pe_x = 2, pe_y = dvs_lastY (dvs s) \<rparr>),
                    cp_polarityPosition := cp_polarityPosition (currentPackets s) + 1 \<rparr> \<rparr>, False, False)"
  using assms by (simp add: davisDecodeEvent_def davisXAddress_def davisPolarityEvent_def)

text \<open>
  Claim C9, amended. The Y address 1 is the unit \<open>0x1001\<close> (code 1) and the X address 2
  with polarity ON is the unit \<open>0x3002\<close> (code 3). Fed to the translator under the default
  orientation (no inversion of X and Y), with both addresses inside the sensor geometry,
  with container and packets allocated, the polarity packet able to take one more event,
  and no commit trigger armed (no size limit, no commit timestamp recorded), the two units
  produce exactly one polarity event, with x = 2, y = 1, polarity ON and the current
  timestamp, at the write position of the polarity packet; besides that only the cached
  Y address changes.
\<close>

theorem units_1001_3002_give_one_polarity_event:
  assumes "cg_currentPacketContainer (container s) \<noteq> None"
    and "cp_polarity (currentPackets s) = Some packet" and "cp_special (currentPackets s) \<noteq> None"
    and "cp_frame (currentPackets s) \<noteq> None" and "cp_imu6 (currentPackets s) \<noteq> None"
    and "ensureSpaceForEvents (memory s) packet (cp_polarityPosition (currentPackets s)) 1 = (True, packet', msgs)"
    and "1 < sint (dvs_sizeY (dvs s))" and "2 < sint (dvs_sizeX (dvs s))" and "\<not> dvs_invertXY (dvs s)"
    and "cg_maxPacketContainerPacketSize (container s) = 0"
    and "cg_currentPacketContainerCommitTimestamp (container s) = - 1"
  shows "davisTranslateUnits cfg [0x1001, 0x3002] s =
           Some (s\<lparr> dvs := (dvs s)\<lparr> dvs_lastY := 1 \<rparr>,
                     currentPackets := (currentPackets s)
                       \<lparr> cp_polarity := Some (packetSetEvent packet' (cp_polarityPosition (currentPackets s))
                             \<lparr> pe_timestamp = ts_current (timestamps s), pe_polarity = True,
                               pe_x = 2, pe_y = 1 \<rparr>),
                         cp_polarityPosition := cp_polarityPosition (currentPackets s) + 1 \<rparr> \<rparr>)"
proof -
  let ?s1 = "s\<lparr> dvs := (dvs s)\<lparr> dvs_lastY := 1 \<rparr> \<rparr>"
  have a0: "davisAllocatePackets cfg s = (True, s)"
    using assms(1-5) by (intro davisAllocatePackets_allocated) auto
  have step1: "davisTranslateUnit cfg 0x1001 s = Continue ?s1"
    using assms(10,11)
    by (simp add: davisTranslateUnit_def a0 decode_y_address [OF assms(7)] davisCommit_not_triggered)
  have a1: "davisAllocatePackets cfg ?s1 = (True, ?s1)"
    using assms(1-5) by (intro davisAllocatePackets_allocated) auto
  have d2: "davisDecodeEvent cfg 0x3002 ?s1 =
              (?s1\<lparr> currentPackets := (currentPackets ?s1)
                  \<lparr> cp_polarity := Some (packetSetEvent packet' (cp_polarityPosition (currentPackets ?s1))
                        \<lparr> pe_timestamp = ts_current (timestamps ?s1), pe_polarity = True,
                          pe_x = 2, pe_y = dvs_lastY (dvs ?s1) \<rparr>),
                    cp_polarityPosition := cp_polarityPosition (currentPackets ?s1) + 1 \<rparr> \<rparr>, False, False)"
    using assms(2,6,8,9) by (intro decode_x_address_on) auto
  have step2: "davisTranslateUnit cfg 0x3002 ?s1 =
                 Continue (s\<lparr> dvs := (dvs s)\<lparr> dvs_lastY := 1 \<rparr>,
                     currentPackets := (currentPackets s)
                       \<lparr> cp_polarity := Some (packetSetEvent packet' (cp_polarityPosition (currentPackets s))
                             \<lparr> pe_timestamp = ts_current (timestamps s), pe_polarity = True,
                               pe_x = 2, pe_y = 1 \<rparr>),
                         cp_polarityPosition := cp_polarityPosition (currentPackets s) + 1 \<rparr> \<rparr>)"
    using assms(10,11)
    by (simp add: davisTranslateUnit_def a1 d2 davisCommit_not_triggered)
  show ?thesis
    by (simp add: step1 step2)
qed

theorem units_1001_3002_give_one_polarity_event_witness:
  "1 < sint (dvs_sizeY (dvs exampleStateNoSizeLimit))
   \<and> 2 < sint (dvs_sizeX (dvs exampleStateNoSizeLimit))
   \<and> map_option (\<lambda>s. (cp_polarityPosition (currentPackets s),
                        map_option pk_events (cp_polarity (currentPackets s))))
         (davisTranslateUnits exampleConfig [0x1001, 0x3002] exampleStateNoSizeLimit)
       = Some (1, Some [Some \<lparr> pe_timestamp = 5, pe_polarity = True, pe_x = 2, pe_y = 1 \<rparr>, None])"
proof -
  have g: "1 < sint (dvs_sizeY (dvs exampleStateNoSizeLimit))" "2 < sint (dvs_sizeX (dvs exampleStateNoSizeLimit))"
    "\<not> dvs_invertXY (dvs exampleStateNoSizeLimit)"
    by (simp_all add: exampleStateNoSizeLimit_def exampleState_def)
  have p: "cg_currentPacketContainer (container exampleStateNoSizeLimit) \<noteq> None"
    "cp_polarity (currentPackets exampleStateNoSizeLimit) = Some (examplePacket 0 2)"
    "cp_special (currentPackets exampleStateNoSizeLimit) \<noteq> None"
    "cp_frame (currentPackets exampleStateNoSizeLimit) \<noteq> None"
    "cp_imu6 (currentPackets exampleStateNoSizeLimit) \<noteq> None"
    "cg_maxPacketContainerPacketSize (container exampleStateNoSizeLimit) = 0"
    "cg_currentPacketContainerCommitTimestamp (container exampleStateNoSizeLimit) = - 1"
    by (simp_all add: exampleStateNoSizeLimit_def exampleState_def)
  have e: "ensureSpaceForEvents (memory exampleStateNoSizeLimit) (examplePacket 0 2)
             (cp_polarityPosition (currentPackets exampleStateNoSizeLimit)) 1 = (True, examplePacket 0 2, [])"
    by (simp add: exampleStateNoSizeLimit_def exampleState_def examplePacket_def
          ensureSpaceForEvents_def caerEventPacketHeaderGetEventCapacity_def)
  show ?thesis
    using g(1,2)
    unfolding units_1001_3002_give_one_polarity_event [OF p(1-5) e g p(6,7)]
    by (simp add: exampleStateNoSizeLimit_def exampleState_def examplePacket_def packetSetEvent_def
          eval_nat_numeral)
qed

subsection \<open>The early return\<close>

lemma davisEventTranslator_not_running:
  "\<not> dataTransfersRun s \<Longrightarrow> davisEventTranslator cfg buffer s = Some s"
  by (simp add: davisEventTranslator_def)

lemma mipiCx3EventTranslator_not_running:
  "\<not> m_dataTransfersRun s \<Longrightarrow> mipiCx3EventTranslator cfg buffer s = Some s"
  by (simp add: mipiCx3EventTranslator_def)

subsection \<open>The legacy timestamp wrap\<close>

lemma sint_word_of_int_32:
  "- 2147483648 \<le> x \<Longrightarrow> x < 2147483648 \<Longrightarrow> sint (word_of_int x :: 32 word) = x"
  by (simp add: sint_sbintrunc' signed_take_bit_int_eq_self)

lemma uint_16_bound: "uint (w :: 16 word) < 65536"
  using uint_bounded [of w] by simp

lemma sint_32_bounds: "- 2147483648 \<le> sint (w :: 32 word)" "sint (w :: 32 word) < 2147483648"
  using sint_ge [of w] sint_lt [of w] by simp_all

lemma legacyAllocatePackets_allocated:
  assumes "currentPacketContainer s \<noteq> None"
    and "currentPolarityPacket (packets s) \<noteq> None" and "currentSpecialPacket (packets s) \<noteq> None"
    and "currentFramePacket (packets s) \<noteq> None" and "currentIMU6Packet (packets s) \<noteq> None"
  shows "legacyAllocatePackets s = (True, s)"
  using assms by (auto simp: legacyAllocatePackets_def)

lemma legacyAllocatePackets_frame:
  assumes "legacyAllocatePackets s = (ok, s1)"
  shows "wrapOverflow s1 = wrapOverflow s" and "wrapAdd s1 = wrapAdd s"
    and "currentTimestamp s1 = currentTimestamp s" and "lastTimestamp s1 = lastTimestamp s"
    and "dataExchangeBuffer s1 = dataExchangeBuffer s"
    and "ok \<Longrightarrow> currentPacketContainer s1 \<noteq> None"
  using assms
  by (auto simp: legacyAllocatePackets_def caerLog_def Let_def
      split: prod.splits option.splits if_splits)

lemma legacyTimestampWrap_big:
  assumes "sint (wrapAdd s) + TS_WRAP_ADD * uint data > INT32_MAX"
  shows "legacyTimestampWrap data s =
           (True,
            s\<lparr> wrapAdd := word_of_int (sint (wrapAdd s) + TS_WRAP_ADD * uint data - INT32_MAX - 1),
               lastTimestamp := 0,
               currentTimestamp := word_of_int (sint (wrapAdd s) + TS_WRAP_ADD * uint data - INT32_MAX - 1),
               dvsTimestamp := 0,
               wrapOverflow := wrapOverflow s + 1,
               packets := (packets s)
                 \<lparr> currentSpecialPacket :=
                     map_option (\<lambda>p. packetSetEvent p (currentSpecialPacketPosition (packets s))
                                        \<lparr> se_timestamp = word_of_int INT32_MAX,
                                          se_type = TIMESTAMP_WRAP, se_data = 0 \<rparr>)
                       (currentSpecialPacket (packets s)),
                   currentSpecialPacketPosition := currentSpecialPacketPosition (packets s) + 1 \<rparr> \<rparr>)"
  using assms by (simp add: legacyTimestampWrap_def Let_def)

lemma legacyTimestampWrap_small:
  assumes "\<not> sint (wrapAdd s) + TS_WRAP_ADD * uint data > INT32_MAX"
  shows "legacyTimestampWrap data s =
           (False,
            s\<lparr> wrapAdd := word_of_int (sint (wrapAdd s) + TS_WRAP_ADD * uint data),
               lastTimestamp := currentTimestamp s,
               currentTimestamp := word_of_int (sint (wrapAdd s) + TS_WRAP_ADD * uint data),
               legacyLogged := legacyLogged s
                 @ checkStrictMonotonicTimestamp
                     (word_of_int (sint (wrapAdd s) + TS_WRAP_ADD * uint data)) (currentTimestamp s) \<rparr>)"
  using assms by (simp add: legacyTimestampWrap_def Let_def)

lemma wrap_remainder_in_range:
  assumes "sint (w :: 32 word) + TS_WRAP_ADD * uint (data :: 16 word) > INT32_MAX"
  shows "sint (word_of_int (sint w + TS_WRAP_ADD * uint data - INT32_MAX - 1) :: 32 word)
           = sint w + TS_WRAP_ADD * uint data - INT32_MAX - 1"
proof -
  have "uint data < 65536" by (rule uint_16_bound)
  moreover have "sint w < 2147483648" by (rule sint_32_bounds)
  ultimately show ?thesis
    using assms by (intro sint_word_of_int_32) (simp_all add: TS_WRAP_ADD_def INT32_MAX_def)
qed

lemma wrap_sum_in_range:
  assumes "\<not> sint (w :: 32 word) + TS_WRAP_ADD * uint (data :: 16 word) > INT32_MAX"
  shows "sint (word_of_int (sint w + TS_WRAP_ADD * uint data) :: 32 word)
           = sint w + TS_WRAP_ADD * uint data"
proof -
  have "0 \<le> uint data" by simp
  then have "0 \<le> 32768 * uint data" by simp
  moreover have "- 2147483648 \<le> sint w" by (rule sint_32_bounds)
  ultimately have "- 2147483648 \<le> sint w + 32768 * uint data" by linarith
  then show ?thesis
    using assms by (intro sint_word_of_int_32) (simp_all add: TS_WRAP_ADD_def INT32_MAX_def)
qed

lemma legacyCommit_forced:
  assumes "currentPacketContainer s = Some pc"
    and "length (dx_buffer (dataExchangeBuffer s)) < dx_capacity (dataExchangeBuffer s)"
  shows "\<exists>s'. legacyCommit True s = Some s'
           \<and> dx_buffer (dataExchangeBuffer s') =
               dx_buffer (dataExchangeBuffer s) @ [the (currentPacketContainer (legacyAttachPackets s))]
           \<and> packets s' = packets (legacyAttachPackets s)
           \<and> currentPacketContainer s' = None
           \<and> apsIgnoreEvents s' \<and> imuIgnoreEvents s'
           \<and> wrapOverflow s' = wrapOverflow s \<and> wrapAdd s' = wrapAdd s
           \<and> currentTimestamp s' = currentTimestamp s \<and> lastTimestamp s' = lastTimestamp s"
  using assms
  by (auto simp: legacyCommit_def legacyCommitTriggered_def legacyAttachPackets_def dataExchangePut_def Let_def
      split: option.splits)

lemma legacyAttachPackets_frame [simp]:
  "dataExchangeBuffer (legacyAttachPackets s) = dataExchangeBuffer s"
  "wrapOverflow (legacyAttachPackets s) = wrapOverflow s"
  "wrapAdd (legacyAttachPackets s) = wrapAdd s"
  "currentTimestamp (legacyAttachPackets s) = currentTimestamp s"
  "lastTimestamp (legacyAttachPackets s) = lastTimestamp s"
  "(currentPacketContainer (legacyAttachPackets s) = None) = (currentPacketContainer s = None)"
  by (simp_all add: legacyAttachPackets_def Let_def)

lemma legacyAttachPackets_special:
  assumes "currentPacketContainer s = Some pc" and "currentSpecialPacketPosition (packets s) > 0"
  shows "\<exists>pc'. currentPacketContainer (legacyAttachPackets s) = Some pc'
           \<and> pc_special pc' = currentSpecialPacket (packets s)"
    and "currentSpecialPacket (packets (legacyAttachPackets s)) = None"
    and "currentSpecialPacketPosition (packets (legacyAttachPackets s)) = 0"
  using assms by (simp_all add: legacyAttachPackets_def Let_def)

lemma legacyCommitTriggered_forced [simp]:
  "legacyCommitTriggered True s"
  by (simp add: legacyCommitTriggered_def Let_def)

lemma legacyCommit_result:
  assumes "legacyCommit forceCommit s = Some s'"
  shows "wrapOverflow s' = wrapOverflow s"
    and "length (dx_buffer (dataExchangeBuffer s)) \<le> length (dx_buffer (dataExchangeBuffer s'))"
    and "length (dx_buffer (dataExchangeBuffer s')) \<le> length (dx_buffer (dataExchangeBuffer s)) + 1"
    and "forceCommit \<Longrightarrow> currentPacketContainer s \<noteq> None \<Longrightarrow>
           length (dx_buffer (dataExchangeBuffer s')) = length (dx_buffer (dataExchangeBuffer s)) + 1"
  using assms
  by (auto simp: legacyCommit_def dataExchangePut_def caerLog_def Let_def
      split: if_splits option.splits)

lemma legacyTimestampWrap_frame:
  assumes "legacyTimestampWrap data s = (forceCommit, s')"
  shows "dataExchangeBuffer s' = dataExchangeBuffer s"
    and "currentPacketContainer s' = currentPacketContainer s"
    and "wrapOverflow s' = (if forceCommit then wrapOverflow s + 1 else wrapOverflow s)"
  using assms by (auto simp: legacyTimestampWrap_def Let_def split: if_splits)

lemma legacyTranslateWrapUnit_step:
  assumes "legacyTranslateWrapUnit event s = Continue s' \<or> legacyTranslateWrapUnit event s = Return s'"
  shows "(wrapOverflow s' = wrapOverflow s
          \<and> length (dx_buffer (dataExchangeBuffer s)) \<le> length (dx_buffer (dataExchangeBuffer s'))
          \<and> length (dx_buffer (dataExchangeBuffer s')) \<le> length (dx_buffer (dataExchangeBuffer s)) + 1)
         \<or> (wrapOverflow s' = wrapOverflow s + 1
          \<and> length (dx_buffer (dataExchangeBuffer s')) = length (dx_buffer (dataExchangeBuffer s)) + 1)"
proof (cases "legacyAllocatePackets s")
  case (Pair ok s1)
  note a = legacyAllocatePackets_frame [OF Pair]
  show ?thesis
  proof (cases ok)
    case False
    then have "s' = s1" using assms Pair by (simp add: legacyTranslateWrapUnit_def)
    then show ?thesis using a by simp
  next
    case True
    obtain forceCommit s2 where w: "legacyTimestampWrap (event AND 0x0FFF) s1 = (forceCommit, s2)"
      by (cases "legacyTimestampWrap (event AND 0x0FFF) s1") auto
    note f = legacyTimestampWrap_frame [OF w]
    have c: "legacyCommit forceCommit s2 = Some s'"
      using assms Pair True w by (auto simp: legacyTranslateWrapUnit_def split: option.splits)
    note r = legacyCommit_result [OF c]
    have cont: "currentPacketContainer s2 \<noteq> None" using a(6) True f(2) by simp
    show ?thesis
    proof (cases forceCommit)
      case True
      then show ?thesis using r(1) r(4) [OF True cont] f a by simp
    next
      case False
      then show ?thesis using r(1,2,3) f a by simp
    qed
  qed
qed

lemma sint_32_succ:
  "sint (w :: 32 word) < 2147483647 \<Longrightarrow> sint (w + 1) = sint w + 1"
proof -
  assume a: "sint w < 2147483647"
  have "w + 1 = word_of_int (sint w + 1)" by simp
  moreover have "sint (word_of_int (sint w + 1) :: 32 word) = sint w + 1"
    using a sint_32_bounds(1) [of w] by (intro sint_word_of_int_32) simp_all
  ultimately show ?thesis by simp
qed

lemma legacyCommit_not_triggered:
  "\<not> legacyCommitTriggered forceCommit s \<Longrightarrow> legacyCommit forceCommit s = Some s"
  by (simp add: legacyCommit_def)

lemma legacyTranslateWrapUnit_exact:
  assumes "legacyTranslateWrapUnit event t = Continue t'"
  shows "if sint (wrapAdd t) + TS_WRAP_ADD * uint (event AND 0x0FFF) > INT32_MAX
         then wrapOverflow t' = wrapOverflow t + 1
              \<and> length (dx_buffer (dataExchangeBuffer t')) = length (dx_buffer (dataExchangeBuffer t)) + 1
         else wrapOverflow t' = wrapOverflow t
              \<and> (\<not> legacyCommitTriggered False
                       (snd (legacyTimestampWrap (event AND 0x0FFF) (snd (legacyAllocatePackets t))))
                   \<longrightarrow> dataExchangeBuffer t' = dataExchangeBuffer t)"
proof (cases "legacyAllocatePackets t")
  case (Pair ok t1)
  note a = legacyAllocatePackets_frame [OF Pair]
  have ok: ok using assms Pair by (cases ok) (simp_all add: legacyTranslateWrapUnit_def)
  obtain forceCommit t2 where w: "legacyTimestampWrap (event AND 0x0FFF) t1 = (forceCommit, t2)"
    by (cases "legacyTimestampWrap (event AND 0x0FFF) t1") auto
  note f = legacyTimestampWrap_frame [OF w]
  have c: "legacyCommit forceCommit t2 = Some t'"
    using assms Pair ok w by (auto simp: legacyTranslateWrapUnit_def split: option.splits)
  note r = legacyCommit_result [OF c]
  have cont: "currentPacketContainer t2 \<noteq> None" using a(6) ok f(2) by simp
  have t2: "t2 = snd (legacyTimestampWrap (event AND 0x0FFF) (snd (legacyAllocatePackets t)))"
    using Pair w by simp
  show ?thesis
  proof (cases "sint (wrapAdd t) + TS_WRAP_ADD * uint (event AND 0x0FFF) > INT32_MAX")
    case True
    then have "sint (wrapAdd t1) + TS_WRAP_ADD * uint (event AND 0x0FFF) > INT32_MAX"
      using a(2) by simp
    then have fc: forceCommit using legacyTimestampWrap_big [of t1 "event AND 0x0FFF"] w by simp
    show ?thesis using True r(1) r(4) [OF fc cont] f a fc by simp
  next
    case False
    then have "\<not> sint (wrapAdd t1) + TS_WRAP_ADD * uint (event AND 0x0FFF) > INT32_MAX"
      using a(2) by simp
    then have fc: "\<not> forceCommit" using legacyTimestampWrap_small [of t1 "event AND 0x0FFF"] w by simp
    have "dataExchangeBuffer t' = dataExchangeBuffer t"
      if "\<not> legacyCommitTriggered False t2"
      using legacyCommit_not_triggered [OF that] c fc f(1) a(5) by simp
    then show ?thesis using False r(1) f(3) a(1) fc t2 by simp
  qed
qed

lemma legacyTranslateWrapUnits_total:
  assumes "legacyTranslateWrapUnits events s = Some s'"
    and "sint (wrapOverflow s) + int (length events) \<le> INT32_MAX"
  shows "sint (wrapOverflow s) \<le> sint (wrapOverflow s')
         \<and> sint (wrapOverflow s') - sint (wrapOverflow s)
             \<le> int (length (dx_buffer (dataExchangeBuffer s'))) - int (length (dx_buffer (dataExchangeBuffer s)))
         \<and> length (dx_buffer (dataExchangeBuffer s'))
             \<le> length (dx_buffer (dataExchangeBuffer s)) + length events"
  using assms
proof (induction events arbitrary: s)
  case Nil
  then show ?case by simp
next
  case (Cons event events)
  have bound: "sint (wrapOverflow s) < 2147483647"
    using Cons.prems(2) by (simp add: INT32_MAX_def)
  show ?case
  proof (cases "legacyTranslateWrapUnit event s")
    case (Continue s1)
    then have run: "legacyTranslateWrapUnits events s1 = Some s'" using Cons.prems(1) by simp
    have st: "(wrapOverflow s1 = wrapOverflow s
          \<and> length (dx_buffer (dataExchangeBuffer s)) \<le> length (dx_buffer (dataExchangeBuffer s1))
          \<and> length (dx_buffer (dataExchangeBuffer s1)) \<le> length (dx_buffer (dataExchangeBuffer s)) + 1)
         \<or> (wrapOverflow s1 = wrapOverflow s + 1
          \<and> length (dx_buffer (dataExchangeBuffer s1)) = length (dx_buffer (dataExchangeBuffer s)) + 1)"
      using legacyTranslateWrapUnit_step [of event s s1] Continue by simp
    have le: "sint (wrapOverflow s1) \<le> sint (wrapOverflow s) + 1"
      using st sint_32_succ [OF bound] by auto
    have "sint (wrapOverflow s1) + int (length events) \<le> INT32_MAX"
      using le Cons.prems(2) by simp
    from Cons.IH [OF run this] st sint_32_succ [OF bound]
    show ?thesis by auto
  next
    case (Return s1)
    then have "s' = s1" using Cons.prems(1) by simp
    then show ?thesis
      using legacyTranslateWrapUnit_step [of event s s'] Return sint_32_succ [OF bound] by auto
  next
    case Blocked
    then show ?thesis using Cons.prems(1) by simp
  qed
qed

lemma legacyAllocatePackets_available:
  assumes "heap_available (legacyMemory s)"
  shows "\<exists>s1. legacyAllocatePackets s = (True, s1) \<and> heap_available (legacyMemory s1)
           \<and> dataExchangeBuffer s1 = dataExchangeBuffer s"
  using assms
  by (auto simp: legacyAllocatePackets_def allocateIfNull_def caerEventPacketAllocate_def Let_def
      split: option.splits)

lemma legacyTimestampWrap_memory [simp]:
  "legacyMemory (snd (legacyTimestampWrap d s)) = legacyMemory s"
  by (simp add: legacyTimestampWrap_def Let_def)

lemma legacyAttachPackets_memory [simp]:
  "legacyMemory (legacyAttachPackets s) = legacyMemory s"
  by (simp add: legacyAttachPackets_def Let_def)

lemma legacyCommit_memory:
  "legacyCommit f s = Some s' \<Longrightarrow> legacyMemory s' = legacyMemory s
     \<and> dx_capacity (dataExchangeBuffer s') = dx_capacity (dataExchangeBuffer s)"
  by (auto simp: legacyCommit_def dataExchangePut_def caerLog_def Let_def split: if_splits option.splits)

lemma legacyCommit_returns:
  assumes "\<not> f \<or> length (dx_buffer (dataExchangeBuffer s)) < dx_capacity (dataExchangeBuffer s)"
  shows "\<exists>s'. legacyCommit f s = Some s'"
  using assms
  by (auto simp: legacyCommit_def dataExchangePut_def Let_def split: option.splits)

lemma legacyTranslateWrapUnit_returns:
  assumes "heap_available (legacyMemory t)"
    and "length (dx_buffer (dataExchangeBuffer t)) < dx_capacity (dataExchangeBuffer t)"
  shows "\<exists>t'. legacyTranslateWrapUnit event t = Continue t' \<and> heap_available (legacyMemory t')
           \<and> dx_capacity (dataExchangeBuffer t') = dx_capacity (dataExchangeBuffer t)"
proof -
  obtain t1 where a: "legacyAllocatePackets t = (True, t1)" "heap_available (legacyMemory t1)"
    "dataExchangeBuffer t1 = dataExchangeBuffer t"
    using legacyAllocatePackets_available [OF assms(1)] by blast
  obtain f t2 where w: "legacyTimestampWrap (event AND 0x0FFF) t1 = (f, t2)"
    by (cases "legacyTimestampWrap (event AND 0x0FFF) t1") auto
  have m2: "legacyMemory t2 = legacyMemory t1"
    using legacyTimestampWrap_memory [of "event AND 0x0FFF" t1] w by simp
  have b2: "dataExchangeBuffer t2 = dataExchangeBuffer t"
    using legacyTimestampWrap_frame(1) [OF w] a(3) by simp
  obtain t' where c: "legacyCommit f t2 = Some t'"
    using legacyCommit_returns [of f t2] assms(2) b2 by auto
  have "legacyTranslateWrapUnit event t = Continue t'"
    using a(1) w c by (simp add: legacyTranslateWrapUnit_def)
  then show ?thesis
    using legacyCommit_memory [OF c] m2 a(2) b2 by auto
qed

lemma legacyTranslateWrapUnits_returns:
  assumes "heap_available (legacyMemory s)"
    and "length (dx_buffer (dataExchangeBuffer s)) + length events \<le> dx_capacity (dataExchangeBuffer s)"
  shows "\<exists>s'. legacyTranslateWrapUnits events s = Some s'"
  using assms
proof (induction events arbitrary: s)
  case Nil
  then show ?case by simp
next
  case (Cons event events)
  have room: "length (dx_buffer (dataExchangeBuffer s)) < dx_capacity (dataExchangeBuffer s)"
    using Cons.prems(2) by simp
  obtain t' where u: "legacyTranslateWrapUnit event s = Continue t'" "heap_available (legacyMemory t')"
    "dx_capacity (dataExchangeBuffer t') = dx_capacity (dataExchangeBuffer s)"
    using legacyTranslateWrapUnit_returns [OF Cons.prems(1) room] by blast
  have "length (dx_buffer (dataExchangeBuffer t')) \<le> length (dx_buffer (dataExchangeBuffer s)) + 1"
    using legacyTranslateWrapUnit_step [of event s t'] u(1) by auto
  then have "length (dx_buffer (dataExchangeBuffer t')) + length events \<le> dx_capacity (dataExchangeBuffer t')"
    using Cons.prems(2) u(3) by simp
  from Cons.IH [OF u(2) this] show ?case using u(1) by simp
qed

lemma legacyAttachPackets_fields:
  assumes "currentPacketContainer s = Some pc"
  shows "currentPacketContainer (legacyAttachPackets s) =
           Some \<lparr> pc_polarity = (if currentPolarityPacketPosition (packets s) > 0
                                  then currentPolarityPacket (packets s) else pc_polarity pc),
                  pc_special = (if currentSpecialPacketPosition (packets s) > 0
                                then currentSpecialPacket (packets s) else pc_special pc),
                  pc_frame = (if currentFramePacketPosition (packets s) > 0
                              then currentFramePacket (packets s) else pc_frame pc),
                  pc_imu6 = (if currentIMU6PacketPosition (packets s) > 0
                             then currentIMU6Packet (packets s) else pc_imu6 pc) \<rparr>"
    and "currentPolarityPacket (packets (legacyAttachPackets s)) =
           (if currentPolarityPacketPosition (packets s) > 0 then None else currentPolarityPacket (packets s))"
    and "currentSpecialPacket (packets (legacyAttachPackets s)) =
           (if currentSpecialPacketPosition (packets s) > 0 then None else currentSpecialPacket (packets s))"
    and "currentFramePacket (packets (legacyAttachPackets s)) =
           (if currentFramePacketPosition (packets s) > 0 then None else currentFramePacket (packets s))"
    and "currentIMU6Packet (packets (legacyAttachPackets s)) =
           (if currentIMU6PacketPosition (packets s) > 0 then None else currentIMU6Packet (packets s))"
    and "currentPolarityPacketPosition (packets (legacyAttachPackets s)) = 0"
    and "currentSpecialPacketPosition (packets (legacyAttachPackets s)) = 0"
    and "currentFramePacketPosition (packets (legacyAttachPackets s)) = 0"
    and "currentIMU6PacketPosition (packets (legacyAttachPackets s)) = 0"
  using assms by (simp_all add: legacyAttachPackets_def Let_def)

lemma legacyTranslateWrapUnit_crossing:
  assumes "currentPacketContainer t = Some pc0"
    and "currentPolarityPacket (packets t) = Some pp"
    and "currentSpecialPacket (packets t) = Some sp"
    and "currentFramePacket (packets t) = Some fp"
    and "currentIMU6Packet (packets t) = Some ip"
    and "length (dx_buffer (dataExchangeBuffer t)) < dx_capacity (dataExchangeBuffer t)"
    and "sint (wrapAdd t) + TS_WRAP_ADD * uint (event AND 0x0FFF) > INT32_MAX"
  shows "\<exists>t'. legacyTranslateWrapUnit event t = Continue t'
           \<and> wrapOverflow t' = wrapOverflow t + 1
           \<and> dx_buffer (dataExchangeBuffer t') = dx_buffer (dataExchangeBuffer t) @
               [\<lparr> pc_polarity = (if currentPolarityPacketPosition (packets t) > 0
                                  then Some pp else pc_polarity pc0),
                   pc_special = Some (sp\<lparr> pk_events := (pk_events sp)
                                    [currentSpecialPacketPosition (packets t) :=
                                       Some \<lparr> se_timestamp = 0x7FFFFFFF, se_type = TIMESTAMP_WRAP,
                                              se_data = 0 \<rparr>] \<rparr>),
                   pc_frame = (if currentFramePacketPosition (packets t) > 0
                               then Some fp else pc_frame pc0),
                   pc_imu6 = (if currentIMU6PacketPosition (packets t) > 0
                              then Some ip else pc_imu6 pc0) \<rparr>]
           \<and> currentPacketContainer t' = None
           \<and> currentSpecialPacket (packets t') = None
           \<and> currentPolarityPacket (packets t') =
               (if currentPolarityPacketPosition (packets t) > 0 then None else Some pp)
           \<and> currentFramePacket (packets t') =
               (if currentFramePacketPosition (packets t) > 0 then None else Some fp)
           \<and> currentIMU6Packet (packets t') =
               (if currentIMU6PacketPosition (packets t) > 0 then None else Some ip)
           \<and> currentPolarityPacketPosition (packets t') = 0
           \<and> currentSpecialPacketPosition (packets t') = 0
           \<and> currentFramePacketPosition (packets t') = 0
           \<and> currentIMU6PacketPosition (packets t') = 0
           \<and> apsIgnoreEvents t' \<and> imuIgnoreEvents t'"
proof -
  have a: "legacyAllocatePackets t = (True, t)"
    using assms(1-5) by (intro legacyAllocatePackets_allocated) simp_all
  note w = legacyTimestampWrap_big [OF assms(7)]
  define t2 where "t2 = snd (legacyTimestampWrap (event AND 0x0FFF) t)"
  have w2: "legacyTimestampWrap (event AND 0x0FFF) t = (True, t2)"
    unfolding t2_def w by simp
  have f2: "currentPacketContainer t2 = Some pc0" "dataExchangeBuffer t2 = dataExchangeBuffer t"
    "wrapOverflow t2 = wrapOverflow t + 1"
    "currentPolarityPacket (packets t2) = Some pp"
    "currentFramePacket (packets t2) = Some fp"
    "currentIMU6Packet (packets t2) = Some ip"
    "currentSpecialPacket (packets t2) =
       Some (sp\<lparr> pk_events := (pk_events sp)
               [currentSpecialPacketPosition (packets t) :=
                  Some \<lparr> se_timestamp = 0x7FFFFFFF, se_type = TIMESTAMP_WRAP, se_data = 0 \<rparr>] \<rparr>)"
    "currentPolarityPacketPosition (packets t2) = currentPolarityPacketPosition (packets t)"
    "currentFramePacketPosition (packets t2) = currentFramePacketPosition (packets t)"
    "currentIMU6PacketPosition (packets t2) = currentIMU6PacketPosition (packets t)"
    "currentSpecialPacketPosition (packets t2) = currentSpecialPacketPosition (packets t) + 1"
    unfolding t2_def w using assms(1-5) by (simp_all add: packetSetEvent_def INT32_MAX_def)
  have room: "length (dx_buffer (dataExchangeBuffer t2)) < dx_capacity (dataExchangeBuffer t2)"
    using assms(6) f2(2) by simp
  obtain t' where c: "legacyCommit True t2 = Some t'"
    and c1: "dx_buffer (dataExchangeBuffer t') =
               dx_buffer (dataExchangeBuffer t2) @ [the (currentPacketContainer (legacyAttachPackets t2))]"
    and c2: "packets t' = packets (legacyAttachPackets t2)"
    and c3: "currentPacketContainer t' = None" "apsIgnoreEvents t'" "imuIgnoreEvents t'"
      "wrapOverflow t' = wrapOverflow t2"
    using legacyCommit_forced [OF f2(1) room] by blast
  have u: "legacyTranslateWrapUnit event t = Continue t'"
    using a w2 c by (simp add: legacyTranslateWrapUnit_def)
  note at = legacyAttachPackets_fields [OF f2(1)]
  show ?thesis
    using u c1 c2 c3 f2 at by simp
qed

lemma legacyTranslateWrapUnit_not_crossing:
  assumes "heap_available (legacyMemory t)"
    and "\<not> sint (wrapAdd t) + TS_WRAP_ADD * uint (event AND 0x0FFF) > INT32_MAX"
  shows "\<exists>t'. legacyTranslateWrapUnit event t = Continue t'
           \<and> wrapOverflow t' = wrapOverflow t
           \<and> (\<not> legacyCommitTriggered False
                    (snd (legacyTimestampWrap (event AND 0x0FFF) (snd (legacyAllocatePackets t))))
               \<longrightarrow> dataExchangeBuffer t' = dataExchangeBuffer t)"
proof -
  obtain t1 where a: "legacyAllocatePackets t = (True, t1)"
    using legacyAllocatePackets_available [OF assms(1)] by blast
  note fr = legacyAllocatePackets_frame [OF a]
  have small: "\<not> sint (wrapAdd t1) + TS_WRAP_ADD * uint (event AND 0x0FFF) > INT32_MAX"
    using assms(2) fr(2) by simp
  note w = legacyTimestampWrap_small [OF small]
  obtain t' where c: "legacyCommit False (snd (legacyTimestampWrap (event AND 0x0FFF) t1)) = Some t'"
    using legacyCommit_returns [of False] by blast
  have u: "legacyTranslateWrapUnit event t = Continue t'"
    using a c w by (simp add: legacyTranslateWrapUnit_def)
  show ?thesis
    using u legacyTranslateWrapUnit_exact [OF u] assms(2) by auto
qed

text \<open>
  Claim C4, amended. With memory available and room in the ring buffer for one container
  per unit, the legacy translator (davis.c:6615-6661 and the commit of davis.c:6669-6814)
  runs through every sequence of timestamp-wrap units and returns; as long as the signed
  32-bit counter \<open>wrapOverflow\<close> cannot itself overflow, the counter is non-decreasing, its
  increase is at most the number of containers handed to the ring buffer, and no unit hands
  over more than one container. Unit by unit, from a state with container and packets at
  hand and room in the ring buffer: a wrap unit whose sum crosses \<open>INT32_MAX\<close> returns
  having incremented \<open>wrapOverflow\<close> by one and handed over exactly one container, which
  is isolated from what follows: it carries the packets that held events before the wrap
  and the special packet with the \<open>TIMESTAMP_WRAP\<close> marker (timestamp \<open>INT32_MAX\<close>) at
  its write position, and the translator is left with no container, null references for
  the packets handed over, all write positions at zero, and APS and IMU events ignored
  until their next start marker. A wrap unit whose sum does not cross \<open>INT32_MAX\<close>
  returns with \<open>wrapOverflow\<close> as it was and forces no commit: the ring buffer is
  untouched unless one of the ordinary size or interval thresholds is met.
\<close>

theorem legacy_wrap_units_overflow_and_commits:
  assumes "heap_available (legacyMemory s)"
    and "length (dx_buffer (dataExchangeBuffer s)) + length events \<le> dx_capacity (dataExchangeBuffer s)"
    and "sint (wrapOverflow s) + int (length events) \<le> INT32_MAX"
    and "heap_available (legacyMemory t)"
    and "currentPacketContainer t = Some pc0"
    and "currentPolarityPacket (packets t) = Some pp"
    and "currentSpecialPacket (packets t) = Some sp"
    and "currentFramePacket (packets t) = Some fp"
    and "currentIMU6Packet (packets t) = Some ip"
    and "length (dx_buffer (dataExchangeBuffer t)) < dx_capacity (dataExchangeBuffer t)"
  shows "(\<exists>s'. legacyTranslateWrapUnits events s = Some s'
            \<and> sint (wrapOverflow s) \<le> sint (wrapOverflow s')
            \<and> sint (wrapOverflow s') - sint (wrapOverflow s)
                \<le> int (length (dx_buffer (dataExchangeBuffer s'))) - int (length (dx_buffer (dataExchangeBuffer s)))
            \<and> length (dx_buffer (dataExchangeBuffer s'))
                \<le> length (dx_buffer (dataExchangeBuffer s)) + length events)
         \<and> (\<exists>t'. legacyTranslateWrapUnit event t = Continue t'
            \<and> (if sint (wrapAdd t) + TS_WRAP_ADD * uint (event AND 0x0FFF) > INT32_MAX
               then wrapOverflow t' = wrapOverflow t + 1
                    \<and> dx_buffer (dataExchangeBuffer t') = dx_buffer (dataExchangeBuffer t) @
                        [\<lparr> pc_polarity = (if currentPolarityPacketPosition (packets t) > 0
                                           then Some pp else pc_polarity pc0),
                            pc_special = Some (sp\<lparr> pk_events := (pk_events sp)
                                             [currentSpecialPacketPosition (packets t) :=
                                                Some \<lparr> se_timestamp = 0x7FFFFFFF, se_type = TIMESTAMP_WRAP,
                                                       se_data = 0 \<rparr>] \<rparr>),
                            pc_frame = (if currentFramePacketPosition (packets t) > 0
                                        then Some fp else pc_frame pc0),
                            pc_imu6 = (if currentIMU6PacketPosition (packets t) > 0
                                       then Some ip else pc_imu6 pc0) \<rparr>]
                    \<and> currentPacketContainer t' = None
                    \<and> currentSpecialPacket (packets t') = None
                    \<and> currentPolarityPacket (packets t') =
                        (if currentPolarityPacketPosition (packets t) > 0 then None else Some pp)
                    \<and> currentFramePacket (packets t') =
                        (if currentFramePacketPosition (packets t) > 0 then None else Some fp)
                    \<and> currentIMU6Packet (packets t') =
                        (if currentIMU6PacketPosition (packets t) > 0 then None else Some ip)
                    \<and> currentPolarityPacketPosition (packets t') = 0
                    \<and> currentSpecialPacketPosition (packets t') = 0
                    \<and> currentFramePacketPosition (packets t') = 0
                    \<and> currentIMU6PacketPosition (packets t') = 0
                    \<and> apsIgnoreEvents t' \<and> imuIgnoreEvents t'
               else wrapOverflow t' = wrapOverflow t
                    \<and> (\<not> legacyCommitTriggered False
                             (snd (legacyTimestampWrap (event AND 0x0FFF) (snd (legacyAllocatePackets t))))
                        \<longrightarrow> dataExchangeBuffer t' = dataExchangeBuffer t)))"
proof (rule conjI)
  obtain s' where r: "legacyTranslateWrapUnits events s = Some s'"
    using legacyTranslateWrapUnits_returns [OF assms(1,2)] by blast
  show "\<exists>s'. legacyTranslateWrapUnits events s = Some s'
            \<and> sint (wrapOverflow s) \<le> sint (wrapOverflow s')
            \<and> sint (wrapOverflow s') - sint (wrapOverflow s)
                \<le> int (length (dx_buffer (dataExchangeBuffer s'))) - int (length (dx_buffer (dataExchangeBuffer s)))
            \<and> length (dx_buffer (dataExchangeBuffer s'))
                \<le> length (dx_buffer (dataExchangeBuffer s)) + length events"
    using r legacyTranslateWrapUnits_total [OF r assms(3)] by blast
next
  show "\<exists>t'. legacyTranslateWrapUnit event t = Continue t'
            \<and> (if sint (wrapAdd t) + TS_WRAP_ADD * uint (event AND 0x0FFF) > INT32_MAX
               then wrapOverflow t' = wrapOverflow t + 1
                    \<and> dx_buffer (dataExchangeBuffer t') = dx_buffer (dataExchangeBuffer t) @
                        [\<lparr> pc_polarity = (if currentPolarityPacketPosition (packets t) > 0
                                           then Some pp else pc_polarity pc0),
                            pc_special = Some (sp\<lparr> pk_events := (pk_events sp)
                                             [currentSpecialPacketPosition (packets t) :=
                                                Some \<lparr> se_timestamp = 0x7FFFFFFF, se_type = TIMESTAMP_WRAP,
                                                       se_data = 0 \<rparr>] \<rparr>),
                            pc_frame = (if currentFramePacketPosition (packets t) > 0
                                        then Some fp else pc_frame pc0),
                            pc_imu6 = (if currentIMU6PacketPosition (packets t) > 0
                                       then Some ip else pc_imu6 pc0) \<rparr>]
                    \<and> currentPacketContainer t' = None
                    \<and> currentSpecialPacket (packets t') = None
                    \<and> currentPolarityPacket (packets t') =
                        (if currentPolarityPacketPosition (packets t) > 0 then None else Some pp)
                    \<and> currentFramePacket (packets t') =
                        (if currentFramePacketPosition (packets t) > 0 then None else Some fp)
                    \<and> currentIMU6Packet (packets t') =
                        (if currentIMU6PacketPosition (packets t) > 0 then None else Some ip)
                    \<and> currentPolarityPacketPosition (packets t') = 0
                    \<and> currentSpecialPacketPosition (packets t') = 0
                    \<and> currentFramePacketPosition (packets t') = 0
                    \<and> currentIMU6PacketPosition (packets t') = 0
                    \<and> apsIgnoreEvents t' \<and> imuIgnoreEvents t'
               else wrapOverflow t' = wrapOverflow t
                    \<and> (\<not> legacyCommitTriggered False
                             (snd (legacyTimestampWrap (event AND 0x0FFF) (snd (legacyAllocatePackets t))))
                        \<longrightarrow> dataExchangeBuffer t' = dataExchangeBuffer t))"
  proof (cases "sint (wrapAdd t) + TS_WRAP_ADD * uint (event AND 0x0FFF) > INT32_MAX")
    case True
    from legacyTranslateWrapUnit_crossing [OF assms(5-10) True] show ?thesis
      using True by simp
  next
    case False
    from legacyTranslateWrapUnit_not_crossing [OF assms(4) False] show ?thesis
      using False by simp
  qed
qed

lemmas legacy_eval =
  legacyTranslateWrapUnit_def legacyAllocatePackets_def allocateIfNull_def caerEventPacketAllocate_def
  legacyTimestampWrap_def legacyCommit_def legacyCommitTriggered_def packetInterval_def packetCapacity_def
  caerEventPacketHeaderGetEventCapacity_def legacyAttachPackets_def dataExchangePut_def packetSetEvent_def
  emptyPacketContainer_def checkStrictMonotonicTimestamp_def caerLog_def TS_WRAP_ADD_def INT32_MAX_def
  exampleLegacyState_def exampleLegacyStateNearWrap_def exampleLegacyStateStopping_def
  exampleLimits_def examplePacket_def

text \<open>
  Claim C3, as stated, fails in one clause: on a wrap that crosses \<open>INT32_MAX\<close> the last
  timestamp is not reset to the new base but to zero (davis.c:6628,
  \<open>state->lastTimestamp = 0\<close>). With \<open>wrapAdd = 0x7FFF8000\<close> and a wrap unit of
  multiplier 2 the new base is \<open>0x8000\<close>, the current timestamp is \<open>0x8000\<close> and the last
  timestamp is 0.
\<close>

theorem legacy_wrap_remainder_leaves_last_at_zero:
  "fst (legacyTimestampWrap 2 exampleLegacyStateNearWrap)
   \<and> wrapAdd (snd (legacyTimestampWrap 2 exampleLegacyStateNearWrap)) = 0x8000
   \<and> currentTimestamp (snd (legacyTimestampWrap 2 exampleLegacyStateNearWrap)) = 0x8000
   \<and> lastTimestamp (snd (legacyTimestampWrap 2 exampleLegacyStateNearWrap)) = 0
   \<and> lastTimestamp (snd (legacyTimestampWrap 2 exampleLegacyStateNearWrap))
       \<noteq> wrapAdd (snd (legacyTimestampWrap 2 exampleLegacyStateNearWrap))"
  by (simp add: legacy_eval Let_def)

text \<open>
  Claim C3, amended. For every wrap multiplier and every state, with
  \<open>wrapSum = wrapAdd + TS_WRAP_ADD * multiplier\<close> computed without wrap-around: if
  \<open>wrapSum > INT32_MAX\<close>, then \<open>wrapAdd\<close> becomes the remainder
  \<open>wrapSum - INT32_MAX - 1\<close>, the current timestamp becomes the new \<open>wrapAdd\<close>, the last
  timestamp becomes 0, \<open>wrapOverflow\<close> is incremented by one, a \<open>TIMESTAMP_WRAP\<close> special
  event with timestamp \<open>INT32_MAX\<close> is written at the special packet's write position, and
  the commit is forced: with a container at hand and room in the ring, the commit hands over
  one container whose special slot is that packet. Otherwise \<open>wrapAdd\<close> becomes
  \<open>wrapSum\<close>, the last timestamp becomes the old current one, the current timestamp becomes
  the new \<open>wrapAdd\<close>, and no commit is forced; the packets and the ring are untouched.
\<close>

theorem legacy_timestamp_wrap_engine:
  assumes "wrapSum = sint (wrapAdd s) + TS_WRAP_ADD * uint data"
    and "legacyTimestampWrap data s = (forceCommit, s')"
  shows "if wrapSum > INT32_MAX
         then forceCommit
              \<and> sint (wrapAdd s') = wrapSum - INT32_MAX - 1
              \<and> currentTimestamp s' = wrapAdd s'
              \<and> lastTimestamp s' = 0
              \<and> wrapOverflow s' = wrapOverflow s + 1
              \<and> currentSpecialPacketPosition (packets s') = currentSpecialPacketPosition (packets s) + 1
              \<and> currentSpecialPacket (packets s') =
                  map_option (\<lambda>p. packetSetEvent p (currentSpecialPacketPosition (packets s))
                                     \<lparr> se_timestamp = word_of_int INT32_MAX,
                                       se_type = TIMESTAMP_WRAP, se_data = 0 \<rparr>)
                    (currentSpecialPacket (packets s))
              \<and> (currentPacketContainer s \<noteq> None
                  \<and> length (dx_buffer (dataExchangeBuffer s)) < dx_capacity (dataExchangeBuffer s)
                  \<longrightarrow> (\<exists>s'' pc. legacyCommit forceCommit s' = Some s''
                         \<and> dx_buffer (dataExchangeBuffer s'') = dx_buffer (dataExchangeBuffer s) @ [pc]
                         \<and> pc_special pc = currentSpecialPacket (packets s')))
         else \<not> forceCommit
              \<and> sint (wrapAdd s') = wrapSum
              \<and> currentTimestamp s' = wrapAdd s'
              \<and> lastTimestamp s' = currentTimestamp s
              \<and> wrapOverflow s' = wrapOverflow s
              \<and> packets s' = packets s
              \<and> dataExchangeBuffer s' = dataExchangeBuffer s"
proof (cases "wrapSum > INT32_MAX")
  case True
  then have big: "sint (wrapAdd s) + TS_WRAP_ADD * uint data > INT32_MAX" using assms(1) by simp
  note w = legacyTimestampWrap_big [OF big]
  have fc: "forceCommit" and s': "s' = snd (legacyTimestampWrap data s)"
    using assms(2) w by simp_all
  have rem: "sint (wrapAdd s') = wrapSum - INT32_MAX - 1"
    unfolding s' w assms(1) using wrap_remainder_in_range [OF big] by simp
  have commit: "\<exists>s'' pc. legacyCommit forceCommit s' = Some s''
                         \<and> dx_buffer (dataExchangeBuffer s'') = dx_buffer (dataExchangeBuffer s) @ [pc]
                         \<and> pc_special pc = currentSpecialPacket (packets s')"
    if c: "currentPacketContainer s \<noteq> None"
      and room: "length (dx_buffer (dataExchangeBuffer s)) < dx_capacity (dataExchangeBuffer s)"
  proof -
    obtain pc0 where pc0: "currentPacketContainer s' = Some pc0"
      using c unfolding s' w by auto
    have room': "length (dx_buffer (dataExchangeBuffer s')) < dx_capacity (dataExchangeBuffer s')"
      using room unfolding s' w by simp
    have pos: "currentSpecialPacketPosition (packets s') > 0"
      unfolding s' w by simp
    obtain s'' where s'': "legacyCommit True s' = Some s''"
      "dx_buffer (dataExchangeBuffer s'') =
         dx_buffer (dataExchangeBuffer s') @ [the (currentPacketContainer (legacyAttachPackets s'))]"
      using legacyCommit_forced [OF pc0 room'] by blast
    obtain pc' where pc': "currentPacketContainer (legacyAttachPackets s') = Some pc'"
      "pc_special pc' = currentSpecialPacket (packets s')"
      using legacyAttachPackets_special(1) [OF pc0 pos] by blast
    have "dataExchangeBuffer s' = dataExchangeBuffer s" unfolding s' w by simp
    then show ?thesis using s'' pc' fc by auto
  qed
  show ?thesis
    using True fc rem commit unfolding s' w by simp
next
  case False
  then have small: "\<not> sint (wrapAdd s) + TS_WRAP_ADD * uint data > INT32_MAX" using assms(1) by simp
  note w = legacyTimestampWrap_small [OF small]
  have fc: "\<not> forceCommit" and s': "s' = snd (legacyTimestampWrap data s)"
    using assms(2) w by simp_all
  have sum: "sint (wrapAdd s') = wrapSum"
    unfolding s' w assms(1) using wrap_sum_in_range [OF small] by simp
  show ?thesis
    using False fc sum unfolding s' w by simp
qed

theorem legacy_timestamp_wrap_engine_witness:
  "sint (wrapAdd exampleLegacyStateNearWrap) + TS_WRAP_ADD * uint (1 :: uint16_t) > INT32_MAX
   \<and> fst (legacyTimestampWrap 1 exampleLegacyStateNearWrap)
   \<and> sint (wrapAdd (snd (legacyTimestampWrap 1 exampleLegacyStateNearWrap))) = 0
   \<and> wrapOverflow (snd (legacyTimestampWrap 1 exampleLegacyStateNearWrap)) = 1"
proof -
  have big: "sint (wrapAdd exampleLegacyStateNearWrap) + TS_WRAP_ADD * uint (1 :: uint16_t) > INT32_MAX"
    by (simp add: exampleLegacyStateNearWrap_def exampleLegacyState_def TS_WRAP_ADD_def INT32_MAX_def)
  have e: "legacyTimestampWrap 1 exampleLegacyStateNearWrap =
             (fst (legacyTimestampWrap 1 exampleLegacyStateNearWrap),
              snd (legacyTimestampWrap 1 exampleLegacyStateNearWrap))"
    by simp
  have w: "wrapOverflow exampleLegacyStateNearWrap = 0"
    "sint (wrapAdd exampleLegacyStateNearWrap) + TS_WRAP_ADD * uint (1 :: uint16_t) - INT32_MAX - 1 = 0"
    by (simp_all add: exampleLegacyStateNearWrap_def exampleLegacyState_def TS_WRAP_ADD_def INT32_MAX_def)
  show ?thesis
    using legacy_timestamp_wrap_engine [OF refl e] big w by simp
qed

text \<open>
  Claim C4, as stated, fails in its second half: a wrap unit that does not cross
  \<open>INT32_MAX\<close> forces no commit (the guard \<open>if (wrapSum > INT32_MAX)\<close> of davis.c:6620).
  From the example state the unit \<open>0x7001\<close> moves \<open>wrapAdd\<close> to \<open>0x8000\<close> and hands
  nothing to the ring.
\<close>

theorem legacy_small_wrap_commits_nothing:
  "map_option wrapAdd (legacyTranslateWrapUnits [0x7001] exampleLegacyState) = Some 0x8000
   \<and> map_option wrapOverflow (legacyTranslateWrapUnits [0x7001] exampleLegacyState) = Some 0
   \<and> map_option (dx_buffer \<circ> dataExchangeBuffer) (legacyTranslateWrapUnits [0x7001] exampleLegacyState)
       = Some []"
  by (simp add: legacy_eval Let_def)

theorem legacy_wrap_units_overflow_and_commits_witness:
  "heap_available (legacyMemory exampleLegacyStateNearWrap)
   \<and> length (dx_buffer (dataExchangeBuffer exampleLegacyStateNearWrap)) + length [0x7001 :: uint16_t, 0x7001]
       \<le> dx_capacity (dataExchangeBuffer exampleLegacyStateNearWrap)
   \<and> legacyTranslateWrapUnits [0x7001, 0x7001] exampleLegacyStateNearWrap \<noteq> None
   \<and> sint (wrapOverflow exampleLegacyStateNearWrap) = 0
   \<and> sint (wrapOverflow (the (legacyTranslateWrapUnits [0x7001, 0x7001] exampleLegacyStateNearWrap))) = 1
   \<and> length (dx_buffer (dataExchangeBuffer
         (the (legacyTranslateWrapUnits [0x7001, 0x7001] exampleLegacyStateNearWrap)))) = 1
   \<and> sint (wrapAdd exampleLegacyStatePending) + TS_WRAP_ADD * uint (0x7001 AND 0x0FFF :: uint16_t) > INT32_MAX
   \<and> legacyTranslateWrapUnits [0x7001] exampleLegacyStatePending \<noteq> None
   \<and> wrapOverflow (the (legacyTranslateWrapUnits [0x7001] exampleLegacyStatePending)) = 1
   \<and> map pc_polarity (dx_buffer (dataExchangeBuffer
         (the (legacyTranslateWrapUnits [0x7001] exampleLegacyStatePending))))
       = [Some \<lparr> pk_ident = 0, pk_eventSource = 1, pk_eventTSOverflow = 0,
                  pk_events = [Some \<lparr> pe_timestamp = 0x7FFF8005, pe_polarity = True, pe_x = 2, pe_y = 1 \<rparr>,
                               None, None, None] \<rparr>]
   \<and> map pc_special (dx_buffer (dataExchangeBuffer
         (the (legacyTranslateWrapUnits [0x7001] exampleLegacyStatePending))))
       = [Some \<lparr> pk_ident = 1, pk_eventSource = 1, pk_eventTSOverflow = 0,
                  pk_events = [Some \<lparr> se_timestamp = 0x7FFFFFFF, se_type = TIMESTAMP_WRAP, se_data = 0 \<rparr>,
                               None] \<rparr>]
   \<and> currentPacketContainer (the (legacyTranslateWrapUnits [0x7001] exampleLegacyStatePending)) = None
   \<and> currentPolarityPacketPosition
         (packets (the (legacyTranslateWrapUnits [0x7001] exampleLegacyStatePending))) = 0"
proof -
  have h1: "heap_available (legacyMemory exampleLegacyStateNearWrap)"
    by (simp add: exampleLegacyStateNearWrap_def exampleLegacyState_def)
  have h2: "length (dx_buffer (dataExchangeBuffer exampleLegacyStateNearWrap)) + length [0x7001 :: uint16_t, 0x7001]
              \<le> dx_capacity (dataExchangeBuffer exampleLegacyStateNearWrap)"
    by (simp add: exampleLegacyStateNearWrap_def exampleLegacyState_def)
  have h3: "sint (wrapOverflow exampleLegacyStateNearWrap) + int (length [0x7001 :: uint16_t, 0x7001]) \<le> INT32_MAX"
    by (simp add: exampleLegacyStateNearWrap_def exampleLegacyState_def INT32_MAX_def)
  have h4: "heap_available (legacyMemory exampleLegacyStatePending)"
    by (simp add: exampleLegacyStatePending_def exampleLegacyStateNearWrap_def exampleLegacyState_def)
  have h5: "currentPacketContainer exampleLegacyStatePending = Some emptyPacketContainer"
    by (simp add: exampleLegacyStatePending_def exampleLegacyStateNearWrap_def exampleLegacyState_def)
  have h6: "currentPolarityPacket (packets exampleLegacyStatePending) =
              Some (packetSetEvent (examplePacket 0 4) 0
                      \<lparr> pe_timestamp = 0x7FFF8005, pe_polarity = True, pe_x = 2, pe_y = 1 \<rparr>)"
    by (simp add: exampleLegacyStatePending_def)
  have h7: "currentSpecialPacket (packets exampleLegacyStatePending) = Some (examplePacket 1 2)"
    by (simp add: exampleLegacyStatePending_def exampleLegacyStateNearWrap_def exampleLegacyState_def)
  have h8: "currentFramePacket (packets exampleLegacyStatePending) = Some (examplePacket 2 1)"
    by (simp add: exampleLegacyStatePending_def exampleLegacyStateNearWrap_def exampleLegacyState_def)
  have h9: "currentIMU6Packet (packets exampleLegacyStatePending) = Some (examplePacket 3 1)"
    by (simp add: exampleLegacyStatePending_def exampleLegacyStateNearWrap_def exampleLegacyState_def)
  have h10: "length (dx_buffer (dataExchangeBuffer exampleLegacyStatePending))
               < dx_capacity (dataExchangeBuffer exampleLegacyStatePending)"
    by (simp add: exampleLegacyStatePending_def exampleLegacyStateNearWrap_def exampleLegacyState_def)
  note t = legacy_wrap_units_overflow_and_commits [OF h1 h2 h3 h4 h5 h6 h7 h8 h9 h10, of "0x7001"]
  have big: "sint (wrapAdd exampleLegacyStatePending) + TS_WRAP_ADD * uint (0x7001 AND 0x0FFF :: uint16_t) > INT32_MAX"
    by (simp add: exampleLegacyStatePending_def exampleLegacyStateNearWrap_def exampleLegacyState_def
          TS_WRAP_ADD_def INT32_MAX_def)
  have pos: "currentPolarityPacketPosition (packets exampleLegacyStatePending) = 1"
    "currentSpecialPacketPosition (packets exampleLegacyStatePending) = 0"
    "currentFramePacketPosition (packets exampleLegacyStatePending) = 0"
    "currentIMU6PacketPosition (packets exampleLegacyStatePending) = 0"
    "wrapOverflow exampleLegacyStatePending = 0"
    "dx_buffer (dataExchangeBuffer exampleLegacyStatePending) = []"
    by (simp_all add: exampleLegacyStatePending_def exampleLegacyStateNearWrap_def exampleLegacyState_def)
  obtain s' where s': "legacyTranslateWrapUnits [0x7001, 0x7001] exampleLegacyStateNearWrap = Some s'"
    using t [THEN conjunct1] by blast
  have v: "map_option wrapOverflow (legacyTranslateWrapUnits [0x7001, 0x7001] exampleLegacyStateNearWrap) = Some 1"
    "map_option (length \<circ> dx_buffer \<circ> dataExchangeBuffer)
       (legacyTranslateWrapUnits [0x7001, 0x7001] exampleLegacyStateNearWrap) = Some 1"
    by (simp_all add: legacy_eval Let_def)
  have seq: "legacyTranslateWrapUnits [0x7001, 0x7001] exampleLegacyStateNearWrap \<noteq> None
     \<and> sint (wrapOverflow exampleLegacyStateNearWrap) = 0
     \<and> sint (wrapOverflow (the (legacyTranslateWrapUnits [0x7001, 0x7001] exampleLegacyStateNearWrap))) = 1
     \<and> length (dx_buffer (dataExchangeBuffer
           (the (legacyTranslateWrapUnits [0x7001, 0x7001] exampleLegacyStateNearWrap)))) = 1"
    using s' v by (auto simp: exampleLegacyStateNearWrap_def exampleLegacyState_def)
  obtain t' where u: "legacyTranslateWrapUnit 0x7001 exampleLegacyStatePending = Continue t'"
    and u1: "wrapOverflow t' = 1"
    and u2: "dx_buffer (dataExchangeBuffer t') =
               [\<lparr> pc_polarity = Some (packetSetEvent (examplePacket 0 4) 0
                      \<lparr> pe_timestamp = 0x7FFF8005, pe_polarity = True, pe_x = 2, pe_y = 1 \<rparr>),
                   pc_special = Some ((examplePacket 1 2)\<lparr> pk_events := (pk_events (examplePacket 1 2))
                                    [0 := Some \<lparr> se_timestamp = 0x7FFFFFFF, se_type = TIMESTAMP_WRAP,
                                                 se_data = 0 \<rparr>] \<rparr>),
                   pc_frame = pc_frame emptyPacketContainer,
                   pc_imu6 = pc_imu6 emptyPacketContainer \<rparr>]"
    and u3: "currentPacketContainer t' = None" "currentPolarityPacketPosition (packets t') = 0"
    using t [THEN conjunct2] big pos by auto
  have e: "the (legacyTranslateWrapUnits [0x7001] exampleLegacyStatePending) = t'"
    "legacyTranslateWrapUnits [0x7001] exampleLegacyStatePending \<noteq> None"
    using u by simp_all
  show ?thesis
    using h1 h2 seq big e u1 u2 u3
    by (simp add: examplePacket_def packetSetEvent_def eval_nat_numeral)
qed

subsection \<open>The running flag\<close>

text \<open>
  Claim C6, as stated, fails for the legacy translator (davis.c:5961), which
  \<open>davisLibUsbCallback\<close> (davis.c:5931) calls for every completed transfer: it takes no
  running flag. With \<open>dataAcquisitionThreadRun\<close> false, the wrap unit \<open>0x7001\<close> still
  increments \<open>wrapOverflow\<close> and commits a container with a \<open>TIMESTAMP_WRAP\<close> event.
\<close>

theorem legacy_translator_runs_while_not_running:
  "\<not> dataAcquisitionThreadRun exampleLegacyStateStopping
   \<and> map_option wrapOverflow (legacyTranslateWrapUnits [0x7001] exampleLegacyStateStopping) = Some 1
   \<and> map_option (map pc_special \<circ> dx_buffer \<circ> dataExchangeBuffer)
         (legacyTranslateWrapUnits [0x7001] exampleLegacyStateStopping)
       = Some [Some \<lparr> pk_ident = 1, pk_eventSource = 1, pk_eventTSOverflow = 0,
                       pk_events = [Some \<lparr> se_timestamp = 0x7FFFFFFF, se_type = TIMESTAMP_WRAP,
                                           se_data = 0 \<rparr>, None] \<rparr>]"
  by (simp add: legacy_eval Let_def eval_nat_numeral)

text \<open>
  Claim C6, amended. The translator of davis.c:2394 and the MIPI CX3 translator check the
  running flag of the USB transfers first: called while it is false, each returns at once
  and leaves the whole device state (timestamps, DVS, APS, IMU, packets and their write
  positions, container, ring buffer, log) as it was, whatever the buffer holds. The legacy
  translator of davis.c:5961 takes no such flag.
\<close>

theorem translators_return_at_once_when_not_running:
  "(\<not> dataTransfersRun s \<longrightarrow> davisEventTranslator cfg buffer s = Some s)
   \<and> (\<not> m_dataTransfersRun m \<longrightarrow> mipiCx3EventTranslator mcfg mbuffer m = Some m)"
  by (simp add: davisEventTranslator_not_running mipiCx3EventTranslator_not_running)

theorem translators_return_at_once_when_not_running_witness:
  "davisEventTranslator exampleConfig [0x01, 0x10, 0x02, 0x30] exampleStateStopped = Some exampleStateStopped
   \<and> mipiCx3EventTranslator exampleMipiConfig [0x80, 0x04, 0x00, 0x03] exampleMipiStateStopped
       = Some exampleMipiStateStopped"
proof -
  have a: "\<not> dataTransfersRun exampleStateStopped"
    by (simp add: exampleStateStopped_def)
  have b: "\<not> m_dataTransfersRun exampleMipiStateStopped"
    by (simp add: exampleMipiStateStopped_def)
  show ?thesis
    using translators_return_at_once_when_not_running
            [of exampleStateStopped exampleConfig "[0x01, 0x10, 0x02, 0x30]"
                exampleMipiStateStopped exampleMipiConfig "[0x80, 0x04, 0x00, 0x03]"] a b
    by simp
qed

subsection \<open>The commit\<close>

text \<open>
  No step of the decoder changes which packet instance is behind a reference of the
  translator: a packet is written to, and grown in place, under the same identity. The
  allocator gives no identity twice.
\<close>

lemma ensureSpaceForEvents_ident:
  "ensureSpaceForEvents h p n k = (ok, q, msgs) \<Longrightarrow> pk_ident q = pk_ident p"
  by (auto simp: ensureSpaceForEvents_def caerEventPacketGrow_def split: if_splits)

lemma packetSetEvent_ident [simp]: "pk_ident (packetSetEvent p n e) = pk_ident p"
  by (simp add: packetSetEvent_def)

lemma identState_updates [simp]:
  "identState (s\<lparr> logged := l \<rparr>) = identState s"
  "identState (s\<lparr> aps := a \<rparr>) = identState s"
  "identState (s\<lparr> imu := m \<rparr>) = identState s"
  "identState (s\<lparr> dvs := d \<rparr>) = identState s"
  "identState (s\<lparr> timestamps := t \<rparr>) = identState s"
  "identState (s\<lparr> container := c \<rparr>) = identState s"
  "identState (s\<lparr> dataExchange := x \<rparr>) = identState s"
  by (simp_all add: identState_def managerRefIdents_def)

lemma identState_davisLog [simp]: "identState (davisLog l m s) = identState s"
  by (simp add: davisLog_def)

lemma identState_emitSpecialEvent [simp]:
  "identState (emitSpecialEvent ty ts s) = identState s"
  by (cases "cp_special (currentPackets s)")
     (auto simp: emitSpecialEvent_def identState_def managerRefIdents_def
        split: prod.splits dest: ensureSpaceForEvents_ident)

lemma identState_apsInitFrame [simp]: "identState (apsInitFrame s) = identState s"
  by (simp add: apsInitFrame_def Let_def)

lemma identState_apsEndFrame [simp]: "identState (snd (apsEndFrame s)) = identState s"
  by (simp add: apsEndFrame_def Let_def)

lemma identState_frame_append:
  assumes "cp_frame (currentPackets s) = Some p"
    and "ensureSpaceForEvents h p n k = (ok, q, msgs)"
  shows "identState (s\<lparr> currentPackets := (currentPackets s)
            \<lparr> cp_frame := Some (packetSetEvent q n e), cp_framePosition := m \<rparr> \<rparr>) = identState s"
  using assms ensureSpaceForEvents_ident [OF assms(2)]
  by (simp add: identState_def managerRefIdents_def)

lemma identState_apsFrameEnd [simp]: "identState (apsFrameEnd cfg s) = identState s"
proof (cases "aps_ignoreEvents (aps s)")
  case True
  then show ?thesis by (simp add: apsFrameEnd_def)
next
  case False
  obtain v s1 where e: "apsEndFrame s = (v, s1)" by (cases "apsEndFrame s") auto
  then have s1: "identState s1 = identState s" using identState_apsEndFrame [of s] by simp
  show ?thesis
  proof (cases "cp_frame (currentPackets s1)")
    case None
    then show ?thesis using False e s1 by (simp add: apsFrameEnd_def)
  next
    case (Some p)
    obtain ok q msgs where sp: "ensureSpaceForEvents (memory s1) p (cp_framePosition (currentPackets s1)) 1 = (ok, q, msgs)"
      by (cases "ensureSpaceForEvents (memory s1) p (cp_framePosition (currentPackets s1)) 1") auto
    show ?thesis
      using False e s1 Some sp identState_frame_append [OF Some sp]
      by (simp add: apsFrameEnd_def)
  qed
qed

lemma identState_imuEnd [simp]: "identState (imuEnd s) = identState s"
  by (cases "cp_imu6 (currentPackets s)")
     (auto simp: imuEnd_def Let_def identState_def managerRefIdents_def davisLog_def
        split: prod.splits dest: ensureSpaceForEvents_ident)

lemma identState_davisXAddress [simp]: "identState (davisXAddress code data s) = identState s"
  by (cases "cp_polarity (currentPackets s)")
     (auto simp: davisXAddress_def identState_def managerRefIdents_def davisLog_def
        split: prod.splits dest: ensureSpaceForEvents_ident)

lemma identState_imuDataEvent [simp]: "identState (imuDataEvent cfg d s) = identState s"
  by (simp add: imuDataEvent_def Let_def)

lemma identState_imuScaleConfig [simp]: "identState (imuScaleConfig cfg d s) = identState s"
  by (simp add: imuScaleConfig_def Let_def)

lemma identState_davisSpecialEvent [simp]:
  "identState (snd (davisSpecialEvent cfg data s)) = identState s"
  by (simp add: davisSpecialEvent_def handleTimestampResetNewLogic_def Let_def)

lemma identState_davisTimestampWrap [simp]:
  "identState (snd (davisTimestampWrap data s)) = identState s"
  by (simp add: davisTimestampWrap_def handleTimestampWrapNewLogic_def Let_def split: prod.splits)

lemma identState_davisYAddress [simp]: "identState (davisYAddress data s) = identState s"
  by (simp add: davisYAddress_def)

lemma identState_davisAPSSample [simp]: "identState (davisAPSSample cfg data s) = identState s"
  by (simp add: davisAPSSample_def Let_def)

lemma identState_davisMisc8 [simp]: "identState (davisMisc8 cfg data s) = identState s"
  by (simp add: davisMisc8_def Let_def)

lemma identState_davisMisc10 [simp]: "identState (davisMisc10 data s) = identState s"
  by (simp add: davisMisc10_def Let_def)

lemma identState_handleTimestampUpdateNewLogic [simp]:
  "identState (handleTimestampUpdateNewLogic event s) = identState s"
  by (simp add: handleTimestampUpdateNewLogic_def Let_def)

lemma identState_davisDecodeEvent:
  "identState (fst (davisDecodeEvent cfg event s)) = identState s"
proof -
  have a: "identState (fst (case davisSpecialEvent cfg d s of (tsReset, s1) \<Rightarrow> (s1, tsReset, False))) = identState s" for d
    using identState_davisSpecialEvent [of cfg d s] by (simp add: case_prod_beta)
  have b: "identState (fst (case davisTimestampWrap d s of (tsBigWrap, s1) \<Rightarrow> (s1, False, tsBigWrap))) = identState s" for d
    using identState_davisTimestampWrap [of d s] by (simp add: case_prod_beta)
  show ?thesis
    unfolding davisDecodeEvent_def Let_def
    by (simp add: a b)
qed

lemma identState_managerRefIdent:
  assumes "identState s' = identState s"
  shows "managerRefIdent kind s' = managerRefIdent kind s"
    and "heap_nextIdent (memory s') = heap_nextIdent (memory s)"
  using assms by (cases kind; simp add: identState_def managerRefIdents_def)+

lemma allocateIfNull_ident:
  assumes "allocateIfNull n src ovf h p = (Some q, h')"
  shows "(p = Some q \<and> h' = h)
         \<or> (p = None \<and> pk_ident q = heap_nextIdent h \<and> heap_nextIdent h' = Suc (heap_nextIdent h))"
  using assms
  by (auto simp: allocateIfNull_def caerEventPacketAllocate_def split: option.splits if_splits)

lemma allocateIfNull_None:
  assumes "allocateIfNull n src ovf h p = (None, h')"
  shows "p = None \<and> h' = h"
  using assms
  by (auto simp: allocateIfNull_def caerEventPacketAllocate_def split: option.splits if_splits)

lemma notHeld_allocate:
  assumes "davisAllocatePackets cfg s = (ok, s1)"
    and "managerRefIdent kind s \<noteq> Some i" and "i < heap_nextIdent (memory s)"
  shows "managerRefIdent kind s1 \<noteq> Some i \<and> i < heap_nextIdent (memory s1)"
  using assms
  by (cases kind;
      auto simp: davisAllocatePackets_def davisLog_def Let_def
           split: prod.splits bool.splits option.splits
           dest!: allocateIfNull_ident allocateIfNull_None)

lemma attach_frames [simp]:
  "memory (fst (attachPolarity x)) = memory (fst x)"
  "memory (fst (attachSpecial x)) = memory (fst x)"
  "memory (fst (attachFrame x)) = memory (fst x)"
  "memory (fst (attachIMU6 x)) = memory (fst x)"
  by (simp_all add: attachPolarity_def attachSpecial_def attachFrame_def attachIMU6_def case_prod_beta)

lemma davisAttachPackets_memory [simp]:
  "memory (fst (davisAttachPackets s)) = memory s"
  by (simp add: davisAttachPackets_def)

lemma davisAttachPackets_refs:
  "managerRefIdent kind (fst (davisAttachPackets s)) =
     (if managerPosition kind s > 0 then None else managerRefIdent kind s)"
  by (cases kind)
     (simp_all add: davisAttachPackets_def attachPolarity_def attachSpecial_def attachFrame_def
        attachIMU6_def case_prod_beta)

lemma davisAttachPackets_positions:
  "managerPosition kind (fst (davisAttachPackets s)) = 0"
  by (cases kind)
     (simp_all add: davisAttachPackets_def attachPolarity_def attachSpecial_def attachFrame_def
        attachIMU6_def case_prod_beta)

lemma containerGenerationExecute_heap:
  assumes "containerGenerationExecute e r ovf cur dev (c, dx, h) = Some (c', dx', h', msgs)"
  shows "heap_nextIdent h \<le> heap_nextIdent h'"
  using assms
  by (auto simp: containerGenerationExecute_def Let_def split: option.splits if_splits prod.splits)

lemma davisCommit_refs:
  assumes "davisCommit cfg r w s = Some s1"
  shows "heap_nextIdent (memory s) \<le> heap_nextIdent (memory s1)"
    and "managerRefIdent kind s1 =
           (if davisCommitTriggered r w s \<and> managerPosition kind s > 0 then None else managerRefIdent kind s)"
proof -
  show "heap_nextIdent (memory s) \<le> heap_nextIdent (memory s1)"
  proof (cases "davisCommitTriggered r w s")
    case False
    then show ?thesis using assms by (simp add: davisCommit_def)
  next
    case True
    obtain s0 e where a: "davisAttachPackets s = (s0, e)" by (cases "davisAttachPackets s") auto
    then have m: "memory s0 = memory s" using davisAttachPackets_memory [of s] by simp
    show ?thesis
      using assms True a m
      by (auto simp: davisCommit_def Let_def split: option.splits prod.splits if_splits
          dest!: containerGenerationExecute_heap)
  qed
  show "managerRefIdent kind s1 =
           (if davisCommitTriggered r w s \<and> managerPosition kind s > 0 then None else managerRefIdent kind s)"
  proof (cases "davisCommitTriggered r w s")
    case False
    then show ?thesis using assms by (simp add: davisCommit_def)
  next
    case True
    obtain s0 e where a: "davisAttachPackets s = (s0, e)" by (cases "davisAttachPackets s") auto
    then have r0: "managerRefIdent kind s0 = (if managerPosition kind s > 0 then None else managerRefIdent kind s)"
      using davisAttachPackets_refs [of kind s] by simp
    have "managerRefIdent kind s1 = managerRefIdent kind s0"
      using assms True a
      by (cases kind; auto simp: davisCommit_def Let_def split: option.splits prod.splits if_splits)
    then show ?thesis using r0 True by simp
  qed
qed

lemma notHeld_unit:
  assumes "davisTranslateUnit cfg event s = Continue s' \<or> davisTranslateUnit cfg event s = Return s'"
    and "managerRefIdent kind s \<noteq> Some i" and "i < heap_nextIdent (memory s)"
  shows "managerRefIdent kind s' \<noteq> Some i \<and> i < heap_nextIdent (memory s')"
proof (cases "davisAllocatePackets cfg s")
  case (Pair ok s1)
  note a = notHeld_allocate [OF Pair assms(2,3)]
  show ?thesis
  proof (cases ok)
    case False
    then have "s' = s1" using assms(1) Pair by (simp add: davisTranslateUnit_def)
    then show ?thesis using a by simp
  next
    case True
    obtain s2 r w where d: "davisDecodeEvent cfg event s1 = (s2, r, w)"
      by (cases "davisDecodeEvent cfg event s1") auto
    have "identState s2 = identState s1" using identState_davisDecodeEvent [of cfg event s1] d by simp
    note i2 = identState_managerRefIdent [OF this]
    have c: "davisCommit cfg r w s2 = Some s'"
      using assms(1) Pair True d by (auto simp: davisTranslateUnit_def split: option.splits)
    note r = davisCommit_refs [OF c]
    show ?thesis
      using a i2(1) [of kind] i2(2) r(1) r(2) [of kind] by (auto split: if_splits)
  qed
qed

lemma notHeld_units:
  assumes "davisTranslateUnits cfg events s = Some s'"
    and "managerRefIdent kind s \<noteq> Some i" and "i < heap_nextIdent (memory s)"
  shows "managerRefIdent kind s' \<noteq> Some i \<and> i < heap_nextIdent (memory s')"
  using assms
proof (induction events arbitrary: s)
  case Nil
  then show ?case by simp
next
  case (Cons event events)
  show ?case
  proof (cases "davisTranslateUnit cfg event s")
    case (Continue s1)
    then have run: "davisTranslateUnits cfg events s1 = Some s'" using Cons.prems(1) by simp
    have "managerRefIdent kind s1 \<noteq> Some i \<and> i < heap_nextIdent (memory s1)"
      using notHeld_unit [of cfg event s s1 kind i] Continue Cons.prems(2,3) by simp
    then show ?thesis using Cons.IH [OF run] by simp
  next
    case (Return s1)
    then have "s' = s1" using Cons.prems(1) by simp
    then show ?thesis using notHeld_unit [of cfg event s s' kind i] Return Cons.prems(2,3) by simp
  next
    case Blocked
    then show ?thesis using Cons.prems(1) by simp
  qed
qed

lemma davisAttachPackets_slots:
  assumes "cg_currentPacketContainer (container s) = Some pc"
  shows "\<exists>pc1. cg_currentPacketContainer (container (fst (davisAttachPackets s))) = Some pc1
           \<and> pc_polarity pc1 = (if cp_polarityPosition (currentPackets s) > 0
                                 then cp_polarity (currentPackets s) else pc_polarity pc)
           \<and> pc_special pc1 = (if cp_specialPosition (currentPackets s) > 0
                                then cp_special (currentPackets s) else pc_special pc)
           \<and> pc_frame pc1 = (if cp_framePosition (currentPackets s) > 0
                              then cp_frame (currentPackets s) else pc_frame pc)
           \<and> pc_imu6 pc1 = (if cp_imu6Position (currentPackets s) > 0
                             then cp_imu6 (currentPackets s) else pc_imu6 pc)"
  using assms
  by (simp add: davisAttachPackets_def attachPolarity_def attachSpecial_def attachFrame_def
        attachIMU6_def containerGenerationSetPacket_def case_prod_beta)

lemma davisAttachPackets_manager:
  "cp_polarity (currentPackets (fst (davisAttachPackets s))) =
     (if cp_polarityPosition (currentPackets s) > 0 then None else cp_polarity (currentPackets s))"
  "cp_special (currentPackets (fst (davisAttachPackets s))) =
     (if cp_specialPosition (currentPackets s) > 0 then None else cp_special (currentPackets s))"
  "cp_frame (currentPackets (fst (davisAttachPackets s))) =
     (if cp_framePosition (currentPackets s) > 0 then None else cp_frame (currentPackets s))"
  "cp_imu6 (currentPackets (fst (davisAttachPackets s))) =
     (if cp_imu6Position (currentPackets s) > 0 then None else cp_imu6 (currentPackets s))"
  "cp_polarityPosition (currentPackets (fst (davisAttachPackets s))) = 0"
  "cp_specialPosition (currentPackets (fst (davisAttachPackets s))) = 0"
  "cp_framePosition (currentPackets (fst (davisAttachPackets s))) = 0"
  "cp_imu6Position (currentPackets (fst (davisAttachPackets s))) = 0"
  by (simp_all add: davisAttachPackets_def attachPolarity_def attachSpecial_def attachFrame_def
        attachIMU6_def case_prod_beta)

lemma mipiCx3AttachPackets_slots:
  assumes "cg_currentPacketContainer (m_container m) = Some mpc"
  shows "\<exists>mpc1. cg_currentPacketContainer (m_container (fst (mipiCx3AttachPackets m))) = Some mpc1
           \<and> pc_polarity mpc1 = (if m_polarityPosition m > 0 then m_polarity m else pc_polarity mpc)
           \<and> pc_special mpc1 = (if m_specialPosition m > 0 then m_special m else pc_special mpc)"
  using assms
  by (simp add: mipiCx3AttachPackets_def mipiCx3AttachPolarity_def mipiCx3AttachSpecial_def
        containerGenerationSetPacket_def case_prod_beta)

lemma mipiCx3AttachPackets_manager:
  "m_polarity (fst (mipiCx3AttachPackets m)) = (if m_polarityPosition m > 0 then None else m_polarity m)"
  "m_special (fst (mipiCx3AttachPackets m)) = (if m_specialPosition m > 0 then None else m_special m)"
  "m_polarityPosition (fst (mipiCx3AttachPackets m)) = 0"
  "m_specialPosition (fst (mipiCx3AttachPackets m)) = 0"
  by (simp_all add: mipiCx3AttachPackets_def mipiCx3AttachPolarity_def mipiCx3AttachSpecial_def
        case_prod_beta)

lemma mipiCx3GroupLoop_ident:
  "pk_ident (fst (mipiCx3GroupLoop bits event groupAddr lastX ts (p, n))) = pk_ident p"
  by (induction bits arbitrary: p n) (simp_all add: packetSetEvent_def)

lemma mipiCx3IdentState_log [simp]:
  "mipiCx3IdentState (mipiCx3Log l msg s) = mipiCx3IdentState s"
  by (simp add: mipiCx3IdentState_def mipiCx3Log_def)

lemma mipiCx3IdentState_group [simp]:
  "mipiCx3IdentState (mipiCx3Group event s) = mipiCx3IdentState s"
proof (cases "event AND 0x76000000 \<noteq> 0")
  case True
  then show ?thesis by (simp add: mipiCx3Group_def)
next
  case False
  show ?thesis
  proof (cases "m_polarity s")
    case None
    then show ?thesis using False by (simp add: mipiCx3Group_def Let_def)
  next
    case (Some packet)
    obtain ok packet' msgs where e:
      "ensureSpaceForEvents (m_memory s) packet (m_polarityPosition s) 16 = (ok, packet', msgs)"
      by (cases "ensureSpaceForEvents (m_memory s) packet (m_polarityPosition s) 16") auto
    have i: "pk_ident packet' = pk_ident packet" by (rule ensureSpaceForEvents_result(1) [OF e])
    have "pk_ident (fst (mipiCx3GroupLoop bits event groupAddr (m_lastX s) (mts_current (m_timestamps s))
                           (packet', m_polarityPosition s))) = pk_ident packet" for bits groupAddr
      using mipiCx3GroupLoop_ident [of bits event groupAddr "m_lastX s" "mts_current (m_timestamps s)"
               packet' "m_polarityPosition s"] i by simp
    then show ?thesis
      using Some e False
      by (simp add: mipiCx3Group_def Let_def mipiCx3IdentState_def case_prod_beta
            del: mipiCx3GroupLoop.simps)
  qed
qed

lemma mipiCx3IdentState_emitSpecial [simp]:
  "mipiCx3IdentState (mipiCx3EmitSpecial ty ts s) = mipiCx3IdentState s"
  by (cases "m_special s")
     (auto simp: mipiCx3EmitSpecial_def mipiCx3IdentState_def packetSetEvent_def
        split: prod.splits dest: ensureSpaceForEvents_result(1))

lemma mipiCx3IdentState_column [simp]:
  "mipiCx3IdentState (mipiCx3Column event s) = mipiCx3IdentState s"
proof -
  have "mipiCx3IdentState (s\<lparr> m_lastX := x, m_timestamps := t, m_logged := l, m_container := c \<rparr>)
          = mipiCx3IdentState s" for x t l c
    by (simp add: mipiCx3IdentState_def)
  then show ?thesis by (simp add: mipiCx3Column_def Let_def)
qed

lemma mipiCx3IdentState_reference [simp]:
  "mipiCx3IdentState (mipiCx3TimestampReference event s) = mipiCx3IdentState s"
  by (simp add: mipiCx3TimestampReference_def mipiCx3IdentState_def)

lemma mipiCx3IdentState_refIdent:
  assumes "mipiCx3IdentState s' = mipiCx3IdentState s"
  shows "mipiCx3RefIdent kind s' = mipiCx3RefIdent kind s"
    and "heap_nextIdent (m_memory s') = heap_nextIdent (m_memory s)"
  using assms by (cases kind; simp add: mipiCx3IdentState_def)+

lemma mipiCx3_notHeld_allocate:
  assumes "mipiCx3AllocatePackets cfg s = (ok, s1)"
    and "mipiCx3RefIdent kind s \<noteq> Some i" and "i < heap_nextIdent (m_memory s)"
  shows "mipiCx3RefIdent kind s1 \<noteq> Some i \<and> i < heap_nextIdent (m_memory s1)"
  using assms
  by (cases kind; auto simp: mipiCx3AllocatePackets_def mipiCx3Log_def Let_def
       split: prod.splits bool.splits option.splits
       dest!: allocateIfNull_ident allocateIfNull_None)

lemma mipiCx3AttachPackets_memory [simp]:
  "m_memory (fst (mipiCx3AttachPackets s)) = m_memory s"
  "m_dataExchange (fst (mipiCx3AttachPackets s)) = m_dataExchange s"
  by (simp_all add: mipiCx3AttachPackets_def mipiCx3AttachPolarity_def mipiCx3AttachSpecial_def
        case_prod_beta)

lemma mipiCx3AttachPackets_refs:
  "mipiCx3RefIdent kind (fst (mipiCx3AttachPackets s)) =
     (if mipiCx3Position kind s > 0 then None else mipiCx3RefIdent kind s)"
  by (cases kind)
     (simp_all add: mipiCx3AttachPackets_def mipiCx3AttachPolarity_def mipiCx3AttachSpecial_def
        case_prod_beta)

lemma mipiCx3Commit_refs:
  assumes "mipiCx3Commit cfg s = Some s1"
  shows "heap_nextIdent (m_memory s) \<le> heap_nextIdent (m_memory s1)"
    and "mipiCx3RefIdent kind s1 =
           (if mipiCx3CommitTriggered s \<and> mipiCx3Position kind s > 0 then None else mipiCx3RefIdent kind s)"
proof -
  show "heap_nextIdent (m_memory s) \<le> heap_nextIdent (m_memory s1)"
  proof (cases "mipiCx3CommitTriggered s")
    case False
    then show ?thesis using assms by (simp add: mipiCx3Commit_def)
  next
    case True
    obtain s0 e where a: "mipiCx3AttachPackets s = (s0, e)" by (cases "mipiCx3AttachPackets s") auto
    then have m: "m_memory s0 = m_memory s" using mipiCx3AttachPackets_memory(1) [of s] by simp
    show ?thesis
      using assms True a m
      by (auto simp: mipiCx3Commit_def split: option.splits prod.splits
          dest!: containerGenerationExecute_heap)
  qed
  show "mipiCx3RefIdent kind s1 =
           (if mipiCx3CommitTriggered s \<and> mipiCx3Position kind s > 0 then None else mipiCx3RefIdent kind s)"
  proof (cases "mipiCx3CommitTriggered s")
    case False
    then show ?thesis using assms by (simp add: mipiCx3Commit_def)
  next
    case True
    obtain s0 e where a: "mipiCx3AttachPackets s = (s0, e)" by (cases "mipiCx3AttachPackets s") auto
    then have r0: "mipiCx3RefIdent kind s0 = (if mipiCx3Position kind s > 0 then None else mipiCx3RefIdent kind s)"
      using mipiCx3AttachPackets_refs [of kind s] by simp
    have "mipiCx3RefIdent kind s1 = mipiCx3RefIdent kind s0"
      using assms True a
      by (cases kind; auto simp: mipiCx3Commit_def split: option.splits prod.splits)
    then show ?thesis using r0 True by simp
  qed
qed

lemma mipiCx3_notHeld_unit:
  assumes "mipiCx3TranslateUnit cfg event s = Continue s' \<or> mipiCx3TranslateUnit cfg event s = Return s'"
    and "mipiCx3RefIdent kind s \<noteq> Some i" and "i < heap_nextIdent (m_memory s)"
  shows "mipiCx3RefIdent kind s' \<noteq> Some i \<and> i < heap_nextIdent (m_memory s')"
proof (cases "mipiCx3AllocatePackets cfg s")
  case (Pair ok s1)
  note a = mipiCx3_notHeld_allocate [OF Pair assms(2,3)]
  show ?thesis
  proof (cases ok)
    case False
    then have "s' = s1" using assms(1) Pair by (simp add: mipiCx3TranslateUnit_def)
    then show ?thesis using a by simp
  next
    case True
    show ?thesis
    proof (cases "event AND 0x80000000 \<noteq> 0 \<and> cg_currentPacketContainerCommitTimestamp (m_container s1) = - 1")
      case skip: True
      then have "s' = s1" using assms(1) Pair True by (simp add: mipiCx3TranslateUnit_def)
      then show ?thesis using a by simp
    next
      case False
      define s2 where "s2 = (if event AND 0x80000000 \<noteq> 0 then mipiCx3Group event s1
                           else (let s3 = (if event AND 0x04000000 \<noteq> 0 then mipiCx3Column event s1 else s1)
                                 in if event AND 0x08000000 \<noteq> 0 then mipiCx3TimestampReference event s3 else s3))"
      have "mipiCx3IdentState s2 = mipiCx3IdentState s1"
        unfolding s2_def by (simp add: Let_def)
      note i2 = mipiCx3IdentState_refIdent [OF this]
      have c: "mipiCx3Commit cfg s2 = Some s'"
        using assms(1) Pair True False unfolding s2_def
        by (auto simp: mipiCx3TranslateUnit_def Let_def split: option.splits if_splits)
      note r = mipiCx3Commit_refs [OF c]
      show ?thesis
        using a i2(1) [of kind] i2(2) r(1) r(2) [of kind] by (auto split: if_splits)
    qed
  qed
qed

lemma mipiCx3_notHeld_units:
  assumes "mipiCx3TranslateUnits cfg events s = Some s'"
    and "mipiCx3RefIdent kind s \<noteq> Some i" and "i < heap_nextIdent (m_memory s)"
  shows "mipiCx3RefIdent kind s' \<noteq> Some i \<and> i < heap_nextIdent (m_memory s')"
  using assms
proof (induction events arbitrary: s)
  case Nil
  then show ?case by simp
next
  case (Cons event events)
  show ?case
  proof (cases "mipiCx3TranslateUnit cfg event s")
    case (Continue s1)
    then have run: "mipiCx3TranslateUnits cfg events s1 = Some s'" using Cons.prems(1) by simp
    have "mipiCx3RefIdent kind s1 \<noteq> Some i \<and> i < heap_nextIdent (m_memory s1)"
      using mipiCx3_notHeld_unit [of cfg event s s1 kind i] Continue Cons.prems(2,3) by simp
    then show ?thesis using Cons.IH [OF run] by simp
  next
    case (Return s1)
    then have "s' = s1" using Cons.prems(1) by simp
    then show ?thesis using mipiCx3_notHeld_unit [of cfg event s s' kind i] Return Cons.prems(2,3) by simp
  next
    case Blocked
    then show ?thesis using Cons.prems(1) by simp
  qed
qed

lemma containerGenerationExecute_room:
  assumes "cg_currentPacketContainer c = Some pc"
    and "length (dx_buffer dx) + 2 \<le> dx_capacity dx"
  shows "\<exists>c' rest h' msgs.
           containerGenerationExecute e r ovf cur dev (c, dx, h)
             = Some (c', dx\<lparr> dx_buffer := dx_buffer dx @ pc # rest \<rparr>, h', msgs)
           \<and> cg_currentPacketContainer c' = None \<and> (\<not> r \<longrightarrow> rest = [])"
  using assms
  by (auto simp: containerGenerationExecute_def dataExchangePut_def Let_def)

lemma containerGenerationExecute_room1:
  assumes "cg_currentPacketContainer c = Some pc"
    and "length (dx_buffer dx) < dx_capacity dx"
  shows "\<exists>c' h' msgs.
           containerGenerationExecute e False ovf cur dev (c, dx, h)
             = Some (c', dx\<lparr> dx_buffer := dx_buffer dx @ [pc] \<rparr>, h', msgs)
           \<and> cg_currentPacketContainer c' = None"
  using assms
  by (auto simp: containerGenerationExecute_def dataExchangePut_def Let_def)

lemma davisAttachPackets_dataExchange [simp]:
  "dataExchange (fst (davisAttachPackets s)) = dataExchange s"
  by (simp add: davisAttachPackets_def attachPolarity_def attachSpecial_def attachFrame_def
        attachIMU6_def case_prod_beta)

lemma davisCommit_triggered:
  assumes "davisCommitTriggered tsReset tsBigWrap s"
    and "cg_currentPacketContainer (container s) = Some pc"
    and "length (dx_buffer (dataExchange s)) + 2 \<le> dx_capacity (dataExchange s)"
  shows "\<exists>s2 rest. davisCommit cfg tsReset tsBigWrap s = Some s2
           \<and> currentPackets s2 = currentPackets (fst (davisAttachPackets s))
           \<and> dx_buffer (dataExchange s2) =
               dx_buffer (dataExchange s)
               @ the (cg_currentPacketContainer (container (fst (davisAttachPackets s)))) # rest
           \<and> cg_currentPacketContainer (container s2) = None"
proof -
  obtain s1 e where a: "davisAttachPackets s = (s1, e)" by (cases "davisAttachPackets s") auto
  then have s1: "s1 = fst (davisAttachPackets s)" by simp
  obtain pc1 where pc1: "cg_currentPacketContainer (container s1) = Some pc1"
    using davisAttachPackets_slots [OF assms(2)] s1 by auto
  define s2 where "s2 = (if tsReset \<or> tsBigWrap
                           then s1\<lparr> aps := (aps s1)\<lparr> aps_ignoreEvents := True \<rparr>,
                                    imu := (imu s1)\<lparr> imu_ignoreEvents := True \<rparr> \<rparr>
                           else s1)"
  have f: "container s2 = container s1" "dataExchange s2 = dataExchange s" "currentPackets s2 = currentPackets s1"
    unfolding s2_def s1 by simp_all
  obtain c' rest h' msgs where x:
    "containerGenerationExecute e tsReset (ts_wrapOverflow (timestamps s2)) (ts_current (timestamps s2))
       (cfg_deviceID cfg) (container s2, dataExchange s2, memory s2)
     = Some (c', (dataExchange s2)\<lparr> dx_buffer := dx_buffer (dataExchange s2) @ pc1 # rest \<rparr>, h', msgs)"
    "cg_currentPacketContainer c' = None"
    using containerGenerationExecute_room [of "container s2" pc1 "dataExchange s2"] pc1 assms(3) f
    by metis
  have "davisCommit cfg tsReset tsBigWrap s =
          Some (s2\<lparr> container := c',
                   dataExchange := (dataExchange s2)\<lparr> dx_buffer := dx_buffer (dataExchange s2) @ pc1 # rest \<rparr>,
                   memory := h', logged := logged s2 @ msgs \<rparr>)"
    using assms(1) a x(1) unfolding s2_def by (simp add: davisCommit_def Let_def)
  then show ?thesis using x(2) f pc1 s1 by auto
qed

lemma mipiCx3Commit_triggered:
  assumes "mipiCx3CommitTriggered m"
    and "cg_currentPacketContainer (m_container m) = Some mpc"
    and "length (dx_buffer (m_dataExchange m)) < dx_capacity (m_dataExchange m)"
  shows "\<exists>m2. mipiCx3Commit mcfg m = Some m2
           \<and> m_polarity m2 = m_polarity (fst (mipiCx3AttachPackets m))
           \<and> m_special m2 = m_special (fst (mipiCx3AttachPackets m))
           \<and> m_polarityPosition m2 = 0 \<and> m_specialPosition m2 = 0
           \<and> dx_buffer (m_dataExchange m2) =
               dx_buffer (m_dataExchange m)
               @ [the (cg_currentPacketContainer (m_container (fst (mipiCx3AttachPackets m))))]
           \<and> cg_currentPacketContainer (m_container m2) = None"
proof -
  obtain m1 e where a: "mipiCx3AttachPackets m = (m1, e)" by (cases "mipiCx3AttachPackets m") auto
  then have m1: "m1 = fst (mipiCx3AttachPackets m)" by simp
  obtain pc1 where pc1: "cg_currentPacketContainer (m_container m1) = Some pc1"
    using mipiCx3AttachPackets_slots [OF assms(2)] m1 by auto
  have dx: "m_dataExchange m1 = m_dataExchange m" unfolding m1 by simp
  obtain c' h' msgs where x:
    "containerGenerationExecute e False 0 (mts_current (m_timestamps m1)) (mcfg_deviceID mcfg)
       (m_container m1, m_dataExchange m1, m_memory m1)
     = Some (c', (m_dataExchange m1)\<lparr> dx_buffer := dx_buffer (m_dataExchange m1) @ [pc1] \<rparr>, h', msgs)"
    "cg_currentPacketContainer c' = None"
    using containerGenerationExecute_room1 [of "m_container m1" pc1 "m_dataExchange m1"] pc1 assms(3) dx
    by metis
  have "mipiCx3Commit mcfg m =
          Some (m1\<lparr> m_container := c',
                   m_dataExchange := (m_dataExchange m1)\<lparr> dx_buffer := dx_buffer (m_dataExchange m1) @ [pc1] \<rparr>,
                   m_memory := h', m_logged := m_logged m1 @ msgs \<rparr>)"
    using assms(1) a x(1) by (simp add: mipiCx3Commit_def)
  then show ?thesis
    using x(2) pc1 dx m1 mipiCx3AttachPackets_manager(3,4) [of m] by auto
qed

text \<open>
  Claim C7. At a commit (davis.c:3222-3341, and the same two blocks of
  \<open>mipiCx3EventTranslator\<close>), with a container at hand, for each of the four packet types
  (two in the MIPI translator): if the write position is greater than zero, the container's
  slot of that type holds the translator's packet and the translator's reference is null;
  otherwise the slot and the reference are as before, the packet stays open. All write
  positions are zero afterwards. On a commit trigger, with room in the ring buffer, the
  commit returns, the translator's references and positions are those the attach blocks
  leave, the container with the attached packets is handed to the ring buffer and the
  translator is left without a container. Consequently a packet instance that a commit
  attached is never again behind the translator's reference of that type, through the rest
  of the commit and any number of further units, so that no later commit can attach it
  again: what a commit attaches is what the reference holds. The last two statements hold
  for the DAVIS translator and for the MIPI translator alike.
\<close>

theorem commit_attaches_nonempty_packets_once:
  assumes "cg_currentPacketContainer (container s) = Some pc"
    and "davisAttachPackets s = (s1, emptyContainerCommit)"
    and "cg_currentPacketContainer (m_container m) = Some mpc"
    and "mipiCx3AttachPackets m = (m1, mipiEmptyContainerCommit)"
  shows "(\<exists>pc1. cg_currentPacketContainer (container s1) = Some pc1
           \<and> (if cp_polarityPosition (currentPackets s) > 0
               then pc_polarity pc1 = cp_polarity (currentPackets s) \<and> cp_polarity (currentPackets s1) = None
               else pc_polarity pc1 = pc_polarity pc \<and> cp_polarity (currentPackets s1) = cp_polarity (currentPackets s))
           \<and> (if cp_specialPosition (currentPackets s) > 0
               then pc_special pc1 = cp_special (currentPackets s) \<and> cp_special (currentPackets s1) = None
               else pc_special pc1 = pc_special pc \<and> cp_special (currentPackets s1) = cp_special (currentPackets s))
           \<and> (if cp_framePosition (currentPackets s) > 0
               then pc_frame pc1 = cp_frame (currentPackets s) \<and> cp_frame (currentPackets s1) = None
               else pc_frame pc1 = pc_frame pc \<and> cp_frame (currentPackets s1) = cp_frame (currentPackets s))
           \<and> (if cp_imu6Position (currentPackets s) > 0
               then pc_imu6 pc1 = cp_imu6 (currentPackets s) \<and> cp_imu6 (currentPackets s1) = None
               else pc_imu6 pc1 = pc_imu6 pc \<and> cp_imu6 (currentPackets s1) = cp_imu6 (currentPackets s)))
         \<and> (cp_polarityPosition (currentPackets s1) = 0 \<and> cp_specialPosition (currentPackets s1) = 0
            \<and> cp_framePosition (currentPackets s1) = 0 \<and> cp_imu6Position (currentPackets s1) = 0)
         \<and> (\<forall>kind i cfg tsReset tsBigWrap s2 events s3.
               managerRefIdent kind s = Some i \<and> managerPosition kind s > 0
               \<and> i < heap_nextIdent (memory s)
               \<and> davisCommitTriggered tsReset tsBigWrap s
               \<and> davisCommit cfg tsReset tsBigWrap s = Some s2
               \<and> davisTranslateUnits cfg events s2 = Some s3
               \<longrightarrow> managerRefIdent kind s3 \<noteq> Some i)
         \<and> (\<exists>mpc1. cg_currentPacketContainer (m_container m1) = Some mpc1
           \<and> (if m_polarityPosition m > 0
               then pc_polarity mpc1 = m_polarity m \<and> m_polarity m1 = None
               else pc_polarity mpc1 = pc_polarity mpc \<and> m_polarity m1 = m_polarity m)
           \<and> (if m_specialPosition m > 0
               then pc_special mpc1 = m_special m \<and> m_special m1 = None
               else pc_special mpc1 = pc_special mpc \<and> m_special m1 = m_special m))
         \<and> (m_polarityPosition m1 = 0 \<and> m_specialPosition m1 = 0)
         \<and> (\<forall>cfg tsReset tsBigWrap.
               davisCommitTriggered tsReset tsBigWrap s
               \<and> length (dx_buffer (dataExchange s)) + 2 \<le> dx_capacity (dataExchange s)
               \<longrightarrow> (\<exists>s2 rest. davisCommit cfg tsReset tsBigWrap s = Some s2
                      \<and> currentPackets s2 = currentPackets s1
                      \<and> dx_buffer (dataExchange s2) =
                          dx_buffer (dataExchange s) @ the (cg_currentPacketContainer (container s1)) # rest
                      \<and> cg_currentPacketContainer (container s2) = None))
         \<and> (\<forall>mcfg.
               mipiCx3CommitTriggered m
               \<and> length (dx_buffer (m_dataExchange m)) < dx_capacity (m_dataExchange m)
               \<longrightarrow> (\<exists>m2. mipiCx3Commit mcfg m = Some m2
                      \<and> m_polarity m2 = m_polarity m1 \<and> m_special m2 = m_special m1
                      \<and> m_polarityPosition m2 = 0 \<and> m_specialPosition m2 = 0
                      \<and> dx_buffer (m_dataExchange m2) =
                          dx_buffer (m_dataExchange m) @ [the (cg_currentPacketContainer (m_container m1))]
                      \<and> cg_currentPacketContainer (m_container m2) = None))
         \<and> (\<forall>kind i mcfg m2 events m3.
               mipiCx3RefIdent kind m = Some i \<and> mipiCx3Position kind m > 0
               \<and> i < heap_nextIdent (m_memory m)
               \<and> mipiCx3CommitTriggered m
               \<and> mipiCx3Commit mcfg m = Some m2
               \<and> mipiCx3TranslateUnits mcfg events m2 = Some m3
               \<longrightarrow> mipiCx3RefIdent kind m3 \<noteq> Some i)"
proof -
  have s1: "s1 = fst (davisAttachPackets s)" using assms(2) by simp
  have m1: "m1 = fst (mipiCx3AttachPackets m)" using assms(4) by simp
  have A: "\<exists>pc1. cg_currentPacketContainer (container s1) = Some pc1
           \<and> (if cp_polarityPosition (currentPackets s) > 0
               then pc_polarity pc1 = cp_polarity (currentPackets s) \<and> cp_polarity (currentPackets s1) = None
               else pc_polarity pc1 = pc_polarity pc \<and> cp_polarity (currentPackets s1) = cp_polarity (currentPackets s))
           \<and> (if cp_specialPosition (currentPackets s) > 0
               then pc_special pc1 = cp_special (currentPackets s) \<and> cp_special (currentPackets s1) = None
               else pc_special pc1 = pc_special pc \<and> cp_special (currentPackets s1) = cp_special (currentPackets s))
           \<and> (if cp_framePosition (currentPackets s) > 0
               then pc_frame pc1 = cp_frame (currentPackets s) \<and> cp_frame (currentPackets s1) = None
               else pc_frame pc1 = pc_frame pc \<and> cp_frame (currentPackets s1) = cp_frame (currentPackets s))
           \<and> (if cp_imu6Position (currentPackets s) > 0
               then pc_imu6 pc1 = cp_imu6 (currentPackets s) \<and> cp_imu6 (currentPackets s1) = None
               else pc_imu6 pc1 = pc_imu6 pc \<and> cp_imu6 (currentPackets s1) = cp_imu6 (currentPackets s))"
    using davisAttachPackets_slots [OF assms(1)]
    unfolding s1 davisAttachPackets_manager by auto
  have P: "cp_polarityPosition (currentPackets s1) = 0" "cp_specialPosition (currentPackets s1) = 0"
    "cp_framePosition (currentPackets s1) = 0" "cp_imu6Position (currentPackets s1) = 0"
    unfolding s1 by (simp_all add: davisAttachPackets_manager)
  have B0: "managerRefIdent kind s3 \<noteq> Some i"
    if h: "managerRefIdent kind s = Some i" "managerPosition kind s > 0" "i < heap_nextIdent (memory s)"
      "davisCommitTriggered tsReset tsBigWrap s" "davisCommit cfg tsReset tsBigWrap s = Some s2"
      "davisTranslateUnits cfg events s2 = Some s3"
    for kind i cfg tsReset tsBigWrap s2 events s3
  proof -
    have "managerRefIdent kind s2 = None" and "i < heap_nextIdent (memory s2)"
      using davisCommit_refs(1) [OF h(5)] davisCommit_refs(2) [OF h(5), of kind] h(2,3,4) by auto
    then show ?thesis using notHeld_units [OF h(6), of kind i] by simp
  qed
  then have B: "\<forall>kind i cfg tsReset tsBigWrap s2 events s3.
               managerRefIdent kind s = Some i \<and> managerPosition kind s > 0
               \<and> i < heap_nextIdent (memory s)
               \<and> davisCommitTriggered tsReset tsBigWrap s
               \<and> davisCommit cfg tsReset tsBigWrap s = Some s2
               \<and> davisTranslateUnits cfg events s2 = Some s3
               \<longrightarrow> managerRefIdent kind s3 \<noteq> Some i"
    by blast
  have MA: "\<exists>mpc1. cg_currentPacketContainer (m_container m1) = Some mpc1
           \<and> (if m_polarityPosition m > 0
               then pc_polarity mpc1 = m_polarity m \<and> m_polarity m1 = None
               else pc_polarity mpc1 = pc_polarity mpc \<and> m_polarity m1 = m_polarity m)
           \<and> (if m_specialPosition m > 0
               then pc_special mpc1 = m_special m \<and> m_special m1 = None
               else pc_special mpc1 = pc_special mpc \<and> m_special m1 = m_special m)"
    using mipiCx3AttachPackets_slots [OF assms(3)]
    unfolding m1 mipiCx3AttachPackets_manager by auto
  have MP: "m_polarityPosition m1 = 0" "m_specialPosition m1 = 0"
    unfolding m1 by (simp_all add: mipiCx3AttachPackets_manager)
  have DC: "\<forall>cfg tsReset tsBigWrap.
               davisCommitTriggered tsReset tsBigWrap s
               \<and> length (dx_buffer (dataExchange s)) + 2 \<le> dx_capacity (dataExchange s)
               \<longrightarrow> (\<exists>s2 rest. davisCommit cfg tsReset tsBigWrap s = Some s2
                      \<and> currentPackets s2 = currentPackets s1
                      \<and> dx_buffer (dataExchange s2) =
                          dx_buffer (dataExchange s) @ the (cg_currentPacketContainer (container s1)) # rest
                      \<and> cg_currentPacketContainer (container s2) = None)"
    unfolding s1 using davisCommit_triggered [OF _ assms(1)] by blast
  have MC: "\<forall>mcfg.
               mipiCx3CommitTriggered m
               \<and> length (dx_buffer (m_dataExchange m)) < dx_capacity (m_dataExchange m)
               \<longrightarrow> (\<exists>m2. mipiCx3Commit mcfg m = Some m2
                      \<and> m_polarity m2 = m_polarity m1 \<and> m_special m2 = m_special m1
                      \<and> m_polarityPosition m2 = 0 \<and> m_specialPosition m2 = 0
                      \<and> dx_buffer (m_dataExchange m2) =
                          dx_buffer (m_dataExchange m) @ [the (cg_currentPacketContainer (m_container m1))]
                      \<and> cg_currentPacketContainer (m_container m2) = None)"
    unfolding m1 using mipiCx3Commit_triggered [OF _ assms(3)] by blast
  have MB0: "mipiCx3RefIdent kind m3 \<noteq> Some i"
    if h: "mipiCx3RefIdent kind m = Some i" "mipiCx3Position kind m > 0" "i < heap_nextIdent (m_memory m)"
      "mipiCx3CommitTriggered m" "mipiCx3Commit mcfg m = Some m2"
      "mipiCx3TranslateUnits mcfg events m2 = Some m3"
    for kind i mcfg m2 events m3
  proof -
    have "mipiCx3RefIdent kind m2 = None" and "i < heap_nextIdent (m_memory m2)"
      using mipiCx3Commit_refs(1) [OF h(5)] mipiCx3Commit_refs(2) [OF h(5), of kind] h(2,3,4) by auto
    then show ?thesis using mipiCx3_notHeld_units [OF h(6), of kind i] by simp
  qed
  then have MB: "\<forall>kind i mcfg m2 events m3.
               mipiCx3RefIdent kind m = Some i \<and> mipiCx3Position kind m > 0
               \<and> i < heap_nextIdent (m_memory m)
               \<and> mipiCx3CommitTriggered m
               \<and> mipiCx3Commit mcfg m = Some m2
               \<and> mipiCx3TranslateUnits mcfg events m2 = Some m3
               \<longrightarrow> mipiCx3RefIdent kind m3 \<noteq> Some i"
    by blast
  show ?thesis
    using A P B MA MP DC MC MB by (intro conjI) assumption+
qed



theorem commit_attaches_nonempty_packets_once_witness:
  "cg_currentPacketContainer (container exampleStateOneEvent) = Some emptyPacketContainer
   \<and> managerPosition POLARITY_EVENT exampleStateOneEvent = 1
   \<and> managerRefIdent POLARITY_EVENT exampleStateOneEvent = Some 0
   \<and> davisCommitTriggered False False exampleStateOneEvent
   \<and> cp_polarity (currentPackets (fst (davisAttachPackets exampleStateOneEvent))) = None
   \<and> cp_special (currentPackets (fst (davisAttachPackets exampleStateOneEvent))) = Some (examplePacket 1 2)
   \<and> managerRefIdent POLARITY_EVENT
        (the (davisTranslateUnits exampleConfig [0x1001]
           (the (davisCommit exampleConfig False False exampleStateOneEvent)))) \<noteq> Some 0
   \<and> managerRefIdent POLARITY_EVENT
        (the (davisTranslateUnits exampleConfig [0x1001]
           (the (davisCommit exampleConfig False False exampleStateOneEvent)))) = Some 4
   \<and> map_option (map (map_option pk_ident \<circ> pc_polarity) \<circ> dx_buffer \<circ> dataExchange)
        (davisTranslateUnits exampleConfig [0x1001, 0x3002]
           (the (davisCommit exampleConfig False False exampleStateOneEvent))) = Some [Some 0, Some 4]
   \<and> m_polarity (fst (mipiCx3AttachPackets exampleMipiStateOneEvent)) = None
   \<and> m_polarityPosition (fst (mipiCx3AttachPackets exampleMipiStateOneEvent)) = 0
   \<and> cp_polarity (currentPackets (the (davisCommit exampleConfig False False exampleStateOneEvent))) = None
   \<and> map (map_option pk_ident \<circ> pc_polarity)
        (dx_buffer (dataExchange (the (davisCommit exampleConfig False False exampleStateOneEvent))))
       = [Some 0]
   \<and> mipiCx3CommitTriggered exampleMipiStateOneEvent
   \<and> mipiCx3RefIdent POLARITY_EVENT exampleMipiStateOneEvent = Some 0
   \<and> mipiCx3Commit exampleMipiConfig exampleMipiStateOneEvent \<noteq> None
   \<and> m_polarity (the (mipiCx3Commit exampleMipiConfig exampleMipiStateOneEvent)) = None
   \<and> map (map_option pk_ident \<circ> pc_polarity)
        (dx_buffer (m_dataExchange (the (mipiCx3Commit exampleMipiConfig exampleMipiStateOneEvent))))
       = [Some 0]
   \<and> mipiCx3RefIdent POLARITY_EVENT
        (the (mipiCx3TranslateUnits exampleMipiConfig [0x04000003]
           (the (mipiCx3Commit exampleMipiConfig exampleMipiStateOneEvent)))) \<noteq> Some 0
   \<and> mipiCx3RefIdent POLARITY_EVENT
        (the (mipiCx3TranslateUnits exampleMipiConfig [0x04000003]
           (the (mipiCx3Commit exampleMipiConfig exampleMipiStateOneEvent)))) = Some 2"
proof -
  have h1: "cg_currentPacketContainer (container exampleStateOneEvent) = Some emptyPacketContainer"
    by (simp add: exampleStateOneEvent_def exampleState_def)
  have h2: "davisAttachPackets exampleStateOneEvent =
              (fst (davisAttachPackets exampleStateOneEvent), snd (davisAttachPackets exampleStateOneEvent))"
    by simp
  have h3: "cg_currentPacketContainer (m_container exampleMipiStateOneEvent) = Some emptyPacketContainer"
    by (simp add: exampleMipiStateOneEvent_def mipi_eval)
  have h4: "mipiCx3AttachPackets exampleMipiStateOneEvent =
              (fst (mipiCx3AttachPackets exampleMipiStateOneEvent), snd (mipiCx3AttachPackets exampleMipiStateOneEvent))"
    by simp
  note r = commit_attaches_nonempty_packets_once [OF h1 h2 h3 h4]
  note t = r [THEN conjunct1] r [THEN conjunct2, THEN conjunct1]
    r [THEN conjunct2, THEN conjunct2, THEN conjunct1]
    r [THEN conjunct2, THEN conjunct2, THEN conjunct2, THEN conjunct1]
    r [THEN conjunct2, THEN conjunct2, THEN conjunct2, THEN conjunct2, THEN conjunct1]
    r [THEN conjunct2, THEN conjunct2, THEN conjunct2, THEN conjunct2, THEN conjunct2, THEN conjunct1]
    r [THEN conjunct2, THEN conjunct2, THEN conjunct2, THEN conjunct2, THEN conjunct2, THEN conjunct2,
       THEN conjunct1]
    r [THEN conjunct2, THEN conjunct2, THEN conjunct2, THEN conjunct2, THEN conjunct2, THEN conjunct2,
       THEN conjunct2]
  have pos: "managerPosition POLARITY_EVENT exampleStateOneEvent = 1"
    "cp_polarityPosition (currentPackets exampleStateOneEvent) > 0"
    "cp_specialPosition (currentPackets exampleStateOneEvent) = 0"
    "cp_special (currentPackets exampleStateOneEvent) = Some (examplePacket 1 2)"
    "managerRefIdent POLARITY_EVENT exampleStateOneEvent = Some 0"
    "0 < heap_nextIdent (memory exampleStateOneEvent)"
    by (simp_all add: exampleStateOneEvent_def exampleState_def examplePacket_def packetSetEvent_def)
  have mpos: "m_polarityPosition exampleMipiStateOneEvent > 0"
    by (simp add: exampleMipiStateOneEvent_def)
  have trig: "davisCommitTriggered False False exampleStateOneEvent"
    by (simp add: exampleStateOneEvent_def davis_eval Let_def)
  have a: "cp_polarity (currentPackets (fst (davisAttachPackets exampleStateOneEvent))) = None"
    "cp_special (currentPackets (fst (davisAttachPackets exampleStateOneEvent))) = Some (examplePacket 1 2)"
    using t(1) pos(2,3,4) by auto
  have ma: "m_polarity (fst (mipiCx3AttachPackets exampleMipiStateOneEvent)) = None"
    "m_polarityPosition (fst (mipiCx3AttachPackets exampleMipiStateOneEvent)) = 0"
    using t(4,5) mpos by auto
  have run: "managerRefIdent POLARITY_EVENT
        (the (davisTranslateUnits exampleConfig [0x1001]
           (the (davisCommit exampleConfig False False exampleStateOneEvent)))) = Some 4"
    "map_option (map (map_option pk_ident \<circ> pc_polarity) \<circ> dx_buffer \<circ> dataExchange)
        (davisTranslateUnits exampleConfig [0x1001, 0x3002]
           (the (davisCommit exampleConfig False False exampleStateOneEvent))) = Some [Some 0, Some 4]"
    by (simp_all add: exampleStateOneEvent_def davis_eval commit_eval davisAllocatePackets_def
          allocateIfNull_def caerEventPacketAllocate_def davisYAddress_def davisXAddress_def
          davisPolarityEvent_def Let_def)
  have c: "davisCommit exampleConfig False False exampleStateOneEvent
             = Some (the (davisCommit exampleConfig False False exampleStateOneEvent))"
    by (simp add: exampleStateOneEvent_def davis_eval commit_eval Let_def)
  have u: "davisTranslateUnits exampleConfig [0x1001]
             (the (davisCommit exampleConfig False False exampleStateOneEvent))
           = Some (the (davisTranslateUnits exampleConfig [0x1001]
                     (the (davisCommit exampleConfig False False exampleStateOneEvent))))"
    by (simp add: exampleStateOneEvent_def davis_eval commit_eval davisAllocatePackets_def
          allocateIfNull_def caerEventPacketAllocate_def davisYAddress_def Let_def)
  have b: "managerRefIdent POLARITY_EVENT
        (the (davisTranslateUnits exampleConfig [0x1001]
           (the (davisCommit exampleConfig False False exampleStateOneEvent)))) \<noteq> Some 0"
    using t(3) [rule_format, where kind = POLARITY_EVENT and i = 0 and cfg = exampleConfig
                  and tsReset = False and tsBigWrap = False and events = "[0x1001]"]
      pos(1,5,6) trig c u by simp
  have room: "length (dx_buffer (dataExchange exampleStateOneEvent)) + 2
                \<le> dx_capacity (dataExchange exampleStateOneEvent)"
    "dx_buffer (dataExchange exampleStateOneEvent) = []"
    by (simp_all add: exampleStateOneEvent_def exampleState_def)
  have pc1: "map_option (map_option pk_ident \<circ> pc_polarity)
               (cg_currentPacketContainer (container (fst (davisAttachPackets exampleStateOneEvent))))
             = Some (Some 0)"
    using t(1) pos(2,5) by auto
  obtain s2 rest where dc: "davisCommit exampleConfig False False exampleStateOneEvent = Some s2"
    "currentPackets s2 = currentPackets (fst (davisAttachPackets exampleStateOneEvent))"
    "dx_buffer (dataExchange s2) =
       dx_buffer (dataExchange exampleStateOneEvent)
       @ the (cg_currentPacketContainer (container (fst (davisAttachPackets exampleStateOneEvent)))) # rest"
    using t(6) [rule_format, of False False exampleConfig] trig room(1) by blast
  have "length (dx_buffer (dataExchange (the (davisCommit exampleConfig False False exampleStateOneEvent)))) = 1"
    by (simp add: exampleStateOneEvent_def davis_eval commit_eval Let_def)
  then have rest: "rest = []" using dc(1,3) room(2) by simp
  have d: "cp_polarity (currentPackets (the (davisCommit exampleConfig False False exampleStateOneEvent))) = None"
    "map (map_option pk_ident \<circ> pc_polarity)
        (dx_buffer (dataExchange (the (davisCommit exampleConfig False False exampleStateOneEvent))))
       = [Some 0]"
    using dc rest room(2) a(1) pc1 t(1) by auto
  have mtrig: "mipiCx3CommitTriggered exampleMipiStateOneEvent"
    by (simp add: exampleMipiStateOneEvent_def mipi_eval Let_def)
  have mroom: "length (dx_buffer (m_dataExchange exampleMipiStateOneEvent))
                 < dx_capacity (m_dataExchange exampleMipiStateOneEvent)"
    "dx_buffer (m_dataExchange exampleMipiStateOneEvent) = []"
    by (simp_all add: exampleMipiStateOneEvent_def mipi_eval)
  have mref: "mipiCx3RefIdent POLARITY_EVENT exampleMipiStateOneEvent = Some 0"
    "mipiCx3Position POLARITY_EVENT exampleMipiStateOneEvent > 0"
    "0 < heap_nextIdent (m_memory exampleMipiStateOneEvent)"
    "map_option pk_ident (m_polarity exampleMipiStateOneEvent) = Some 0"
    by (simp_all add: exampleMipiStateOneEvent_def mipi_eval examplePacket_def packetSetEvent_def)
  have mpc1: "map_option (map_option pk_ident \<circ> pc_polarity)
               (cg_currentPacketContainer (m_container (fst (mipiCx3AttachPackets exampleMipiStateOneEvent))))
             = Some (Some 0)"
    using t(4) mpos mref(4) by auto
  obtain m2 where mc: "mipiCx3Commit exampleMipiConfig exampleMipiStateOneEvent = Some m2"
    "m_polarity m2 = m_polarity (fst (mipiCx3AttachPackets exampleMipiStateOneEvent))"
    "dx_buffer (m_dataExchange m2) =
       dx_buffer (m_dataExchange exampleMipiStateOneEvent)
       @ [the (cg_currentPacketContainer (m_container (fst (mipiCx3AttachPackets exampleMipiStateOneEvent))))]"
    using t(7) [rule_format, of exampleMipiConfig] mtrig mroom(1) by blast
  have md: "mipiCx3Commit exampleMipiConfig exampleMipiStateOneEvent \<noteq> None"
    "m_polarity (the (mipiCx3Commit exampleMipiConfig exampleMipiStateOneEvent)) = None"
    "map (map_option pk_ident \<circ> pc_polarity)
        (dx_buffer (m_dataExchange (the (mipiCx3Commit exampleMipiConfig exampleMipiStateOneEvent))))
       = [Some 0]"
    using mc mroom(2) ma(1) mpc1 t(4) by auto
  have mu: "mipiCx3TranslateUnits exampleMipiConfig [0x04000003] m2 \<noteq> None"
    "mipiCx3RefIdent POLARITY_EVENT (the (mipiCx3TranslateUnits exampleMipiConfig [0x04000003] m2)) = Some 2"
    using mc(1)
    by (auto simp: exampleMipiStateOneEvent_def mipi_eval commit_eval mipiCx3AttachPackets_def
          mipiCx3AttachPolarity_def mipiCx3AttachSpecial_def mipiCx3AllocatePackets_def
          allocateIfNull_def caerEventPacketAllocate_def Let_def)
  then obtain m3 where m3: "mipiCx3TranslateUnits exampleMipiConfig [0x04000003] m2 = Some m3" by auto
  have mb: "mipiCx3RefIdent POLARITY_EVENT m3 \<noteq> Some 0"
    using t(8) [rule_format, where kind = POLARITY_EVENT and i = 0 and mcfg = exampleMipiConfig
                  and events = "[0x04000003]"]
      mref(1,2,3) mtrig mc(1) m3 by simp
  have me: "the (mipiCx3Commit exampleMipiConfig exampleMipiStateOneEvent) = m2"
    "the (mipiCx3TranslateUnits exampleMipiConfig [0x04000003] m2) = m3"
    using mc(1) m3 by simp_all
  show ?thesis using h1 pos(1,5) trig a ma b run d mtrig mref(1) md mb mu(2) me by simp
qed

end
